theory Spec2Isabelle
  imports Complex_Main "HOL-Library.Sublist"
begin

section \<open>Python values and errors\<close>

text \<open>
  Both generators are Python methods that mutate a generator object through calls of the
  host framework. The models pass the generator's state explicitly. An exception is a
  value: for the layout generator the state reached at the raise is returned with it
  (there is no rollback), for the schematic generator the result is the exception alone.
\<close>

datatype value_error =
    Unsupported_num_dec int        \<comment> \<open>\<^verbatim>\<open>raise ValueError(f'num_dec={num_dec} is not supported yet...')\<close>\<close>
  | Negative_shift_count           \<comment> \<open>\<^verbatim>\<open>1 << n\<close> with \<^verbatim>\<open>n < 0\<close>\<close>
  | Unpack nat nat                 \<comment> \<open>tuple unpacking: expected, got\<close>

datatype error =
    AssertionError
  | ValueError value_error
  | IndexError
  | KeyError string
  | AttributeError

text \<open>Python's \<^verbatim>\<open>str\<close> of an integer, as used by the f-strings \<^verbatim>\<open>f'sel<{idx}>'\<close>.\<close>

fun str_nat :: "nat \<Rightarrow> string" where
  "str_nat n =
     (if n < 10 then [''0123456789'' ! n]
      else str_nat (n div 10) @ [''0123456789'' ! (n mod 10)])"

declare str_nat.simps [simp del]

definition str_int :: "int \<Rightarrow> string" where
  "str_int i = (if i < 0 then ''-'' @ str_nat (nat (- i)) else str_nat (nat i))"

text \<open>\<^verbatim>\<open>range(n)\<close>: the integers from 0 below n, empty when n is not positive.\<close>

definition py_range :: "int \<Rightarrow> int list" where
  "py_range n = map int [0..<nat n]"

section \<open>The RDAC layout assembler (layout/rdac.py)\<close>

subsection \<open>Geometry and routing objects of the host framework\<close>

record bbox =
  xl :: int
  yl :: int
  xh :: int
  yh :: int

definition bbox_w :: "bbox \<Rightarrow> int" where
  "bbox_w b = xh b - xl b"

definition bbox_h :: "bbox \<Rightarrow> int" where
  "bbox_h b = yh b - yl b"

definition bbox_xm :: "bbox \<Rightarrow> int" where
  "bbox_xm b = (xl b + xh b) div 2"

datatype orientation = R0 | MY

record transform =
  dx :: int
  dy :: int
  orient :: orientation

text \<open>The two masters made by \<^verbatim>\<open>new_template\<close>: the wrapped resistor ladder and the wrapped decoder.\<close>

datatype master = ResMaster | DecMaster

record inst =
  inst_master :: master
  inst_xform :: transform

text \<open>Track indices are the framework's half-integers; they are kept as integers in half-track units.\<close>

record track_id =
  tid_layer :: int
  tid_index :: int
  tid_width :: int
  tid_num :: int
  tid_pitch :: int

record warr =
  warr_tid :: track_id
  lower :: int
  upper :: int

definition middle :: "warr \<Rightarrow> int" where
  "middle wa = (lower wa + upper wa) div 2"

datatype pin_mode = PinMode_ALL | PinMode_LOWER | PinMode_MIDDLE | PinMode_UPPER

datatype direction = Direction_LOWER | Direction_UPPER

datatype round_mode =
  RoundMode_NONE | RoundMode_LESS | RoundMode_LESS_EQ | RoundMode_NEAREST
  | RoundMode_GREATER_EQ | RoundMode_GREATER

datatype min_len_mode = MinLenMode_LOWER | MinLenMode_MIDDLE | MinLenMode_UPPER

type_synonym lay_purp = "string \<times> string"

record pin =
  pin_name :: string
  pin_warrs :: "warr list"
  pin_mode :: pin_mode
  pin_connect :: bool

datatype conn =
    BBox_to_track_wires direction lay_purp bbox warr
  | To_tracks "warr list" track_id "min_len_mode option" "int option" "int option"

text \<open>
  The part of the generator object that \<^verbatim>\<open>draw_layout\<close> writes: placed instances, drawn
  wires, exported pins, the connections made, the size and the schematic parameters (of
  which \<^verbatim>\<open>num_dec\<close> is kept; the parameters of the two masters are the framework's).
\<close>

record layout =
  lay_instances :: "inst list"
  lay_wires :: "warr list"
  lay_pins :: "pin list"
  lay_conns :: "conn list"
  lay_size :: "(int \<times> bbox) option"
  lay_sch_params :: "int option"

text \<open>
  Everything \<^verbatim>\<open>draw_layout\<close> reads and does not compute itself: the parameters, the
  geometry of the two masters, and the results of the host framework's grid, track
  manager and instance queries. These services are not part of the repository; they are
  parameters of the model, and every theorem holds for all of them.
\<close>

record env =
  num_dec :: int
  num_sel_row :: int                 \<comment> \<open>\<^verbatim>\<open>dec_params['num_sel_row']\<close>\<close>
  num_sel_col :: int                 \<comment> \<open>\<^verbatim>\<open>dec_params['num_sel_col']\<close>\<close>
  res_bound_box :: bbox              \<comment> \<open>\<^verbatim>\<open>res_master.bound_box\<close>\<close>
  core_coord0 :: int                 \<comment> \<open>\<^verbatim>\<open>res_core.core_coord0\<close>\<close>
  dec_bound_box :: bbox              \<comment> \<open>\<^verbatim>\<open>dec_master.bound_box\<close>\<close>
  pg_coord0 :: int                   \<comment> \<open>\<^verbatim>\<open>dec_core.pg_coord0\<close>\<close>
  top_layer :: int                   \<comment> \<open>\<^verbatim>\<open>dec_core.top_layer\<close>\<close>
  get_lay_purp_list :: "int \<Rightarrow> lay_purp list"
  get_size_pitch :: "int \<Rightarrow> int \<times> int"
  size_bound_box :: "int \<Rightarrow> bbox \<Rightarrow> bbox"
    \<comment> \<open>\<^verbatim>\<open>self.bound_box\<close> after \<^verbatim>\<open>set_size_from_bound_box(layer, bbox, round_up=True)\<close>\<close>
  inst_bound_box :: "inst \<Rightarrow> bbox"
  get_pin :: "inst \<Rightarrow> string \<Rightarrow> bbox"             \<comment> \<open>a decoder pin, a box\<close>
  get_pin_warr :: "inst \<Rightarrow> string \<Rightarrow> warr"        \<comment> \<open>a ladder pin, a wire\<close>
  get_pin_layer :: "inst \<Rightarrow> string \<Rightarrow> int \<Rightarrow> warr"  \<comment> \<open>\<^verbatim>\<open>get_pin(name, layer=...)\<close>\<close>
  get_all_port_pins :: "inst \<Rightarrow> string \<Rightarrow> warr list"
  warr_iter :: "warr \<Rightarrow> warr list"
  find_track_width :: "int \<Rightarrow> int \<Rightarrow> int"
  coord_to_track :: "int \<Rightarrow> int \<Rightarrow> round_mode \<Rightarrow> int"
  get_next_track :: "int \<Rightarrow> int \<Rightarrow> string \<Rightarrow> string \<Rightarrow> int \<Rightarrow> int"
  get_width :: "int \<Rightarrow> string \<Rightarrow> int"
  spread_wires :: "int \<Rightarrow> string list \<Rightarrow> int \<Rightarrow> int \<Rightarrow> string \<times> string \<Rightarrow> int list"
  tracks_warr :: "warr list \<Rightarrow> track_id \<Rightarrow> min_len_mode option \<Rightarrow> int option \<Rightarrow> int option \<Rightarrow> warr"
    \<comment> \<open>the wire that \<^verbatim>\<open>connect_to_tracks\<close> returns\<close>

subsection \<open>The framework calls that change the layout\<close>

text \<open>
  Modelled from the spec: the methods of the host framework's template class are not part
  of the repository. Each is modelled by what it leaves in the layout (the instance
  placed, the wire drawn, the pin exported, the connection made) and by the instance or
  wire it returns; the geometry of a returned wire is the framework's and comes from the
  environment.
\<close>

definition add_instance :: "master \<Rightarrow> transform \<Rightarrow> layout \<Rightarrow> inst \<times> layout" where
  "add_instance m xf s =
     (let i = \<lparr>inst_master = m, inst_xform = xf\<rparr>
      in (i, s\<lparr>lay_instances := lay_instances s @ [i]\<rparr>))"

definition add_wires :: "int \<Rightarrow> int \<Rightarrow> int \<Rightarrow> int \<Rightarrow> int \<Rightarrow> layout \<Rightarrow> warr \<times> layout" where
  "add_wires layer tidx lo up wd s =
     (let wa = \<lparr>warr_tid = \<lparr>tid_layer = layer, tid_index = tidx, tid_width = wd,
                             tid_num = 1, tid_pitch = 0\<rparr>,
                lower = lo, upper = up\<rparr>
      in (wa, s\<lparr>lay_wires := lay_wires s @ [wa]\<rparr>))"

definition add_pin :: "string \<Rightarrow> warr list \<Rightarrow> pin_mode \<Rightarrow> bool \<Rightarrow> layout \<Rightarrow> layout" where
  "add_pin name was md cn s =
     s\<lparr>lay_pins := lay_pins s @
         [\<lparr>pin_name = name, pin_warrs = was, pin_mode = md, pin_connect = cn\<rparr>]\<rparr>"

definition connect_bbox_to_track_wires ::
  "direction \<Rightarrow> lay_purp \<Rightarrow> bbox \<Rightarrow> warr \<Rightarrow> layout \<Rightarrow> layout" where
  "connect_bbox_to_track_wires d lp b wa s =
     s\<lparr>lay_conns := lay_conns s @ [BBox_to_track_wires d lp b wa]\<rparr>"

definition connect_to_tracks ::
  "env \<Rightarrow> warr list \<Rightarrow> track_id \<Rightarrow> min_len_mode option \<Rightarrow> int option \<Rightarrow> int option
     \<Rightarrow> layout \<Rightarrow> warr \<times> layout" where
  "connect_to_tracks e was tid mlm tlo tup s =
     (let wa = tracks_warr e was tid mlm tlo tup
      in (wa, s\<lparr>lay_conns := lay_conns s @ [To_tracks was tid mlm tlo tup],
                lay_wires := lay_wires s @ [wa]\<rparr>))"

definition set_size_from_bound_box :: "env \<Rightarrow> int \<Rightarrow> bbox \<Rightarrow> layout \<Rightarrow> bbox \<times> layout" where
  "set_size_from_bound_box e layer b s =
     (let bb = size_bound_box e layer b in (bb, s\<lparr>lay_size := Some (layer, bb)\<rparr>))"

definition track_id1 :: "int \<Rightarrow> int \<Rightarrow> int \<Rightarrow> track_id" where
  "track_id1 layer tidx wd =
     \<lparr>tid_layer = layer, tid_index = tidx, tid_width = wd, tid_num = 1, tid_pitch = 0\<rparr>"

subsection \<open>Placement (lines 48 to 97)\<close>

text \<open>The local variables of \<^verbatim>\<open>draw_layout\<close> that the routing part reads.\<close>

record placed =
  dec1_inst :: "inst option"
  dec0_inst :: inst
  res_inst :: inst
  dec_list :: "inst list"
  off_y :: int
  num_sel :: int
  num_in :: nat
  xxm_layer :: int
  yym_layer :: int
  ym_layer :: int
  vm_layer :: int
  vm_lp :: lay_purp
  bound_box_yh :: int

definition place_decoders ::
  "int \<Rightarrow> int \<Rightarrow> layout \<Rightarrow> (error \<times> layout) + ((inst option \<times> int \<times> inst list) \<times> layout)" where
  "place_decoders n_dec dec_w s0 =
     (if n_dec = 2 then
        (let (d1, s1) = add_instance DecMaster \<lparr>dx = dec_w, dy = 0, orient = MY\<rparr> s0
         in Inr ((Some d1, dec_w, [d1]), s1))
      else if n_dec = 1 then Inr ((None, 0, []), s0)
      else Inl (ValueError (Unsupported_num_dec n_dec), s0))"

definition place_rest ::
  "env \<Rightarrow> int \<Rightarrow> nat \<Rightarrow> lay_purp \<Rightarrow> (inst option \<times> int \<times> inst list) \<Rightarrow> layout
     \<Rightarrow> placed \<times> layout" where
  "place_rest e n_sel n_in lp dp s1 =
     (let (d1o, start_x, dl) = dp;
          xxm = top_layer e;
          yym = xxm + 1;
          ym = xxm - 1;
          xm = ym - 1;
          vm = xm - 1;
          res_w = bbox_w (res_bound_box e);
          res_h = bbox_h (res_bound_box e);
          dec_w = bbox_w (dec_bound_box e);
          dec_h = bbox_h (dec_bound_box e);
          h_pitch = snd (get_size_pitch e xxm);
          tot_w = res_w + num_dec e * dec_w;
          (d0, s2) = add_instance DecMaster \<lparr>dx = start_x + res_w, dy = 0, orient = R0\<rparr> s1;
          oy = pg_coord0 e - core_coord0 e - h_pitch;
          (r, s3) = add_instance ResMaster \<lparr>dx = start_x, dy = oy, orient = R0\<rparr> s2;
          tot_h = max dec_h (res_h + oy);
          (bb, s4) = set_size_from_bound_box e yym \<lparr>xl = 0, yl = 0, xh = tot_w, yh = tot_h\<rparr> s3
      in (\<lparr>dec1_inst = d1o, dec0_inst = d0, res_inst = r, dec_list = dl @ [d0], off_y = oy,
           num_sel = n_sel, num_in = n_in, xxm_layer = xxm, yym_layer = yym, ym_layer = ym,
           vm_layer = vm, vm_lp = lp, bound_box_yh = yh bb\<rparr>, s4))"

definition placement :: "env \<Rightarrow> layout \<Rightarrow> (error \<times> layout) + (placed \<times> layout)" where
  "placement e s0 =
     (let n_sel = num_sel_col e + num_sel_row e in
      if n_sel < 0 then Inl (ValueError Negative_shift_count, s0)
      else
        (case get_lay_purp_list e (top_layer e - 1 - 1 - 1) of
           [] \<Rightarrow> Inl (IndexError, s0)
         | lp # _ \<Rightarrow>
             (if \<not> core_coord0 e < pg_coord0 e then Inl (AssertionError, s0)
              else
                (case place_decoders (num_dec e) (bbox_w (dec_bound_box e)) s0 of
                   Inl err \<Rightarrow> Inl err
                 | Inr (dp, s1) \<Rightarrow> Inr (place_rest e n_sel (2 ^ nat n_sel) lp dp s1)))))"

subsection \<open>Signal routing (lines 99 to 138)\<close>

fun export_sel :: "env \<Rightarrow> placed \<Rightarrow> int \<Rightarrow> int list \<Rightarrow> layout \<Rightarrow> (error \<times> layout) + layout" where
  "export_sel e pl w_sel_vm [] s = Inr s"
| "export_sel e pl w_sel_vm (idx # idxs) s =
     (let sel0 = get_pin e (dec0_inst pl) (''sel<'' @ str_int idx @ ''>'');
          vm_tidx0 = coord_to_track e (vm_layer pl) (bbox_xm sel0) RoundMode_NONE;
          (sel0_warr, s1) = add_wires (vm_layer pl) vm_tidx0 0 (yh sel0) w_sel_vm s
      in if num_dec e = 2 then
           (let s2 = add_pin (''sel0<'' @ str_int idx @ ''>'') [sel0_warr] PinMode_LOWER False s1
            in (case dec1_inst pl of
                  None \<Rightarrow> Inl (AttributeError, s2)
                | Some d1 \<Rightarrow>
                    (let sel1 = get_pin e d1 (''sel<'' @ str_int idx @ ''>'');
                         vm_tidx1 = coord_to_track e (vm_layer pl) (bbox_xm sel1) RoundMode_NONE;
                         (sel1_warr, s3) = add_wires (vm_layer pl) vm_tidx1 0 (yh sel1) w_sel_vm s2;
                         s4 = add_pin (''sel1<'' @ str_int idx @ ''>'') [sel1_warr]
                                PinMode_LOWER False s3
                     in export_sel e pl w_sel_vm idxs s4)))
         else
           export_sel e pl w_sel_vm idxs
             (add_pin (''sel<'' @ str_int idx @ ''>'') [sel0_warr] PinMode_LOWER False s1))"

definition export_out :: "env \<Rightarrow> placed \<Rightarrow> layout \<Rightarrow> (error \<times> layout) + layout" where
  "export_out e pl s =
     (let out0 = get_pin e (dec0_inst pl) ''out'';
          w_out_ym = find_track_width e (ym_layer pl) (bbox_w out0);
          ym_tidx0 = coord_to_track e (ym_layer pl) (bbox_xm out0) RoundMode_NONE;
          (out0_warr, s1) = add_wires (ym_layer pl) ym_tidx0 (yl out0) (bound_box_yh pl) w_out_ym s
      in if num_dec e = 2 then
           (let s2 = add_pin ''out0'' [out0_warr] PinMode_UPPER False s1
            in (case dec1_inst pl of
                  None \<Rightarrow> Inl (AttributeError, s2)
                | Some d1 \<Rightarrow>
                    (let out1 = get_pin e d1 ''out'';
                         ym_tidx1 = coord_to_track e (ym_layer pl) (bbox_xm out1) RoundMode_NONE;
                         (out1_warr, s3) = add_wires (ym_layer pl) ym_tidx1 (yl out1)
                                             (bound_box_yh pl) w_out_ym s2
                     in Inr (add_pin ''out1'' [out1_warr] PinMode_UPPER False s3))))
         else Inr (add_pin ''out'' [out0_warr] PinMode_UPPER False s1))"

fun connect_taps :: "env \<Rightarrow> placed \<Rightarrow> int list \<Rightarrow> layout \<Rightarrow> (error \<times> layout) + layout" where
  "connect_taps e pl [] s = Inr s"
| "connect_taps e pl (idx # idxs) s =
     (let s1 = connect_bbox_to_track_wires Direction_LOWER (vm_lp pl)
                 (get_pin e (dec0_inst pl) (''in<'' @ str_int idx @ ''>''))
                 (get_pin_warr e (res_inst pl) (''out<'' @ str_int idx @ ''>'')) s
      in if num_dec e = 2 then
           (case dec1_inst pl of
              None \<Rightarrow> Inl (AttributeError, s1)
            | Some d1 \<Rightarrow>
                connect_taps e pl idxs
                  (connect_bbox_to_track_wires Direction_LOWER (vm_lp pl)
                     (get_pin e d1 (''in<'' @ str_int idx @ ''>''))
                     (get_pin_warr e (res_inst pl) (''out<'' @ str_int idx @ ''>'')) s1))
         else connect_taps e pl idxs s1)"

definition routing :: "env \<Rightarrow> placed \<Rightarrow> layout \<Rightarrow> (error \<times> layout) + layout" where
  "routing e pl s =
     (let sel = get_pin e (dec0_inst pl) ''sel<0>'';
          w_sel_vm = find_track_width e (vm_layer pl) (bbox_w sel)
      in (case export_sel e pl w_sel_vm (py_range (num_sel pl)) s of
            Inl err \<Rightarrow> Inl err
          | Inr s1 \<Rightarrow>
              (case export_out e pl s1 of
                 Inl err \<Rightarrow> Inl err
               | Inr s2 \<Rightarrow> connect_taps e pl (py_range (int (num_in pl))) s2)))"

subsection \<open>Supply routing (lines 140 to 194)\<close>

text \<open>
  The two inner loops of lines 154 to 158 visit the single wires of every supply wire
  array in order; the argument \<open>singles\<close> is that sequence.
\<close>

fun supply_up ::
  "env \<Rightarrow> int \<Rightarrow> int \<Rightarrow> track_id \<Rightarrow> warr list \<Rightarrow> warr list \<Rightarrow> layout \<Rightarrow> warr list \<times> layout" where
  "supply_up e xxm w_sup_xxm tid [] sup_xxm s = (sup_xxm, s)"
| "supply_up e xxm w_sup_xxm tid (warr_single # singles) sup_xxm s =
     (let (ym_w, s1) = connect_to_tracks e [warr_single] tid (Some MinLenMode_MIDDLE) None None s;
          xxm_tidx = coord_to_track e xxm (middle ym_w) RoundMode_NEAREST;
          (xxm_w, s2) = connect_to_tracks e [ym_w] (track_id1 xxm xxm_tidx w_sup_xxm)
                          None None None s1
      in supply_up e xxm w_sup_xxm tid singles (sup_xxm @ [xxm_w]) s2)"

fun dec_supplies ::
  "env \<Rightarrow> placed \<Rightarrow> int \<Rightarrow> int \<Rightarrow> int \<Rightarrow> inst list \<Rightarrow> warr list \<times> warr list \<Rightarrow> layout
     \<Rightarrow> (error \<times> layout) + ((warr list \<times> warr list) \<times> layout)" where
  "dec_supplies e pl avail_lidx avail_ridx w_sup_yym [] acc s = Inr (acc, s)"
| "dec_supplies e pl avail_lidx avail_ridx w_sup_yym (i # insts) acc s =
     (let yym = yym_layer pl;
          right = (bbox_xm (inst_bound_box e i) > bbox_xm (inst_bound_box e (res_inst pl)));
          yym_locs =
            (if right then
               spread_wires e yym [''sup'', ''sup'', ''sup'', ''sup''] avail_ridx
                 (coord_to_track e yym (xh (inst_bound_box e i)) RoundMode_LESS) (''sup'', ''sup'')
             else
               spread_wires e yym [''sup'', ''sup'', ''sup'', ''sup'']
                 (coord_to_track e yym (xl (inst_bound_box e i)) RoundMode_GREATER) avail_lidx
                 (''sup'', ''sup''))
      in (case yym_locs of
            loc0 # loc1 # loc2 # _ \<Rightarrow>
              (let vss_tidx = (if right then loc0 else loc1);
                   vdd_tidx = (if right then loc1 else loc0);
                   (vdd_w, s1) =
                     connect_to_tracks e [get_pin_layer e i ''VDD'' (xxm_layer pl)]
                       \<lparr>tid_layer = yym, tid_index = vdd_tidx, tid_width = w_sup_yym,
                        tid_num = 2, tid_pitch = loc2 - loc0\<rparr>
                       None (Some 0) (Some (bound_box_yh pl)) s;
                   (vss_w, s2) =
                     connect_to_tracks e [get_pin_layer e i ''VSS'' (xxm_layer pl)]
                       \<lparr>tid_layer = yym, tid_index = vss_tidx, tid_width = w_sup_yym,
                        tid_num = 2, tid_pitch = loc2 - loc0\<rparr>
                       None (Some 0) (Some (bound_box_yh pl)) s1
               in dec_supplies e pl avail_lidx avail_ridx w_sup_yym insts
                    (fst acc @ [vdd_w], snd acc @ [vss_w]) s2)
          | _ \<Rightarrow> Inl (IndexError, s)))"

definition supplies :: "env \<Rightarrow> placed \<Rightarrow> layout \<Rightarrow> (error \<times> layout) + layout" where
  "supplies e pl s =
     (let xxm = xxm_layer pl;
          yym = yym_layer pl;
          ym = ym_layer pl;
          res_vss_xm = get_all_port_pins e (res_inst pl) ''VSS'';
          res_vdd_xm = get_all_port_pins e (res_inst pl) ''VDD''
      in (case res_vdd_xm of
            [] \<Rightarrow> Inl (IndexError, s)
          | vdd0 # _ \<Rightarrow>
              (let vdd_ym_lidx = coord_to_track e ym (lower vdd0) RoundMode_GREATER_EQ;
                   vss_ym_lidx = get_next_track e ym vdd_ym_lidx ''sup'' ''sup'' 1;
                   vdd_ym_ridx = coord_to_track e ym (upper vdd0) RoundMode_LESS_EQ;
                   vss_ym_ridx = get_next_track e ym vdd_ym_ridx ''sup'' ''sup'' (- 1);
                   w_sup_ym = get_width e ym ''sup'';
                   w_sup_xxm = get_width e xxm ''sup'';
                   vdd_ym_tid = \<lparr>tid_layer = ym, tid_index = vdd_ym_lidx, tid_width = w_sup_ym,
                                 tid_num = 2, tid_pitch = vdd_ym_ridx - vdd_ym_lidx\<rparr>;
                   vss_ym_tid = \<lparr>tid_layer = ym, tid_index = vss_ym_lidx, tid_width = w_sup_ym,
                                 tid_num = 2, tid_pitch = vss_ym_ridx - vss_ym_lidx\<rparr>;
                   (res_vss_xxm, s1) = supply_up e xxm w_sup_xxm vss_ym_tid
                                         (concat (map (warr_iter e) res_vss_xm)) [] s;
                   (res_vdd_xxm, s2) = supply_up e xxm w_sup_xxm vdd_ym_tid
                                         (concat (map (warr_iter e) res_vdd_xm)) [] s1
               in (case res_vdd_xxm of
                     [] \<Rightarrow> Inl (IndexError, s2)
                   | vddx0 # _ \<Rightarrow>
                       (let vdd_yym_lidx = coord_to_track e yym (lower vddx0) RoundMode_GREATER;
                            vdd_yym_ridx = coord_to_track e yym (upper vddx0) RoundMode_LESS;
                            yym_locs1 = spread_wires e yym [''sup'', ''sup'', ''sup'']
                                          vdd_yym_lidx vdd_yym_ridx (''sup'', ''sup'');
                            w_sup_yym = get_width e yym ''sup'';
                            (vdd_w, s3) =
                              connect_to_tracks e res_vdd_xxm
                                \<lparr>tid_layer = yym, tid_index = vdd_yym_lidx, tid_width = w_sup_yym,
                                 tid_num = 2, tid_pitch = vdd_yym_ridx - vdd_yym_lidx\<rparr>
                                None (Some 0) (Some (bound_box_yh pl)) s2
                        in (case yym_locs1 of
                              _ # loc1 # _ \<Rightarrow>
                                (let (vss_w, s4) =
                                       connect_to_tracks e res_vss_xxm
                                         (track_id1 yym loc1 w_sup_yym)
                                         None (Some 0) (Some (bound_box_yh pl)) s3;
                                     avail_lidx = get_next_track e yym vdd_yym_lidx
                                                    ''sup'' ''sup'' (- 1);
                                     avail_ridx = get_next_track e yym vdd_yym_ridx
                                                    ''sup'' ''sup'' 1
                                 in (case dec_supplies e pl avail_lidx avail_ridx w_sup_yym
                                            (dec_list pl) ([vdd_w], [vss_w]) s4 of
                                       Inl err \<Rightarrow> Inl err
                                     | Inr ((vdd_yym, vss_yym), s5) \<Rightarrow>
                                         Inr (add_pin ''VSS'' vss_yym PinMode_ALL True
                                                (add_pin ''VDD'' vdd_yym PinMode_ALL True s5))))
                            | _ \<Rightarrow> Inl (IndexError, s3)))))))"

subsection \<open>The generator\<close>

definition draw_layout :: "env \<Rightarrow> layout \<Rightarrow> (error \<times> layout) + layout" where
  "draw_layout e s0 =
     (case placement e s0 of
        Inl err \<Rightarrow> Inl err
      | Inr (pl, s1) \<Rightarrow>
          (case routing e pl s1 of
             Inl err \<Rightarrow> Inl err
           | Inr s2 \<Rightarrow>
               (case supplies e pl s2 of
                  Inl err \<Rightarrow> Inl err
                | Inr s3 \<Rightarrow> Inr (s3\<lparr>lay_sch_params := Some (num_dec e)\<rparr>))))"

text \<open>The layout reached by a run, whether it returned or raised.\<close>

definition layout_of :: "(error \<times> layout) + layout \<Rightarrow> layout" where
  "layout_of r = (case r of Inl (err, s) \<Rightarrow> s | Inr s \<Rightarrow> s)"


subsection \<open>An environment to run the layout generator on\<close>

text \<open>
  A decoder master of 200 by 500 and a ladder master of 400 by 300, two select bits, a
  grid whose size pitch is 10 on every layer, and simple stand-ins for the framework's
  queries. The arguments are \<^verbatim>\<open>num_dec\<close> and the ladder's reference coordinate; the
  decoder's reference coordinate is 100.
\<close>

definition example_inst_box :: "inst \<Rightarrow> bbox" where
  "example_inst_box i =
     (let xf = inst_xform i;
          wd = (case inst_master i of ResMaster \<Rightarrow> 400 | DecMaster \<Rightarrow> 200);
          ht = (case inst_master i of ResMaster \<Rightarrow> 300 | DecMaster \<Rightarrow> 500)
      in case orient xf of
           R0 \<Rightarrow> \<lparr>xl = dx xf, yl = dy xf, xh = dx xf + wd, yh = dy xf + ht\<rparr>
         | MY \<Rightarrow> \<lparr>xl = dx xf - wd, yl = dy xf, xh = dx xf, yh = dy xf + ht\<rparr>)"

definition example_warr :: warr where
  "example_warr = \<lparr>warr_tid = \<lparr>tid_layer = 4, tid_index = 0, tid_width = 1, tid_num = 1,
                                 tid_pitch = 0\<rparr>, lower = 0, upper = 400\<rparr>"

definition rdac_env :: "int \<Rightarrow> int \<Rightarrow> env" where
  "rdac_env n c0 =
     \<lparr>num_dec = n, num_sel_row = 1, num_sel_col = 1,
      res_bound_box = \<lparr>xl = 0, yl = 0, xh = 400, yh = 300\<rparr>, core_coord0 = c0,
      dec_bound_box = \<lparr>xl = 0, yl = 0, xh = 200, yh = 500\<rparr>, pg_coord0 = 100,
      top_layer = 5,
      get_lay_purp_list = (\<lambda>layer. [(''metal'', ''drawing'')]),
      get_size_pitch = (\<lambda>layer. (10, 10)),
      size_bound_box = (\<lambda>layer b. b),
      inst_bound_box = example_inst_box,
      get_pin = (\<lambda>i name. example_inst_box i),
      get_pin_warr = (\<lambda>i name. example_warr),
      get_pin_layer = (\<lambda>i name layer. example_warr),
      get_all_port_pins = (\<lambda>i name. [example_warr]),
      warr_iter = (\<lambda>wa. [wa]),
      find_track_width = (\<lambda>layer wd. 1),
      coord_to_track = (\<lambda>layer coord mode. coord div 10),
      get_next_track = (\<lambda>layer tidx t1 t2 up. tidx + up),
      get_width = (\<lambda>layer t. 1),
      spread_wires = (\<lambda>layer types lo hi sp. map (\<lambda>k. lo + int k) [0..<length types]),
      tracks_warr = (\<lambda>was tid mlm tlo tup. \<lparr>warr_tid = tid, lower = 0, upper = 500\<rparr>)\<rparr>"

definition empty_layout :: layout where
  "empty_layout = \<lparr>lay_instances = [], lay_wires = [], lay_pins = [], lay_conns = [],
                    lay_size = None, lay_sch_params = None\<rparr>"

text \<open>
  The alignment in the spec's words: the ladder's reference coordinate, moved by the
  offset, meets the decoder's reference coordinate, exactly or within the snapping
  distance of the size pitch of the coarsest layer in use (the layer above the decoder's
  top layer).
\<close>

definition spec_lines_up :: "env \<Rightarrow> int \<Rightarrow> bool" where
  "spec_lines_up e oy \<longleftrightarrow>
     \<bar>core_coord0 e + oy - pg_coord0 e\<bar> < snd (get_size_pitch e (top_layer e + 1))"

subsection \<open>The supply wires, without the loops\<close>

text \<open>
  What lines 140 to 194 connect and export, written as functions of the environment, of
  the placed instances and of the two wires whose ends the code reads: \<open>vdd0\<close>, the first
  \<^verbatim>\<open>VDD\<close> wire array of the ladder (\<^verbatim>\<open>res_vdd_xm[0]\<close>, lines 144 and 146), and \<open>x0\<close>, the
  first \<^verbatim>\<open>VDD\<close> wire made on the decoder's top layer (\<^verbatim>\<open>res_vdd_xxm[0]\<close>, lines 160
  and 161). The layers are \<^verbatim>\<open>xxm_layer = top_layer\<close>, \<^verbatim>\<open>ym_layer\<close> below it and \<^verbatim>\<open>yym_layer\<close>
  above it (lines 71 to 75).
\<close>

text \<open>\<^verbatim>\<open>self.bound_box.yh\<close> after line 97.\<close>

definition layout_top :: "env \<Rightarrow> int" where
  "layout_top e =
     yh (size_bound_box e (top_layer e + 1)
           \<lparr>xl = 0, yl = 0,
            xh = bbox_w (res_bound_box e) + num_dec e * bbox_w (dec_bound_box e),
            yh = max (bbox_h (dec_bound_box e))
                     (bbox_h (res_bound_box e) +
                      (pg_coord0 e - core_coord0 e - snd (get_size_pitch e (top_layer e))))\<rparr>)"

text \<open>\<^verbatim>\<open>vdd_ym_tid\<close> and \<^verbatim>\<open>vss_ym_tid\<close>, lines 144 to 151.\<close>

definition ladder_vdd_tid :: "env \<Rightarrow> warr \<Rightarrow> track_id" where
  "ladder_vdd_tid e vdd0 =
     (let ym = top_layer e - 1;
          lidx = coord_to_track e ym (lower vdd0) RoundMode_GREATER_EQ;
          ridx = coord_to_track e ym (upper vdd0) RoundMode_LESS_EQ
      in \<lparr>tid_layer = ym, tid_index = lidx, tid_width = get_width e ym ''sup'',
          tid_num = 2, tid_pitch = ridx - lidx\<rparr>)"

definition ladder_vss_tid :: "env \<Rightarrow> warr \<Rightarrow> track_id" where
  "ladder_vss_tid e vdd0 =
     (let ym = top_layer e - 1;
          lidx = get_next_track e ym (coord_to_track e ym (lower vdd0) RoundMode_GREATER_EQ)
                   ''sup'' ''sup'' 1;
          ridx = get_next_track e ym (coord_to_track e ym (upper vdd0) RoundMode_LESS_EQ)
                   ''sup'' ''sup'' (- 1)
      in \<lparr>tid_layer = ym, tid_index = lidx, tid_width = get_width e ym ''sup'',
          tid_num = 2, tid_pitch = ridx - lidx\<rparr>)"

text \<open>
  One pass of the loop body of lines 156 to 158 for the single wire \<open>ws\<close>: the wire
  \<^verbatim>\<open>_ym\<close>, the track of the wire above it, and that wire.
\<close>

definition ym_wire :: "env \<Rightarrow> track_id \<Rightarrow> warr \<Rightarrow> warr" where
  "ym_wire e tid ws = tracks_warr e [ws] tid (Some MinLenMode_MIDDLE) None None"

definition xxm_tid :: "env \<Rightarrow> track_id \<Rightarrow> warr \<Rightarrow> track_id" where
  "xxm_tid e tid ws =
     track_id1 (top_layer e)
       (coord_to_track e (top_layer e) (middle (ym_wire e tid ws)) RoundMode_NEAREST)
       (get_width e (top_layer e) ''sup'')"

definition xxm_wire :: "env \<Rightarrow> track_id \<Rightarrow> warr \<Rightarrow> warr" where
  "xxm_wire e tid ws = tracks_warr e [ym_wire e tid ws] (xxm_tid e tid ws) None None None"

text \<open>
  The single wires of the ladder's supply \<open>name\<close>, the wires made from them on the
  decoder's top layer (\<^verbatim>\<open>res_vss_xxm\<close>, \<^verbatim>\<open>res_vdd_xxm\<close>), and the connections made on the way.
\<close>

definition ladder_singles :: "env \<Rightarrow> inst \<Rightarrow> string \<Rightarrow> warr list" where
  "ladder_singles e r name = concat (map (warr_iter e) (get_all_port_pins e r name))"

definition ladder_wires :: "env \<Rightarrow> track_id \<Rightarrow> inst \<Rightarrow> string \<Rightarrow> warr list" where
  "ladder_wires e tid r name = map (xxm_wire e tid) (ladder_singles e r name)"

definition ladder_conns :: "env \<Rightarrow> track_id \<Rightarrow> inst \<Rightarrow> string \<Rightarrow> conn list" where
  "ladder_conns e tid r name =
     concat (map (\<lambda>ws. [To_tracks [ws] tid (Some MinLenMode_MIDDLE) None None,
                        To_tracks [ym_wire e tid ws] (xxm_tid e tid ws) None None None])
               (ladder_singles e r name))"

text \<open>The tracks of the ladder's two supplies on the layer above, lines 160 to 170.\<close>

definition top_vdd_tid :: "env \<Rightarrow> warr \<Rightarrow> track_id" where
  "top_vdd_tid e x0 =
     (let yym = top_layer e + 1;
          lidx = coord_to_track e yym (lower x0) RoundMode_GREATER;
          ridx = coord_to_track e yym (upper x0) RoundMode_LESS
      in \<lparr>tid_layer = yym, tid_index = lidx, tid_width = get_width e yym ''sup'',
          tid_num = 2, tid_pitch = ridx - lidx\<rparr>)"

definition top_vss_tid :: "env \<Rightarrow> warr \<Rightarrow> track_id" where
  "top_vss_tid e x0 =
     (let yym = top_layer e + 1;
          lidx = coord_to_track e yym (lower x0) RoundMode_GREATER;
          ridx = coord_to_track e yym (upper x0) RoundMode_LESS;
          locs = spread_wires e yym [''sup'', ''sup'', ''sup''] lidx ridx (''sup'', ''sup'')
      in track_id1 yym (locs ! 1) (get_width e yym ''sup''))"

text \<open>
  The tracks of a decoder's two supplies, lines 175 to 190: the decoder \<open>d\<close> lies to the
  right of the ladder \<open>r\<close> or not, and takes its four tracks from the free side.
\<close>

definition dec_right :: "env \<Rightarrow> inst \<Rightarrow> inst \<Rightarrow> bool" where
  "dec_right e r d \<longleftrightarrow> bbox_xm (inst_bound_box e d) > bbox_xm (inst_bound_box e r)"

definition dec_locs :: "env \<Rightarrow> warr \<Rightarrow> inst \<Rightarrow> inst \<Rightarrow> int list" where
  "dec_locs e x0 r d =
     (let yym = top_layer e + 1;
          avail_lidx = get_next_track e yym (coord_to_track e yym (lower x0) RoundMode_GREATER)
                         ''sup'' ''sup'' (- 1);
          avail_ridx = get_next_track e yym (coord_to_track e yym (upper x0) RoundMode_LESS)
                         ''sup'' ''sup'' 1
      in if dec_right e r d then
           spread_wires e yym [''sup'', ''sup'', ''sup'', ''sup''] avail_ridx
             (coord_to_track e yym (xh (inst_bound_box e d)) RoundMode_LESS) (''sup'', ''sup'')
         else
           spread_wires e yym [''sup'', ''sup'', ''sup'', ''sup'']
             (coord_to_track e yym (xl (inst_bound_box e d)) RoundMode_GREATER) avail_lidx
             (''sup'', ''sup''))"

definition dec_vdd_tid :: "env \<Rightarrow> warr \<Rightarrow> inst \<Rightarrow> inst \<Rightarrow> track_id" where
  "dec_vdd_tid e x0 r d =
     (let locs = dec_locs e x0 r d
      in \<lparr>tid_layer = top_layer e + 1,
          tid_index = (if dec_right e r d then locs ! 1 else locs ! 0),
          tid_width = get_width e (top_layer e + 1) ''sup'',
          tid_num = 2, tid_pitch = locs ! 2 - locs ! 0\<rparr>)"

definition dec_vss_tid :: "env \<Rightarrow> warr \<Rightarrow> inst \<Rightarrow> inst \<Rightarrow> track_id" where
  "dec_vss_tid e x0 r d =
     (let locs = dec_locs e x0 r d
      in \<lparr>tid_layer = top_layer e + 1,
          tid_index = (if dec_right e r d then locs ! 0 else locs ! 1),
          tid_width = get_width e (top_layer e + 1) ''sup'',
          tid_num = 2, tid_pitch = locs ! 2 - locs ! 0\<rparr>)"

text \<open>
  A connection to tracks of the layer above that spans the layout from 0 to its top
  edge, and the wire it returns.
\<close>

definition top_conn :: "env \<Rightarrow> warr list \<Rightarrow> track_id \<Rightarrow> conn" where
  "top_conn e was tid = To_tracks was tid None (Some 0) (Some (layout_top e))"

definition top_wire :: "env \<Rightarrow> warr list \<Rightarrow> track_id \<Rightarrow> warr" where
  "top_wire e was tid = tracks_warr e was tid None (Some 0) (Some (layout_top e))"

text \<open>
  The wires of the exported \<^verbatim>\<open>VDD\<close> pin (\<^verbatim>\<open>vdd_yym\<close>): the wire that joins the ladder's
  \<^verbatim>\<open>VDD\<close> wires, then for every decoder the wire that its \<^verbatim>\<open>VDD\<close> pin is connected to.
  Likewise \<^verbatim>\<open>vss_yym\<close>.
\<close>

definition supply_vdd_wires :: "env \<Rightarrow> inst \<Rightarrow> inst list \<Rightarrow> warr \<Rightarrow> warr \<Rightarrow> warr list" where
  "supply_vdd_wires e r decs vdd0 x0 =
     top_wire e (ladder_wires e (ladder_vdd_tid e vdd0) r ''VDD'') (top_vdd_tid e x0) #
     map (\<lambda>d. top_wire e [get_pin_layer e d ''VDD'' (top_layer e)] (dec_vdd_tid e x0 r d)) decs"

definition supply_vss_wires :: "env \<Rightarrow> inst \<Rightarrow> inst list \<Rightarrow> warr \<Rightarrow> warr \<Rightarrow> warr list" where
  "supply_vss_wires e r decs vdd0 x0 =
     top_wire e (ladder_wires e (ladder_vss_tid e vdd0) r ''VSS'') (top_vss_tid e x0) #
     map (\<lambda>d. top_wire e [get_pin_layer e d ''VSS'' (top_layer e)] (dec_vss_tid e x0 r d)) decs"

text \<open>The connections of the supply routing, in the order in which they are made.\<close>

definition supply_conns :: "env \<Rightarrow> inst \<Rightarrow> inst list \<Rightarrow> warr \<Rightarrow> warr \<Rightarrow> conn list" where
  "supply_conns e r decs vdd0 x0 =
     ladder_conns e (ladder_vss_tid e vdd0) r ''VSS'' @
     ladder_conns e (ladder_vdd_tid e vdd0) r ''VDD'' @
     [top_conn e (ladder_wires e (ladder_vdd_tid e vdd0) r ''VDD'') (top_vdd_tid e x0),
      top_conn e (ladder_wires e (ladder_vss_tid e vdd0) r ''VSS'') (top_vss_tid e x0)] @
     concat (map (\<lambda>d. [top_conn e [get_pin_layer e d ''VDD'' (top_layer e)] (dec_vdd_tid e x0 r d),
                       top_conn e [get_pin_layer e d ''VSS'' (top_layer e)] (dec_vss_tid e x0 r d)])
               decs)"
section \<open>The differential high-pass filter schematic (schematic/high_pass_diff.py)\<close>

subsection \<open>Python values\<close>

datatype pyval = PInt int | PFloat real | PBool bool | PStr string

text \<open>Python's \<^verbatim>\<open>==\<close>: numbers compare by value, a string equals only an equal string.\<close>

fun py_num :: "pyval \<Rightarrow> real option" where
  "py_num (PInt i) = Some (of_int i)"
| "py_num (PFloat r) = Some r"
| "py_num (PBool b) = Some (if b then 1 else 0)"
| "py_num (PStr s) = None"

fun py_eq :: "pyval \<Rightarrow> pyval \<Rightarrow> bool" where
  "py_eq (PStr a) (PStr b) = (a = b)"
| "py_eq a b = (case (py_num a, py_num b) of (Some x, Some y) \<Rightarrow> x = y | _ \<Rightarrow> False)"

text \<open>The arguments \<^verbatim>\<open>ndum\<close> (an int or a tuple) and \<^verbatim>\<open>cap_val\<close> (a float or a tuple).\<close>

datatype ndum_arg = Ndum_int int | Ndum_tuple "pyval list"

datatype cap_arg = Cap_float real | Cap_tuple "pyval list"

record hpf_params =
  par_l :: int
  par_w :: int
  intent :: string
  nser :: int
  ndum :: ndum_arg
  res_in_info :: "(int \<times> int \<times> int) option"
  res_out_info :: "(int \<times> int \<times> int) option"
  sub_name :: string
  bias_diff :: bool
  connect_res_to_cap_res_metal :: bool
  connect_dum_to_sub :: bool
  cap_val :: cap_arg
  extracted :: bool

subsection \<open>The schematic and the framework calls that change it\<close>

record unit_params =
  unit_l :: int
  unit_w :: int
  unit_intent :: string

text \<open>
  The arguments of one call \<^verbatim>\<open>design_resistor(inst_name, unit_params, nser, npar, plus,
  minus, mid, bulk, connect_mid)\<close>, in the order the source passes them; \<open>rc_connect_mid\<close>
  is \<open>None\<close> when the call leaves the keyword out.
\<close>

record resistor_call =
  rc_unit :: unit_params
  rc_nser :: pyval
  rc_npar :: pyval
  rc_plus :: string
  rc_minus :: string
  rc_mid :: string
  rc_bulk :: string
  rc_connect_mid :: "pyval option"

datatype design_call = Resistor resistor_call | Metal_res int int int

record sch_inst =
  designed :: "design_call option"
  inst_params :: "string \<rightharpoonup> string"
  inst_conns :: "string \<rightharpoonup> string"

record schematic =
  sch_pins :: "string list"
  sch_instances :: "string \<rightharpoonup> sch_inst"

text \<open>
  Modelled from the spec: the methods of the host framework's schematic module are not
  part of the repository. A pin is a name in the pin list; an instance is an entry of
  the instance table; designing, parameterizing and reconnecting an instance record
  their arguments on that entry; an instance that is not in the table is a
  \<^verbatim>\<open>KeyError\<close>; removing an instance or a pin deletes the entry; arraying an
  instance replaces it by one copy for each new name.
\<close>

definition rename_pin :: "string \<Rightarrow> string \<Rightarrow> schematic \<Rightarrow> schematic" where
  "rename_pin old new s = s\<lparr>sch_pins := map (\<lambda>p. if p = old then new else p) (sch_pins s)\<rparr>"

definition remove_pin :: "string \<Rightarrow> schematic \<Rightarrow> schematic" where
  "remove_pin name s = s\<lparr>sch_pins := filter (\<lambda>p. p \<noteq> name) (sch_pins s)\<rparr>"

definition remove_instance :: "string \<Rightarrow> schematic \<Rightarrow> schematic" where
  "remove_instance name s = s\<lparr>sch_instances := (sch_instances s)(name := None)\<rparr>"

definition update_instance ::
  "string \<Rightarrow> (sch_inst \<Rightarrow> sch_inst) \<Rightarrow> schematic \<Rightarrow> error + schematic" where
  "update_instance name f s =
     (case sch_instances s name of
        None \<Rightarrow> Inl (KeyError name)
      | Some i \<Rightarrow> Inr (s\<lparr>sch_instances := (sch_instances s)(name \<mapsto> f i)\<rparr>))"

definition design_resistor :: "string \<Rightarrow> resistor_call \<Rightarrow> schematic \<Rightarrow> error + schematic" where
  "design_resistor name call s = update_instance name (\<lambda>i. i\<lparr>designed := Some (Resistor call)\<rparr>) s"

definition design_metal :: "string \<Rightarrow> int \<times> int \<times> int \<Rightarrow> schematic \<Rightarrow> error + schematic" where
  "design_metal name info s =
     update_instance name
       (\<lambda>i. i\<lparr>designed := Some (Metal_res (fst info) (fst (snd info)) (snd (snd info)))\<rparr>) s"

definition set_param :: "string \<Rightarrow> string \<Rightarrow> string \<Rightarrow> schematic \<Rightarrow> error + schematic" where
  "set_param name key val s =
     update_instance name (\<lambda>i. i\<lparr>inst_params := (inst_params i)(key \<mapsto> val)\<rparr>) s"

definition reconnect_instance ::
  "string \<Rightarrow> (string \<times> string) list \<Rightarrow> schematic \<Rightarrow> error + schematic" where
  "reconnect_instance name term_nets s =
     update_instance name
       (\<lambda>i. i\<lparr>inst_conns := fold (\<lambda>(term, net) m. m(term \<mapsto> net)) term_nets (inst_conns i)\<rparr>) s"

definition array_instance :: "string \<Rightarrow> string list \<Rightarrow> schematic \<Rightarrow> error + schematic" where
  "array_instance name names s =
     (case sch_instances s name of
        None \<Rightarrow> Inl (KeyError name)
      | Some i \<Rightarrow>
          Inr (s\<lparr>sch_instances :=
                  fold (\<lambda>n m. m(n \<mapsto> i)) names ((sch_instances s)(name := None))\<rparr>))"

definition and_then :: "error + 'a \<Rightarrow> ('a \<Rightarrow> error + 'b) \<Rightarrow> error + 'b" where
  "and_then r f = (case r of Inl err \<Rightarrow> Inl err | Inr x \<Rightarrow> f x)"

subsection \<open>The steps of \<^verbatim>\<open>design\<close>\<close>

text \<open>Lines 108 to 113: the bias net names and the pin merge.\<close>

definition bias_pins :: "bool \<Rightarrow> schematic \<Rightarrow> string \<times> string \<times> schematic" where
  "bias_pins diff s =
     (if diff then (''biasp'', ''biasn'', s)
      else (''bias'', ''bias'', remove_pin ''biasn'' (rename_pin ''biasp'' ''bias'' s)))"

text \<open>Lines 120 to 123: the loop over \<^verbatim>\<open>res_name_info\<close>.\<close>

fun design_resistors ::
  "unit_params \<Rightarrow> int \<Rightarrow> string \<Rightarrow> (string \<times> string \<times> string) list \<Rightarrow> schematic
     \<Rightarrow> error + schematic" where
  "design_resistors up n_ser sub [] s = Inr s"
| "design_resistors up n_ser sub ((inst_name, out_name, bias_name) # rest) s =
     and_then
       (design_resistor inst_name
          \<lparr>rc_unit = up, rc_nser = PInt n_ser, rc_npar = PInt 1, rc_plus = out_name,
           rc_minus = bias_name, rc_mid = out_name @ ''_x'', rc_bulk = sub,
           rc_connect_mid = None\<rparr> s)
       (design_resistors up n_ser sub rest)"

text \<open>Lines 129 to 133: \<^verbatim>\<open>ndum\<close> made a tuple of three.\<close>

definition ndum_tuple :: "ndum_arg \<Rightarrow> pyval list" where
  "ndum_tuple nd =
     (let t1 = (case nd of Ndum_int n \<Rightarrow> [PInt n, PInt 1] | Ndum_tuple t \<Rightarrow> t)
      in if length t1 = 2 then t1 @ [PBool True] else t1)"

text \<open>Lines 134 to 139: the loop over the dummy resistors; \<^verbatim>\<open>not ndum\<close> holds of the empty tuple.\<close>

fun design_dummies ::
  "unit_params \<Rightarrow> pyval list \<Rightarrow> pyval \<Rightarrow> pyval \<Rightarrow> pyval \<Rightarrow> string
     \<Rightarrow> (string \<times> string \<times> string) list \<Rightarrow> schematic \<Rightarrow> error + schematic" where
  "design_dummies up nd ndum_par ndum_ser dum_connect_mid sub [] s = Inr s"
| "design_dummies up nd ndum_par ndum_ser dum_connect_mid sub ((name, conn, mid_pfx) # rest) s =
     and_then
       (if nd = [] then Inr (remove_instance name s)
        else design_resistor name
               \<lparr>rc_unit = up, rc_nser = ndum_ser, rc_npar = ndum_par, rc_plus = conn,
                rc_minus = conn, rc_mid = mid_pfx @ ''_dum_x'', rc_bulk = sub,
                rc_connect_mid = Some dum_connect_mid\<rparr> s)
       (design_dummies up nd ndum_par ndum_ser dum_connect_mid sub rest)"

definition dummy_resistors ::
  "hpf_params \<Rightarrow> unit_params \<Rightarrow> string \<Rightarrow> string \<Rightarrow> schematic \<Rightarrow> error + schematic" where
  "dummy_resistors p up bias_p bias_n s =
     (let dum_names = [''XRESPD'', ''XRESND''];
          dum_conns = (if connect_dum_to_sub p then [sub_name p, sub_name p] else [bias_p, bias_n]);
          dum_mid_conns_pfx = (if dum_conns ! 0 = dum_conns ! 1
                               then [sub_name p @ ''_p'', sub_name p @ ''_n''] else dum_conns);
          nd = ndum_tuple (ndum p)
      in (case nd of
            [ndum_par, ndum_ser, dum_connect_mid] \<Rightarrow>
              design_dummies up nd ndum_par ndum_ser dum_connect_mid (sub_name p)
                (zip dum_names (zip dum_conns dum_mid_conns_pfx)) s
          | _ \<Rightarrow> Inl (ValueError (Unpack 3 (length nd)))))"

text \<open>Lines 141 to 154: the metal resistors of one side.\<close>

definition metal_resistors ::
  "(int \<times> int \<times> int) option \<Rightarrow> string \<Rightarrow> string \<Rightarrow> schematic \<Rightarrow> error + schematic" where
  "metal_resistors info name_p name_n s =
     (case info of
        Some i \<Rightarrow> and_then (design_metal name_p i s) (design_metal name_n i)
      | None \<Rightarrow> Inr (remove_instance name_n (remove_instance name_p s)))"

text \<open>Lines 180 to 182: the loop over \<^verbatim>\<open>cap_info_list\<close>.\<close>

fun set_caps :: "(string \<times> string \<times> string \<times> string) list \<Rightarrow> schematic \<Rightarrow> error + schematic" where
  "set_caps [] s = Inr s"
| "set_caps ((cap_name, param_val, plus_conn, minus_conn) # rest) s =
     and_then (set_param cap_name ''c'' param_val s)
       (\<lambda>s1. and_then
                (reconnect_instance cap_name [(''PLUS'', plus_conn), (''MINUS'', minus_conn)] s1)
                (set_caps rest))"

text \<open>
  Lines 171 to 177: the variants of one capacitor. The values \<open>cc\<close>, \<open>cpb\<close>, \<open>cpi\<close>
  and \<open>cpo\<close> are the strings that \<^verbatim>\<open>float_to_si_string\<close> returned, and each test
  \<^verbatim>\<open>cpb != 0\<close> compares such a string with the integer 0.
\<close>

definition cap_info_list ::
  "string \<times> string \<times> string \<times> string \<Rightarrow> string \<Rightarrow> string \<Rightarrow> string \<Rightarrow> string \<Rightarrow> string \<Rightarrow> string
     \<Rightarrow> (string \<times> string \<times> string \<times> string) list" where
  "cap_info_list strs sub inst_name in_name out_name bias_name cc_pfx =
     (case strs of (cc, cpb, cpi, cpo) \<Rightarrow>
        [(inst_name @ ''C'', cc, cc_pfx @ in_name, cc_pfx @ out_name)]
        @ (if \<not> py_eq (PStr cpb) (PInt 0) then [(inst_name @ ''PB'', cpb, bias_name, sub)] else [])
        @ (if \<not> py_eq (PStr cpi) (PInt 0) then [(inst_name @ ''PI'', cpi, in_name, sub)] else [])
        @ (if \<not> py_eq (PStr cpo) (PInt 0) then [(inst_name @ ''PO'', cpo, out_name, sub)] else []))"

text \<open>Lines 170 to 182: the loop over \<^verbatim>\<open>cap_name_info\<close>.\<close>

fun design_caps ::
  "string \<times> string \<times> string \<times> string \<Rightarrow> string
     \<Rightarrow> (string \<times> string \<times> string \<times> string \<times> string) list \<Rightarrow> schematic \<Rightarrow> error + schematic" where
  "design_caps strs sub [] s = Inr s"
| "design_caps strs sub ((inst_name, in_name, out_name, bias_name, cc_pfx) # rest) s =
     (let infos = cap_info_list strs sub inst_name in_name out_name bias_name cc_pfx;
          cap_names = map fst infos
      in and_then (array_instance inst_name cap_names s)
           (\<lambda>s1. and_then (set_caps infos s1) (design_caps strs sub rest)))"

text \<open>Lines 156 to 182. The parameter \<open>float_to_si_string\<close> is the framework's conversion.\<close>

definition capacitors ::
  "(pyval \<Rightarrow> string) \<Rightarrow> hpf_params \<Rightarrow> string \<Rightarrow> string \<Rightarrow> schematic \<Rightarrow> error + schematic" where
  "capacitors float_to_si_string p bias_p bias_n s =
     (let cap_in_conn_pfx = (if res_in_info p \<noteq> None then ''nc_'' else []);
          cap_out_conn_pfx = (if res_out_info p \<noteq> None then ''nc_'' else []);
          cap_name_info = [(''XCAPP'', ''inp'', ''outp'', bias_p, cap_in_conn_pfx),
                           (''XCAPN'', ''inn'', ''outn'', bias_n, cap_out_conn_pfx)]
      in if extracted p then
           Inr (fold (\<lambda>name_info. remove_instance (fst name_info)) cap_name_info s)
         else
           (let vals = (case cap_val p of
                          Cap_float c \<Rightarrow> [PFloat c, PInt 0, PInt 0, PInt 0]
                        | Cap_tuple t \<Rightarrow> t)
            in (case map float_to_si_string vals of
                  [cc, cpb, cpi, cpo] \<Rightarrow>
                    design_caps (cc, cpb, cpi, cpo) (sub_name p) cap_name_info s
                | strs \<Rightarrow> Inl (ValueError (Unpack 4 (length strs))))))"

subsection \<open>The generator\<close>

definition design :: "(pyval \<Rightarrow> string) \<Rightarrow> hpf_params \<Rightarrow> schematic \<Rightarrow> error + schematic" where
  "design float_to_si_string p s0 =
     (let has_res_out = (res_out_info p \<noteq> None);
          connect_res = (connect_res_to_cap_res_metal p \<and> has_res_out);
          res_out_conn_pfx = (if connect_res then ''nc_'' else []);
          (bias_p, bias_n, s1) = bias_pins (bias_diff p) s0;
          res_name_info = [(''XRESP'', res_out_conn_pfx @ ''outp'', bias_p),
                           (''XRESN'', res_out_conn_pfx @ ''outn'', bias_n)];
          up = \<lparr>unit_l = par_l p, unit_w = par_w p, unit_intent = intent p\<rparr>
      in and_then (design_resistors up (nser p) (sub_name p) res_name_info s1)
           (\<lambda>s2. and_then (dummy_resistors p up bias_p bias_n s2)
           (\<lambda>s3. and_then (metal_resistors (res_in_info p) ''XMRESP1'' ''XMRESN1'' s3)
           (\<lambda>s4. and_then (metal_resistors (res_out_info p) ''XMRESP2'' ''XMRESN2'' s4)
           (\<lambda>s5. and_then (capacitors float_to_si_string p bias_p bias_n s5)
           (\<lambda>s6. Inr (rename_pin ''BULK'' (sub_name p) s6)))))))"

subsection \<open>Well-formed arguments and frames, for stating the properties\<close>

text \<open>
  \<^verbatim>\<open>ndum\<close> is an int or a tuple of two or three; \<^verbatim>\<open>cap_val\<close> is a float or a tuple of
  four: the shapes that the unpacking of lines 133 and 169 accepts.
\<close>

definition ndum_well_formed :: "ndum_arg \<Rightarrow> bool" where
  "ndum_well_formed nd =
     (case nd of Ndum_int n \<Rightarrow> True | Ndum_tuple t \<Rightarrow> length t = 2 \<or> length t = 3)"

definition cap_well_formed :: "cap_arg \<Rightarrow> bool" where
  "cap_well_formed cv = (case cv of Cap_float c \<Rightarrow> True | Cap_tuple t \<Rightarrow> length t = 4)"

definition has_instances :: "schematic \<Rightarrow> string list \<Rightarrow> bool" where
  "has_instances s names = list_all (\<lambda>n. sch_instances s n \<noteq> None) names"

text \<open>A step that leaves the pins and every instance outside \<open>N\<close> as they were.\<close>

definition only_changes :: "string set \<Rightarrow> schematic \<Rightarrow> schematic \<Rightarrow> bool" where
  "only_changes N s s' \<longleftrightarrow>
     sch_pins s' = sch_pins s \<and> (\<forall>m. m \<notin> N \<longrightarrow> sch_instances s' m = sch_instances s m)"

text \<open>A step that adds no instance.\<close>

definition no_new :: "schematic \<Rightarrow> schematic \<Rightarrow> bool" where
  "no_new s s' \<longleftrightarrow> (\<forall>m. sch_instances s' m \<noteq> None \<longrightarrow> sch_instances s m \<noteq> None)"

text \<open>The four variant names of a capacitor instance (lines 171 to 177).\<close>

definition cap_variants :: "string \<Rightarrow> string list" where
  "cap_variants name = [name @ ''C'', name @ ''PB'', name @ ''PI'', name @ ''PO'']"

subsection \<open>A template and parameters to run the generator on\<close>

text \<open>
  The netlist template is a YAML file outside the sources. This one has the instances
  and pins that \<^verbatim>\<open>design\<close> names; the parameters are the defaults of
  \<^verbatim>\<open>get_default_param_values\<close> with values for the five required ones.
\<close>

definition blank_inst :: sch_inst where
  "blank_inst = \<lparr>designed = None, inst_params = Map.empty, inst_conns = Map.empty\<rparr>"

definition hpf_template :: schematic where
  "hpf_template =
     \<lparr>sch_pins = [''inp'', ''inn'', ''outp'', ''outn'', ''biasp'', ''biasn'', ''BULK''],
      sch_instances = map_of (map (\<lambda>n. (n, blank_inst))
        [''XRESP'', ''XRESN'', ''XRESPD'', ''XRESND'', ''XMRESP1'', ''XMRESN1'',
         ''XMRESP2'', ''XMRESN2'', ''XCAPP'', ''XCAPN''])\<rparr>"

definition hpf_defaults :: hpf_params where
  "hpf_defaults =
     \<lparr>par_l = 200, par_w = 40, intent = ''standard'', nser = 4, ndum = Ndum_int 2,
      res_in_info = None, res_out_info = None, sub_name = ''VDD'', bias_diff = True,
      connect_res_to_cap_res_metal = True, connect_dum_to_sub = False,
      cap_val = Cap_float (1 / 10 ^ 9), extracted = False\<rparr>"

definition si_string :: "pyval \<Rightarrow> string" where
  "si_string v = (if py_eq v (PInt 0) then ''0'' else ''1n'')"

section \<open>Properties of the layout assembler\<close>

subsection \<open>The phases\<close>


lemma export_sel_single:
  "num_dec e \<noteq> 2 \<Longrightarrow>
     \<not> isl (export_sel e pl w idxs s) \<and>
     lay_instances (projr (export_sel e pl w idxs s)) = lay_instances s \<and>
     lay_conns (projr (export_sel e pl w idxs s)) = lay_conns s \<and>
     map pin_name (lay_pins (projr (export_sel e pl w idxs s))) =
       map pin_name (lay_pins s) @ map (\<lambda>i. ''sel<'' @ str_int i @ ''>'') idxs"
  by (induction idxs arbitrary: s) (simp_all add: Let_def add_wires_def add_pin_def)

lemma export_sel_double:
  "num_dec e = 2 \<Longrightarrow> dec1_inst pl = Some d1 \<Longrightarrow>
     \<not> isl (export_sel e pl w idxs s) \<and>
     lay_instances (projr (export_sel e pl w idxs s)) = lay_instances s \<and>
     lay_conns (projr (export_sel e pl w idxs s)) = lay_conns s \<and>
     map pin_name (lay_pins (projr (export_sel e pl w idxs s))) =
          map pin_name (lay_pins s) @
          concat (map (\<lambda>i. [''sel0<'' @ str_int i @ ''>'', ''sel1<'' @ str_int i @ ''>'']) idxs)"
  by (induction idxs arbitrary: s) (simp_all add: Let_def add_wires_def add_pin_def)

lemma export_sel_single_prefix:
  "num_dec e \<noteq> 2 \<Longrightarrow> prefix xs (lay_pins s) \<Longrightarrow>
     prefix xs (lay_pins (projr (export_sel e pl w idxs s)))"
  by (induction idxs arbitrary: s) (simp_all add: Let_def add_wires_def add_pin_def)

lemma export_sel_double_prefix:
  "num_dec e = 2 \<Longrightarrow> dec1_inst pl = Some d1 \<Longrightarrow> prefix xs (lay_pins s) \<Longrightarrow>
     prefix xs (lay_pins (projr (export_sel e pl w idxs s)))"
  by (induction idxs arbitrary: s) (simp_all add: Let_def add_wires_def add_pin_def)

lemma names_of_suffix:
  assumes "prefix xs ys" and "map pin_name ys = map pin_name xs @ ns"
  obtains zs where "ys = xs @ zs" and "map pin_name zs = ns"
proof -
  from assms(1) obtain zs where "ys = xs @ zs" by (auto elim: prefixE)
  with assms(2) show ?thesis using that by simp
qed

lemma connect_taps_single:
  "num_dec e \<noteq> 2 \<Longrightarrow>
     \<not> isl (connect_taps e pl idxs s) \<and>
     lay_instances (projr (connect_taps e pl idxs s)) = lay_instances s \<and>
     lay_pins (projr (connect_taps e pl idxs s)) = lay_pins s \<and>
     lay_conns (projr (connect_taps e pl idxs s)) = lay_conns s @
          map (\<lambda>i. BBox_to_track_wires Direction_LOWER (vm_lp pl)
                     (get_pin e (dec0_inst pl) (''in<'' @ str_int i @ ''>''))
                     (get_pin_warr e (res_inst pl) (''out<'' @ str_int i @ ''>''))) idxs"
  by (induction idxs arbitrary: s) (simp_all add: Let_def connect_bbox_to_track_wires_def)

lemma connect_taps_double:
  "num_dec e = 2 \<Longrightarrow> dec1_inst pl = Some d1 \<Longrightarrow>
     \<not> isl (connect_taps e pl idxs s) \<and>
     lay_instances (projr (connect_taps e pl idxs s)) = lay_instances s \<and>
     lay_pins (projr (connect_taps e pl idxs s)) = lay_pins s \<and>
     lay_conns (projr (connect_taps e pl idxs s)) = lay_conns s @
          concat (map (\<lambda>i. [BBox_to_track_wires Direction_LOWER (vm_lp pl)
                     (get_pin e (dec0_inst pl) (''in<'' @ str_int i @ ''>''))
                     (get_pin_warr e (res_inst pl) (''out<'' @ str_int i @ ''>'')),
                    BBox_to_track_wires Direction_LOWER (vm_lp pl)
                     (get_pin e d1 (''in<'' @ str_int i @ ''>''))
                     (get_pin_warr e (res_inst pl) (''out<'' @ str_int i @ ''>''))]) idxs)"
  by (induction idxs arbitrary: s) (simp_all add: Let_def connect_bbox_to_track_wires_def)

lemma supply_up_effect:
  "lay_instances (snd (supply_up e xxm w tid singles acc s)) = lay_instances s \<and>
   lay_pins (snd (supply_up e xxm w tid singles acc s)) = lay_pins s \<and>
   length (fst (supply_up e xxm w tid singles acc s)) = length acc + length singles"
  by (induction singles arbitrary: acc s) (simp_all add: Let_def connect_to_tracks_def)

lemma dec_supplies_effect:
  "(\<And>lo hi. length (spread_wires e (yym_layer pl) [''sup'', ''sup'', ''sup'', ''sup''] lo hi (''sup'', ''sup'')) = 4) \<Longrightarrow>
   \<not> isl (dec_supplies e pl al ar w insts acc s) \<and>
   lay_instances (snd (projr (dec_supplies e pl al ar w insts acc s))) = lay_instances s \<and>
   lay_pins (snd (projr (dec_supplies e pl al ar w insts acc s))) = lay_pins s \<and>
   length (fst (fst (projr (dec_supplies e pl al ar w insts acc s)))) = length (fst acc) + length insts \<and>
   length (snd (fst (projr (dec_supplies e pl al ar w insts acc s)))) = length (snd acc) + length insts"
proof (induction insts arbitrary: acc s)
  case Nil
  then show ?case by simp
next
  case (Cons i insts)
  let ?L = "if bbox_xm (inst_bound_box e i) > bbox_xm (inst_bound_box e (res_inst pl)) then
               spread_wires e (yym_layer pl) [''sup'', ''sup'', ''sup'', ''sup''] ar
                 (coord_to_track e (yym_layer pl) (xh (inst_bound_box e i)) RoundMode_LESS) (''sup'', ''sup'')
             else
               spread_wires e (yym_layer pl) [''sup'', ''sup'', ''sup'', ''sup'']
                 (coord_to_track e (yym_layer pl) (xl (inst_bound_box e i)) RoundMode_GREATER) al
                 (''sup'', ''sup'')"
  have "length ?L = 4" using Cons.prems by simp
  then obtain a b c d where L: "?L = [a, b, c, d]"
    by (auto simp: length_Suc_conv eval_nat_numeral)
  show ?case
    using L Cons.IH[OF Cons.prems] by (simp add: Let_def connect_to_tracks_def)
qed


lemma supply_up_result:
  assumes "supply_up e xxm w tid singles acc s = (r, s')"
  shows "lay_instances s' = lay_instances s" and "lay_pins s' = lay_pins s"
    and "length r = length acc + length singles"
  using supply_up_effect[of e xxm w tid singles acc s] assms by simp_all

lemma layout_of_simps [simp]: "layout_of (Inl (err, s)) = s" "layout_of (Inr s) = s"
  by (simp_all add: layout_of_def)

lemma placement_single:
  assumes "0 \<le> num_sel_col e + num_sel_row e"
      and "get_lay_purp_list e (top_layer e - 1 - 1 - 1) = lp # lps"
      and "core_coord0 e < pg_coord0 e"
      and "num_dec e = 1"
  shows "\<exists>pl s'. placement e s = Inr (pl, s') \<and>
           dec1_inst pl = None \<and> dec_list pl = [dec0_inst pl] \<and>
           dec0_inst pl = \<lparr>inst_master = DecMaster,
                            inst_xform = \<lparr>dx = bbox_w (res_bound_box e), dy = 0, orient = R0\<rparr>\<rparr> \<and>
           res_inst pl = \<lparr>inst_master = ResMaster,
                           inst_xform = \<lparr>dx = 0,
                              dy = pg_coord0 e - core_coord0 e - snd (get_size_pitch e (top_layer e)),
                              orient = R0\<rparr>\<rparr> \<and>
           num_sel pl = num_sel_col e + num_sel_row e \<and>
           num_in pl = 2 ^ nat (num_sel_col e + num_sel_row e) \<and> vm_lp pl = lp \<and>
           lay_instances s' = lay_instances s @ [dec0_inst pl, res_inst pl] \<and>
           lay_pins s' = lay_pins s \<and> lay_conns s' = lay_conns s"
  using assms
  by (simp add: placement_def place_decoders_def place_rest_def Let_def add_instance_def
                set_size_from_bound_box_def)

lemma placement_double:
  assumes "0 \<le> num_sel_col e + num_sel_row e"
      and "get_lay_purp_list e (top_layer e - 1 - 1 - 1) = lp # lps"
      and "core_coord0 e < pg_coord0 e"
      and "num_dec e = 2"
  shows "\<exists>pl s' d1. placement e s = Inr (pl, s') \<and>
           dec1_inst pl = Some d1 \<and> dec_list pl = [d1, dec0_inst pl] \<and>
           d1 = \<lparr>inst_master = DecMaster,
                  inst_xform = \<lparr>dx = bbox_w (dec_bound_box e), dy = 0, orient = MY\<rparr>\<rparr> \<and>
           dec0_inst pl = \<lparr>inst_master = DecMaster,
                            inst_xform = \<lparr>dx = bbox_w (dec_bound_box e) + bbox_w (res_bound_box e),
                                           dy = 0, orient = R0\<rparr>\<rparr> \<and>
           res_inst pl = \<lparr>inst_master = ResMaster,
                           inst_xform = \<lparr>dx = bbox_w (dec_bound_box e),
                              dy = pg_coord0 e - core_coord0 e - snd (get_size_pitch e (top_layer e)),
                              orient = R0\<rparr>\<rparr> \<and>
           num_sel pl = num_sel_col e + num_sel_row e \<and>
           num_in pl = 2 ^ nat (num_sel_col e + num_sel_row e) \<and> vm_lp pl = lp \<and>
           lay_instances s' = lay_instances s @ [d1, dec0_inst pl, res_inst pl] \<and>
           lay_pins s' = lay_pins s \<and> lay_conns s' = lay_conns s"
  using assms
  by (simp add: placement_def place_decoders_def place_rest_def Let_def add_instance_def
                set_size_from_bound_box_def)

lemma export_out_single:
  "num_dec e \<noteq> 2 \<Longrightarrow>
     \<exists>s' p. export_out e pl s = Inr s' \<and> lay_instances s' = lay_instances s \<and>
       lay_conns s' = lay_conns s \<and> lay_pins s' = lay_pins s @ [p] \<and> pin_name p = ''out''"
  by (simp add: export_out_def Let_def add_wires_def add_pin_def)

lemma export_out_double:
  "num_dec e = 2 \<Longrightarrow> dec1_inst pl = Some d1 \<Longrightarrow>
     \<exists>s' p q. export_out e pl s = Inr s' \<and> lay_instances s' = lay_instances s \<and>
       lay_conns s' = lay_conns s \<and> lay_pins s' = lay_pins s @ [p, q] \<and>
       pin_name p = ''out0'' \<and> pin_name q = ''out1''"
  by (simp add: export_out_def Let_def add_wires_def add_pin_def)

lemma routing_single:
  assumes "num_dec e \<noteq> 2"
  shows "\<exists>s' sels pout. routing e pl s = Inr s' \<and> lay_instances s' = lay_instances s \<and>
     lay_pins s' = lay_pins s @ sels @ [pout] \<and>
     map pin_name sels = map (\<lambda>i. ''sel<'' @ str_int i @ ''>'') (py_range (num_sel pl)) \<and>
     pin_name pout = ''out'' \<and>
     lay_conns s' = lay_conns s @
       map (\<lambda>i. BBox_to_track_wires Direction_LOWER (vm_lp pl)
                  (get_pin e (dec0_inst pl) (''in<'' @ str_int i @ ''>''))
                  (get_pin_warr e (res_inst pl) (''out<'' @ str_int i @ ''>'')))
           (py_range (int (num_in pl)))"
proof -
  let ?w = "find_track_width e (vm_layer pl) (bbox_w (get_pin e (dec0_inst pl) ''sel<0>''))"
  let ?r1 = "export_sel e pl ?w (py_range (num_sel pl)) s"
  from export_sel_single[OF assms, of pl ?w "py_range (num_sel pl)" s]
  obtain s1 where 1: "?r1 = Inr s1" "lay_instances s1 = lay_instances s"
    "lay_conns s1 = lay_conns s"
    "map pin_name (lay_pins s1) =
       map pin_name (lay_pins s) @ map (\<lambda>i. ''sel<'' @ str_int i @ ''>'') (py_range (num_sel pl))"
    by (cases ?r1) auto
  from export_sel_single_prefix[OF assms, of "lay_pins s" s pl ?w "py_range (num_sel pl)"] 1(1)
  have "prefix (lay_pins s) (lay_pins s1)" by simp
  from names_of_suffix[OF this 1(4)]
  obtain sels where sels: "lay_pins s1 = lay_pins s @ sels"
    "map pin_name sels = map (\<lambda>i. ''sel<'' @ str_int i @ ''>'') (py_range (num_sel pl))"
    by blast
  from export_out_single[OF assms, of pl s1]
  obtain s2 p where 2: "export_out e pl s1 = Inr s2" "lay_instances s2 = lay_instances s1"
    "lay_conns s2 = lay_conns s1" "lay_pins s2 = lay_pins s1 @ [p]" "pin_name p = ''out''"
    by blast
  let ?r3 = "connect_taps e pl (py_range (int (num_in pl))) s2"
  from connect_taps_single[OF assms, of pl "py_range (int (num_in pl))" s2]
  obtain s3 where 3: "?r3 = Inr s3" "lay_instances s3 = lay_instances s2"
    "lay_pins s3 = lay_pins s2"
    "lay_conns s3 = lay_conns s2 @
       map (\<lambda>i. BBox_to_track_wires Direction_LOWER (vm_lp pl)
                  (get_pin e (dec0_inst pl) (''in<'' @ str_int i @ ''>''))
                  (get_pin_warr e (res_inst pl) (''out<'' @ str_int i @ ''>'')))
           (py_range (int (num_in pl)))"
    by (cases ?r3) auto
  have run: "routing e pl s = Inr s3"
    using 1(1) 2(1) 3(1) by (simp add: routing_def Let_def)
  have pins: "lay_pins s3 = lay_pins s @ sels @ [p]"
    using sels(1) 2(4) 3(3) by simp
  from run pins sels(2) 2(5) 1(2,3) 2(2,3) 3(2,4) show ?thesis by simp
qed

lemma routing_double:
  assumes "num_dec e = 2" and "dec1_inst pl = Some d1"
  shows "\<exists>s' sels pout0 pout1. routing e pl s = Inr s' \<and> lay_instances s' = lay_instances s \<and>
     lay_pins s' = lay_pins s @ sels @ [pout0, pout1] \<and>
     map pin_name sels =
       concat (map (\<lambda>i. [''sel0<'' @ str_int i @ ''>'', ''sel1<'' @ str_int i @ ''>''])
                 (py_range (num_sel pl))) \<and>
     pin_name pout0 = ''out0'' \<and> pin_name pout1 = ''out1'' \<and>
     lay_conns s' = lay_conns s @
       concat (map (\<lambda>i. [BBox_to_track_wires Direction_LOWER (vm_lp pl)
                  (get_pin e (dec0_inst pl) (''in<'' @ str_int i @ ''>''))
                  (get_pin_warr e (res_inst pl) (''out<'' @ str_int i @ ''>'')),
                 BBox_to_track_wires Direction_LOWER (vm_lp pl)
                  (get_pin e d1 (''in<'' @ str_int i @ ''>''))
                  (get_pin_warr e (res_inst pl) (''out<'' @ str_int i @ ''>''))])
           (py_range (int (num_in pl))))"
proof -
  let ?w = "find_track_width e (vm_layer pl) (bbox_w (get_pin e (dec0_inst pl) ''sel<0>''))"
  let ?r1 = "export_sel e pl ?w (py_range (num_sel pl)) s"
  from export_sel_double[OF assms, of ?w "py_range (num_sel pl)" s]
  obtain s1 where 1: "?r1 = Inr s1" "lay_instances s1 = lay_instances s"
    "lay_conns s1 = lay_conns s"
    "map pin_name (lay_pins s1) =
       map pin_name (lay_pins s) @
       concat (map (\<lambda>i. [''sel0<'' @ str_int i @ ''>'', ''sel1<'' @ str_int i @ ''>''])
                 (py_range (num_sel pl)))"
    by (cases ?r1) auto
  from export_sel_double_prefix[OF assms, of "lay_pins s" s ?w "py_range (num_sel pl)"] 1(1)
  have "prefix (lay_pins s) (lay_pins s1)" by simp
  from names_of_suffix[OF this 1(4)]
  obtain sels where sels: "lay_pins s1 = lay_pins s @ sels"
    "map pin_name sels =
       concat (map (\<lambda>i. [''sel0<'' @ str_int i @ ''>'', ''sel1<'' @ str_int i @ ''>''])
                 (py_range (num_sel pl)))"
    by blast
  from export_out_double[OF assms, of s1]
  obtain s2 p q where 2: "export_out e pl s1 = Inr s2" "lay_instances s2 = lay_instances s1"
    "lay_conns s2 = lay_conns s1" "lay_pins s2 = lay_pins s1 @ [p, q]"
    "pin_name p = ''out0''" "pin_name q = ''out1''"
    by blast
  let ?r3 = "connect_taps e pl (py_range (int (num_in pl))) s2"
  from connect_taps_double[OF assms, of "py_range (int (num_in pl))" s2]
  obtain s3 where 3: "?r3 = Inr s3" "lay_instances s3 = lay_instances s2"
    "lay_pins s3 = lay_pins s2"
    "lay_conns s3 = lay_conns s2 @
       concat (map (\<lambda>i. [BBox_to_track_wires Direction_LOWER (vm_lp pl)
                  (get_pin e (dec0_inst pl) (''in<'' @ str_int i @ ''>''))
                  (get_pin_warr e (res_inst pl) (''out<'' @ str_int i @ ''>'')),
                 BBox_to_track_wires Direction_LOWER (vm_lp pl)
                  (get_pin e d1 (''in<'' @ str_int i @ ''>''))
                  (get_pin_warr e (res_inst pl) (''out<'' @ str_int i @ ''>''))])
           (py_range (int (num_in pl))))"
    by (cases ?r3) auto
  have run: "routing e pl s = Inr s3"
    using 1(1) 2(1) 3(1) by (simp add: routing_def Let_def)
  have pins: "lay_pins s3 = lay_pins s @ sels @ [p, q]"
    using sels(1) 2(4) 3(3) by simp
  from run pins sels(2) 2(5,6) 1(2,3) 2(2,3) 3(2,4) show ?thesis by simp
qed

lemma supply_up_keeps:
  "c \<in> set (lay_conns s) \<Longrightarrow> c \<in> set (lay_conns (snd (supply_up e xxm w tid singles acc s)))"
  by (induction singles arbitrary: acc s) (simp_all add: Let_def connect_to_tracks_def)

lemma dec_supplies_keeps:
  "(c \<in> set (lay_conns s) \<longrightarrow>
      c \<in> set (lay_conns (case dec_supplies e pl al ar w insts acc s of
                           Inl (err, s') \<Rightarrow> s' | Inr (r, s') \<Rightarrow> s'))) \<and>
   lay_instances (case dec_supplies e pl al ar w insts acc s of
                    Inl (err, s') \<Rightarrow> s' | Inr (r, s') \<Rightarrow> s') = lay_instances s"
  by (induction insts arbitrary: acc s)
     (simp_all add: Let_def connect_to_tracks_def split: list.splits)

lemma supply_up_keeps_result:
  "supply_up e xxm w tid singles acc s = (r, s') \<Longrightarrow>
     lay_instances s' = lay_instances s \<and> (c \<in> set (lay_conns s) \<longrightarrow> c \<in> set (lay_conns s'))"
  using supply_up_keeps[of c s e xxm w tid singles acc]
        supply_up_effect[of e xxm w tid singles acc s] by simp

lemma dec_supplies_keeps_Inl:
  "dec_supplies e pl al ar w insts acc s = Inl (err, s') \<Longrightarrow>
     lay_instances s' = lay_instances s \<and> (c \<in> set (lay_conns s) \<longrightarrow> c \<in> set (lay_conns s'))"
  using dec_supplies_keeps[of c s e pl al ar w insts acc] by simp

lemma dec_supplies_keeps_Inr:
  "dec_supplies e pl al ar w insts acc s = Inr (r, s') \<Longrightarrow>
     lay_instances s' = lay_instances s \<and> (c \<in> set (lay_conns s) \<longrightarrow> c \<in> set (lay_conns s'))"
  using dec_supplies_keeps[of c s e pl al ar w insts acc] by simp

lemma supplies_keeps:
  "(c \<in> set (lay_conns s) \<longrightarrow> c \<in> set (lay_conns (layout_of (supplies e pl s)))) \<and>
   lay_instances (layout_of (supplies e pl s)) = lay_instances s"
  by (auto simp: supplies_def Let_def connect_to_tracks_def add_pin_def
           split: list.splits prod.splits sum.splits
           dest!: supply_up_keeps_result[where c = c]
                  dec_supplies_keeps_Inl[where c = c] dec_supplies_keeps_Inr[where c = c])


lemma py_range_iff: "idx \<in> set (py_range n) \<longleftrightarrow> 0 \<le> idx \<and> idx < n"
proof
  assume "idx \<in> set (py_range n)"
  then show "0 \<le> idx \<and> idx < n" by (auto simp: py_range_def)
next
  assume "0 \<le> idx \<and> idx < n"
  then have "nat idx < nat n" and "int (nat idx) = idx" by simp_all
  then show "idx \<in> set (py_range n)"
    unfolding py_range_def by (metis atLeastLessThan_iff image_eqI le0 set_map set_upt)
qed

lemma export_sel_no_assertion: "export_sel e pl w idxs s \<noteq> Inl (AssertionError, s')"
  by (induction idxs arbitrary: s)
     (simp_all add: Let_def add_wires_def add_pin_def split: option.splits)

lemma connect_taps_no_assertion: "connect_taps e pl idxs s \<noteq> Inl (AssertionError, s')"
  by (induction idxs arbitrary: s)
     (simp_all add: Let_def connect_bbox_to_track_wires_def split: option.splits)

lemma routing_no_assertion: "routing e pl s \<noteq> Inl (AssertionError, s')"
  by (simp add: routing_def Let_def export_out_def add_wires_def add_pin_def
                export_sel_no_assertion connect_taps_no_assertion
           split: sum.splits option.splits)

lemma dec_supplies_no_assertion:
  "dec_supplies e pl al ar w insts acc s \<noteq> Inl (AssertionError, s')"
  by (induction insts arbitrary: acc s)
     (simp_all add: Let_def connect_to_tracks_def split: list.splits)

lemma supplies_no_assertion: "supplies e pl s \<noteq> Inl (AssertionError, s')"
  by (simp add: supplies_def Let_def connect_to_tracks_def dec_supplies_no_assertion
           split: list.splits prod.splits sum.splits)

lemma draw_layout_after_routing:
  assumes "placement e s = Inr (pl, s1)" and "routing e pl s1 = Inr s2"
  shows "lay_instances (layout_of (draw_layout e s)) = lay_instances s2"
    and "c \<in> set (lay_conns s2) \<Longrightarrow> c \<in> set (lay_conns (layout_of (draw_layout e s)))"
proof -
  have "lay_instances (layout_of (draw_layout e s)) = lay_instances (layout_of (supplies e pl s2))
        \<and> lay_conns (layout_of (draw_layout e s)) = lay_conns (layout_of (supplies e pl s2))"
    using assms by (cases "supplies e pl s2") (auto simp: draw_layout_def)
  with supplies_keeps[of c s2 e pl]
  show "lay_instances (layout_of (draw_layout e s)) = lay_instances s2"
    and "c \<in> set (lay_conns s2) \<Longrightarrow> c \<in> set (lay_conns (layout_of (draw_layout e s)))"
    by simp_all
qed

subsection \<open>The supply routing, step by step\<close>

lemma placement_layers:
  assumes "placement e s = Inr (pl, s')"
  shows "xxm_layer pl = top_layer e" and "yym_layer pl = top_layer e + 1"
    and "ym_layer pl = top_layer e - 1" and "bound_box_yh pl = layout_top e"
  using assms
  by (auto simp: placement_def place_decoders_def place_rest_def Let_def add_instance_def
                 set_size_from_bound_box_def layout_top_def
           split: if_splits list.splits)

lemma supply_up_closed:
  "fst (supply_up e (top_layer e) (get_width e (top_layer e) ''sup'') tid singles acc s) =
     acc @ map (xxm_wire e tid) singles \<and>
   lay_conns (snd (supply_up e (top_layer e) (get_width e (top_layer e) ''sup'') tid singles acc s)) =
     lay_conns s @
     concat (map (\<lambda>ws. [To_tracks [ws] tid (Some MinLenMode_MIDDLE) None None,
                        To_tracks [ym_wire e tid ws] (xxm_tid e tid ws) None None None])
               singles)"
  by (induction singles arbitrary: acc s)
     (simp_all add: Let_def connect_to_tracks_def xxm_wire_def xxm_tid_def ym_wire_def)

lemma supply_up_closed_result:
  assumes "supply_up e (top_layer e) (get_width e (top_layer e) ''sup'') tid
             (ladder_singles e r name) [] s = (xs, s')"
  shows "xs = ladder_wires e tid r name"
    and "lay_conns s' = lay_conns s @ ladder_conns e tid r name"
  using supply_up_closed[of e tid "ladder_singles e r name" "[]" s] assms
  by (simp_all add: ladder_wires_def ladder_conns_def)

lemma dec_supplies_closed:
  assumes four: "\<And>lo hi. length (spread_wires e (top_layer e + 1)
                                    [''sup'', ''sup'', ''sup'', ''sup''] lo hi (''sup'', ''sup'')) = 4"
      and lay: "xxm_layer pl = top_layer e" "yym_layer pl = top_layer e + 1"
               "bound_box_yh pl = layout_top e"
      and al: "al = get_next_track e (top_layer e + 1)
                      (coord_to_track e (top_layer e + 1) (lower x0) RoundMode_GREATER)
                      ''sup'' ''sup'' (- 1)"
      and ar: "ar = get_next_track e (top_layer e + 1)
                      (coord_to_track e (top_layer e + 1) (upper x0) RoundMode_LESS)
                      ''sup'' ''sup'' 1"
      and w: "w = get_width e (top_layer e + 1) ''sup''"
  shows "\<not> isl (dec_supplies e pl al ar w insts acc s) \<and>
     fst (fst (projr (dec_supplies e pl al ar w insts acc s))) =
       fst acc @ map (\<lambda>d. top_wire e [get_pin_layer e d ''VDD'' (top_layer e)]
                              (dec_vdd_tid e x0 (res_inst pl) d)) insts \<and>
     snd (fst (projr (dec_supplies e pl al ar w insts acc s))) =
       snd acc @ map (\<lambda>d. top_wire e [get_pin_layer e d ''VSS'' (top_layer e)]
                              (dec_vss_tid e x0 (res_inst pl) d)) insts \<and>
     lay_conns (snd (projr (dec_supplies e pl al ar w insts acc s))) =
       lay_conns s @
       concat (map (\<lambda>d. [top_conn e [get_pin_layer e d ''VDD'' (top_layer e)]
                                     (dec_vdd_tid e x0 (res_inst pl) d),
                         top_conn e [get_pin_layer e d ''VSS'' (top_layer e)]
                                     (dec_vss_tid e x0 (res_inst pl) d)]) insts)"
proof (induction insts arbitrary: acc s)
  case Nil
  then show ?case by simp
next
  case (Cons i insts)
  have "length (dec_locs e x0 (res_inst pl) i) = 4"
    by (simp add: dec_locs_def Let_def four)
  then obtain a b c d where L: "dec_locs e x0 (res_inst pl) i = [a, b, c, d]"
    by (auto simp: length_Suc_conv eval_nat_numeral)
  note L' = L[unfolded dec_locs_def dec_right_def Let_def, folded al ar]
  have tv: "dec_vdd_tid e x0 (res_inst pl) i =
              \<lparr>tid_layer = top_layer e + 1,
               tid_index = (if bbox_xm (inst_bound_box e i) > bbox_xm (inst_bound_box e (res_inst pl))
                            then b else a),
               tid_width = w, tid_num = 2, tid_pitch = c - a\<rparr>"
    by (simp add: dec_vdd_tid_def L dec_right_def w)
  have ts: "dec_vss_tid e x0 (res_inst pl) i =
              \<lparr>tid_layer = top_layer e + 1,
               tid_index = (if bbox_xm (inst_bound_box e i) > bbox_xm (inst_bound_box e (res_inst pl))
                            then a else b),
               tid_width = w, tid_num = 2, tid_pitch = c - a\<rparr>"
    by (simp add: dec_vss_tid_def L dec_right_def w)
  show ?case
    using L' Cons.IH
    by (simp add: Let_def connect_to_tracks_def lay tv ts top_wire_def top_conn_def)
qed

lemma dec_supplies_closed_result:
  assumes "\<And>lo hi. length (spread_wires e (top_layer e + 1)
                              [''sup'', ''sup'', ''sup'', ''sup''] lo hi (''sup'', ''sup'')) = 4"
      and "xxm_layer pl = top_layer e" "yym_layer pl = top_layer e + 1"
          "bound_box_yh pl = layout_top e"
      and "al = get_next_track e (top_layer e + 1)
                      (coord_to_track e (top_layer e + 1) (lower x0) RoundMode_GREATER)
                      ''sup'' ''sup'' (- 1)"
      and "ar = get_next_track e (top_layer e + 1)
                      (coord_to_track e (top_layer e + 1) (upper x0) RoundMode_LESS)
                      ''sup'' ''sup'' 1"
      and "w = get_width e (top_layer e + 1) ''sup''"
  obtains s' where
     "dec_supplies e pl al ar w insts ([v0], [g0]) s =
        Inr ((v0 # map (\<lambda>d. top_wire e [get_pin_layer e d ''VDD'' (top_layer e)]
                              (dec_vdd_tid e x0 (res_inst pl) d)) insts,
              g0 # map (\<lambda>d. top_wire e [get_pin_layer e d ''VSS'' (top_layer e)]
                              (dec_vss_tid e x0 (res_inst pl) d)) insts), s')"
     "lay_instances s' = lay_instances s" "lay_pins s' = lay_pins s"
     "lay_conns s' = lay_conns s @
       concat (map (\<lambda>d. [top_conn e [get_pin_layer e d ''VDD'' (top_layer e)]
                                     (dec_vdd_tid e x0 (res_inst pl) d),
                         top_conn e [get_pin_layer e d ''VSS'' (top_layer e)]
                                     (dec_vss_tid e x0 (res_inst pl) d)]) insts)"
proof -
  let ?r = "dec_supplies e pl al ar w insts ([v0], [g0]) s"
  have four': "\<And>lo hi. length (spread_wires e (yym_layer pl)
                              [''sup'', ''sup'', ''sup'', ''sup''] lo hi (''sup'', ''sup'')) = 4"
    using assms(1,3) by simp
  from dec_supplies_closed[OF assms, of insts "([v0], [g0])" s]
       dec_supplies_effect[OF four', of al ar w insts "([v0], [g0])" s]
  show ?thesis
    by (cases ?r) (auto intro!: that)
qed

lemma supplies_closed:
  assumes V: "get_all_port_pins e (res_inst pl) ''VDD'' = vdd0 # vdds"
      and iter: "\<And>wa. warr_iter e wa \<noteq> []"
      and spread: "\<And>layer types lo hi sp. length (spread_wires e layer types lo hi sp) = length types"
      and lay: "xxm_layer pl = top_layer e" "yym_layer pl = top_layer e + 1"
               "ym_layer pl = top_layer e - 1" "bound_box_yh pl = layout_top e"
  obtains s' x0 xs where
    "ladder_wires e (ladder_vdd_tid e vdd0) (res_inst pl) ''VDD'' = x0 # xs"
    "supplies e pl s = Inr s'"
    "lay_instances s' = lay_instances s"
    "lay_pins s' = lay_pins s @
       [\<lparr>pin_name = ''VDD'',
         pin_warrs = supply_vdd_wires e (res_inst pl) (dec_list pl) vdd0 x0,
         pin_mode = PinMode_ALL, pin_connect = True\<rparr>,
        \<lparr>pin_name = ''VSS'',
         pin_warrs = supply_vss_wires e (res_inst pl) (dec_list pl) vdd0 x0,
         pin_mode = PinMode_ALL, pin_connect = True\<rparr>]"
    "lay_conns s' = lay_conns s @ supply_conns e (res_inst pl) (dec_list pl) vdd0 x0"
proof -
  let ?r = "res_inst pl"
  let ?xxm = "top_layer e" and ?yym = "top_layer e + 1"
  let ?tv = "ladder_vdd_tid e vdd0" and ?ts = "ladder_vss_tid e vdd0"
  obtain xs1 s1 where U1: "supply_up e ?xxm (get_width e ?xxm ''sup'') ?ts
       (ladder_singles e ?r ''VSS'') [] s = (xs1, s1)"
    by (meson surj_pair)
  obtain xs2 s2 where U2: "supply_up e ?xxm (get_width e ?xxm ''sup'') ?tv
       (ladder_singles e ?r ''VDD'') [] s1 = (xs2, s2)"
    by (meson surj_pair)
  note k1 = supply_up_result(1,2)[OF U1] and k2 = supply_up_result(1,2)[OF U2]
  note c1 = supply_up_closed_result[OF U1] and c2 = supply_up_closed_result[OF U2]
  from iter[of vdd0] V have "ladder_singles e ?r ''VDD'' \<noteq> []"
    by (simp add: ladder_singles_def)
  then have "ladder_wires e ?tv ?r ''VDD'' \<noteq> []" by (simp add: ladder_wires_def)
  then obtain x0 xs where X: "ladder_wires e ?tv ?r ''VDD'' = x0 # xs"
    by (cases "ladder_wires e ?tv ?r ''VDD''") auto
  let ?yl = "coord_to_track e ?yym (lower x0) RoundMode_GREATER"
  let ?yr = "coord_to_track e ?yym (upper x0) RoundMode_LESS"
  let ?al = "get_next_track e ?yym ?yl ''sup'' ''sup'' (- 1)"
  let ?ar = "get_next_track e ?yym ?yr ''sup'' ''sup'' 1"
  let ?w = "get_width e ?yym ''sup''"
  have "length (spread_wires e ?yym [''sup'', ''sup'', ''sup''] ?yl ?yr (''sup'', ''sup'')) = 3"
    by (simp add: spread)
  then obtain a b c where L: "spread_wires e ?yym [''sup'', ''sup'', ''sup''] ?yl ?yr (''sup'', ''sup'') = [a, b, c]"
    by (auto simp: length_Suc_conv eval_nat_numeral)
  have tvs: "top_vss_tid e x0 = track_id1 ?yym b ?w"
    by (simp add: top_vss_tid_def Let_def L)
  have tvd: "top_vdd_tid e x0 = \<lparr>tid_layer = ?yym, tid_index = ?yl, tid_width = ?w,
                                 tid_num = 2, tid_pitch = ?yr - ?yl\<rparr>"
    by (simp add: top_vdd_tid_def Let_def)
  have four: "\<And>lo hi. length (spread_wires e ?yym [''sup'', ''sup'', ''sup'', ''sup''] lo hi (''sup'', ''sup'')) = 4"
    by (simp add: spread)
  let ?v0 = "top_wire e (x0 # xs) (top_vdd_tid e x0)"
  let ?g0 = "top_wire e xs1 (top_vss_tid e x0)"
  let ?s4 = "s2\<lparr>lay_conns := lay_conns s2 @ [top_conn e (x0 # xs) (top_vdd_tid e x0)] @
                                 [top_conn e xs1 (top_vss_tid e x0)],
               lay_wires := lay_wires s2 @ [?v0] @ [?g0]\<rparr>"
  from dec_supplies_closed_result[OF four lay(1,2,4) refl refl refl, of x0 "dec_list pl" ?v0 ?g0 ?s4]
  obtain s5 where D:
     "dec_supplies e pl ?al ?ar ?w (dec_list pl) ([?v0], [?g0]) ?s4 =
        Inr ((?v0 # map (\<lambda>d. top_wire e [get_pin_layer e d ''VDD'' (top_layer e)]
                              (dec_vdd_tid e x0 (res_inst pl) d)) (dec_list pl),
              ?g0 # map (\<lambda>d. top_wire e [get_pin_layer e d ''VSS'' (top_layer e)]
                              (dec_vss_tid e x0 (res_inst pl) d)) (dec_list pl)), s5)"
     "lay_instances s5 = lay_instances ?s4" "lay_pins s5 = lay_pins ?s4"
     "lay_conns s5 = lay_conns ?s4 @
       concat (map (\<lambda>d. [top_conn e [get_pin_layer e d ''VDD'' (top_layer e)]
                                     (dec_vdd_tid e x0 (res_inst pl) d),
                         top_conn e [get_pin_layer e d ''VSS'' (top_layer e)]
                                     (dec_vss_tid e x0 (res_inst pl) d)]) (dec_list pl))"
    by blast
  let ?s' = "add_pin ''VSS'' (supply_vss_wires e ?r (dec_list pl) vdd0 x0) PinMode_ALL True
               (add_pin ''VDD'' (supply_vdd_wires e ?r (dec_list pl) vdd0 x0) PinMode_ALL True s5)"
  have xs2: "xs2 = x0 # xs" using c2(1) X by simp
  have run: "supplies e pl s = Inr ?s'"
    using V U1[unfolded ladder_singles_def ladder_vss_tid_def Let_def]
          U2[unfolded ladder_singles_def ladder_vdd_tid_def Let_def] xs2 L D(1) c1(1) X
    by (simp add: supplies_def Let_def lay connect_to_tracks_def
                  tvs[symmetric] tvd[symmetric] top_wire_def[symmetric] top_conn_def[symmetric]
                  supply_vdd_wires_def supply_vss_wires_def)
  have "lay_instances ?s' = lay_instances s"
    using D(2) k1(1) k2(1) by (simp add: add_pin_def)
  moreover have "lay_pins ?s' = lay_pins s @
       [\<lparr>pin_name = ''VDD'',
         pin_warrs = supply_vdd_wires e (res_inst pl) (dec_list pl) vdd0 x0,
         pin_mode = PinMode_ALL, pin_connect = True\<rparr>,
        \<lparr>pin_name = ''VSS'',
         pin_warrs = supply_vss_wires e (res_inst pl) (dec_list pl) vdd0 x0,
         pin_mode = PinMode_ALL, pin_connect = True\<rparr>]"
    using D(3) k1(2) k2(2) by (simp add: add_pin_def)
  moreover have "lay_conns ?s' = lay_conns s @ supply_conns e (res_inst pl) (dec_list pl) vdd0 x0"
    using D(4) c1 c2(2) X by (simp add: add_pin_def supply_conns_def)
  ultimately show ?thesis
    using that[OF X run] by blast
qed

subsection \<open>The generator as a whole\<close>

lemma placement_no_assertion:
  "core_coord0 e < pg_coord0 e \<Longrightarrow> placement e s \<noteq> Inl (AssertionError, s')"
  by (simp add: placement_def place_decoders_def add_instance_def Let_def
           split: list.splits sum.splits)

lemma placement_rejects:
  assumes "num_dec e \<noteq> 1" and "num_dec e \<noteq> 2"
  shows "\<exists>err. placement e s = Inl (err, s)"
    and "0 \<le> num_sel_col e + num_sel_row e \<Longrightarrow>
         get_lay_purp_list e (top_layer e - 1 - 1 - 1) \<noteq> [] \<Longrightarrow>
         core_coord0 e < pg_coord0 e \<Longrightarrow>
         placement e s = Inl (ValueError (Unsupported_num_dec (num_dec e)), s)"
  using assms
  by (auto simp: placement_def place_decoders_def Let_def split: list.splits)

lemma placement_asserts:
  assumes "\<not> core_coord0 e < pg_coord0 e"
  shows "\<exists>err. placement e s = Inl (err, s)"
    and "0 \<le> num_sel_col e + num_sel_row e \<Longrightarrow>
         get_lay_purp_list e (top_layer e - 1 - 1 - 1) \<noteq> [] \<Longrightarrow>
         placement e s = Inl (AssertionError, s)"
  using assms
  by (auto simp: placement_def Let_def split: list.splits)

lemma draw_layout_placement_error:
  "placement e s = Inl x \<Longrightarrow> draw_layout e s = Inl x"
  by (simp add: draw_layout_def)

lemma draw_layout_single_instances:
  assumes "0 \<le> num_sel_col e + num_sel_row e"
      and "get_lay_purp_list e (top_layer e - 1 - 1 - 1) = lp # lps"
      and "core_coord0 e < pg_coord0 e"
      and "num_dec e = 1"
  shows "lay_instances (layout_of (draw_layout e s)) =
           lay_instances s @
           [\<lparr>inst_master = DecMaster,
             inst_xform = \<lparr>dx = bbox_w (res_bound_box e), dy = 0, orient = R0\<rparr>\<rparr>,
            \<lparr>inst_master = ResMaster,
             inst_xform = \<lparr>dx = 0,
                dy = pg_coord0 e - core_coord0 e - snd (get_size_pitch e (top_layer e)),
                orient = R0\<rparr>\<rparr>]"
proof -
  from placement_single[OF assms, of s]
  obtain pl s1 where P: "placement e s = Inr (pl, s1)"
    and d: "dec0_inst pl = \<lparr>inst_master = DecMaster,
                            inst_xform = \<lparr>dx = bbox_w (res_bound_box e), dy = 0, orient = R0\<rparr>\<rparr>"
      "res_inst pl = \<lparr>inst_master = ResMaster,
                           inst_xform = \<lparr>dx = 0,
                              dy = pg_coord0 e - core_coord0 e - snd (get_size_pitch e (top_layer e)),
                              orient = R0\<rparr>\<rparr>"
    and i: "lay_instances s1 = lay_instances s @ [dec0_inst pl, res_inst pl]"
    by blast
  from assms(4) have "num_dec e \<noteq> 2" by simp
  from routing_single[OF this, of pl s1]
  obtain s2 where R: "routing e pl s1 = Inr s2" "lay_instances s2 = lay_instances s1"
    by blast
  from draw_layout_after_routing(1)[OF P R(1)] R(2) i d show ?thesis by simp
qed

lemma draw_layout_double_instances:
  assumes "0 \<le> num_sel_col e + num_sel_row e"
      and "get_lay_purp_list e (top_layer e - 1 - 1 - 1) = lp # lps"
      and "core_coord0 e < pg_coord0 e"
      and "num_dec e = 2"
  shows "lay_instances (layout_of (draw_layout e s)) =
           lay_instances s @
           [\<lparr>inst_master = DecMaster,
             inst_xform = \<lparr>dx = bbox_w (dec_bound_box e), dy = 0, orient = MY\<rparr>\<rparr>,
            \<lparr>inst_master = DecMaster,
             inst_xform = \<lparr>dx = bbox_w (dec_bound_box e) + bbox_w (res_bound_box e),
                            dy = 0, orient = R0\<rparr>\<rparr>,
            \<lparr>inst_master = ResMaster,
             inst_xform = \<lparr>dx = bbox_w (dec_bound_box e),
                dy = pg_coord0 e - core_coord0 e - snd (get_size_pitch e (top_layer e)),
                orient = R0\<rparr>\<rparr>]"
proof -
  from placement_double[OF assms, of s]
  obtain pl s1 d1 where P: "placement e s = Inr (pl, s1)"
    and d1: "dec1_inst pl = Some d1"
      "d1 = \<lparr>inst_master = DecMaster,
             inst_xform = \<lparr>dx = bbox_w (dec_bound_box e), dy = 0, orient = MY\<rparr>\<rparr>"
    and d: "dec0_inst pl = \<lparr>inst_master = DecMaster,
                            inst_xform = \<lparr>dx = bbox_w (dec_bound_box e) + bbox_w (res_bound_box e),
                                           dy = 0, orient = R0\<rparr>\<rparr>"
      "res_inst pl = \<lparr>inst_master = ResMaster,
                           inst_xform = \<lparr>dx = bbox_w (dec_bound_box e),
                              dy = pg_coord0 e - core_coord0 e - snd (get_size_pitch e (top_layer e)),
                              orient = R0\<rparr>\<rparr>"
    and i: "lay_instances s1 = lay_instances s @ [d1, dec0_inst pl, res_inst pl]"
    by blast
  from routing_double[OF assms(4) d1(1), of s1]
  obtain s2 where R: "routing e pl s1 = Inr s2" "lay_instances s2 = lay_instances s1"
    by blast
  from draw_layout_after_routing(1)[OF P R(1)] R(2) i d d1(2) show ?thesis by simp
qed

text \<open>
  C1. For a parameter set on which the generator runs to its end (a non-negative number
  of select bits, \<^verbatim>\<open>pg_coord0\<close> above \<^verbatim>\<open>core_coord0\<close>, and a framework that returns a layer
  purpose, a supply wire for the ladder, at least one single wire for every wire array
  and one track for every wire it is asked to spread): with \<^verbatim>\<open>num_dec=1\<close> it places one
  decoder and the ladder and adds the pins \<^verbatim>\<open>sel<i>\<close> for every \<open>i\<close> below \<open>num_sel\<close>, then
  \<^verbatim>\<open>out\<close>, \<^verbatim>\<open>VDD\<close> and \<^verbatim>\<open>VSS\<close>; with \<^verbatim>\<open>num_dec=2\<close> it places two decoders (the first
  mirrored) and the ladder and adds \<^verbatim>\<open>sel0<i>\<close> and \<^verbatim>\<open>sel1<i>\<close> for every \<open>i\<close>, then
  \<^verbatim>\<open>out0\<close>, \<^verbatim>\<open>out1\<close>, \<^verbatim>\<open>VDD\<close> and \<^verbatim>\<open>VSS\<close>. In both cases there is one \<^verbatim>\<open>VDD\<close> and one
  \<^verbatim>\<open>VSS\<close> pin, each added with \<^verbatim>\<open>connect=True\<close> and mode \<^verbatim>\<open>ALL\<close>. The \<^verbatim>\<open>VDD\<close> pin carries
  exactly the wires \<open>supply_vdd_wires\<close>: first the wire on the layer above the decoder's
  top layer that joins the wires brought up from every single wire of the ladder's
  \<^verbatim>\<open>VDD\<close> port pins, then, for every placed decoder in placement order, the wire that the
  decoder's own \<^verbatim>\<open>VDD\<close> pin is connected to; the \<^verbatim>\<open>VSS\<close> pin carries the corresponding
  wires made from the \<^verbatim>\<open>VSS\<close> port pins of the ladder and the \<^verbatim>\<open>VSS\<close> pin of every
  decoder. The connections made are those of the ladder taps followed by exactly
  \<open>supply_conns\<close>: two for every single supply wire of the ladder, one joining the ladder's
  \<^verbatim>\<open>VDD\<close> wires, one joining its \<^verbatim>\<open>VSS\<close> wires, and a \<^verbatim>\<open>VDD\<close> and a \<^verbatim>\<open>VSS\<close> connection
  for every decoder, each on the tracks that the code computes.
\<close>

theorem draw_layout_instances_and_pins:
  assumes "0 \<le> num_sel_col e + num_sel_row e"
      and "get_lay_purp_list e (top_layer e - 1 - 1 - 1) \<noteq> []"
      and "core_coord0 e < pg_coord0 e"
      and "\<And>i. get_all_port_pins e i ''VDD'' \<noteq> []"
      and "\<And>wa. warr_iter e wa \<noteq> []"
      and "\<And>layer types lo hi sp. length (spread_wires e layer types lo hi sp) = length types"
  shows "(num_dec e = 1 \<longrightarrow>
           (\<exists>s' d0 r sels pout pvdd pvss lp lps vdd0 vdds x0 xs.
              draw_layout e s = Inr s' \<and>
              lay_instances s' = lay_instances s @ [d0, r] \<and>
              inst_master d0 = DecMaster \<and> inst_master r = ResMaster \<and>
              lay_pins s' = lay_pins s @ sels @ [pout, pvdd, pvss] \<and>
              map pin_name sels = map (\<lambda>i. ''sel<'' @ str_int i @ ''>'')
                                    (py_range (num_sel_col e + num_sel_row e)) \<and>
              pin_name pout = ''out'' \<and>
              pin_name pvdd = ''VDD'' \<and> pin_connect pvdd \<and> length (pin_warrs pvdd) = 2 \<and>
              pin_name pvss = ''VSS'' \<and> pin_connect pvss \<and> length (pin_warrs pvss) = 2 \<and>
              get_all_port_pins e r ''VDD'' = vdd0 # vdds \<and>
              ladder_wires e (ladder_vdd_tid e vdd0) r ''VDD'' = x0 # xs \<and>
              pvdd = \<lparr>pin_name = ''VDD'', pin_warrs = supply_vdd_wires e r [d0] vdd0 x0,
                      pin_mode = PinMode_ALL, pin_connect = True\<rparr> \<and>
              pvss = \<lparr>pin_name = ''VSS'', pin_warrs = supply_vss_wires e r [d0] vdd0 x0,
                      pin_mode = PinMode_ALL, pin_connect = True\<rparr> \<and>
              get_lay_purp_list e (top_layer e - 1 - 1 - 1) = lp # lps \<and>
              lay_conns s' = lay_conns s @
                map (\<lambda>i. BBox_to_track_wires Direction_LOWER lp
                           (get_pin e d0 (''in<'' @ str_int i @ ''>''))
                           (get_pin_warr e r (''out<'' @ str_int i @ ''>'')))
                    (py_range (int (2 ^ nat (num_sel_col e + num_sel_row e)))) @
                supply_conns e r [d0] vdd0 x0)) \<and>
         (num_dec e = 2 \<longrightarrow>
           (\<exists>s' d1 d0 r sels pout0 pout1 pvdd pvss lp lps vdd0 vdds x0 xs.
              draw_layout e s = Inr s' \<and>
              lay_instances s' = lay_instances s @ [d1, d0, r] \<and>
              inst_master d1 = DecMaster \<and> orient (inst_xform d1) = MY \<and>
              inst_master d0 = DecMaster \<and> inst_master r = ResMaster \<and>
              lay_pins s' = lay_pins s @ sels @ [pout0, pout1, pvdd, pvss] \<and>
              map pin_name sels =
                concat (map (\<lambda>i. [''sel0<'' @ str_int i @ ''>'', ''sel1<'' @ str_int i @ ''>''])
                          (py_range (num_sel_col e + num_sel_row e))) \<and>
              pin_name pout0 = ''out0'' \<and> pin_name pout1 = ''out1'' \<and>
              pin_name pvdd = ''VDD'' \<and> pin_connect pvdd \<and> length (pin_warrs pvdd) = 3 \<and>
              pin_name pvss = ''VSS'' \<and> pin_connect pvss \<and> length (pin_warrs pvss) = 3 \<and>
              get_all_port_pins e r ''VDD'' = vdd0 # vdds \<and>
              ladder_wires e (ladder_vdd_tid e vdd0) r ''VDD'' = x0 # xs \<and>
              pvdd = \<lparr>pin_name = ''VDD'', pin_warrs = supply_vdd_wires e r [d1, d0] vdd0 x0,
                      pin_mode = PinMode_ALL, pin_connect = True\<rparr> \<and>
              pvss = \<lparr>pin_name = ''VSS'', pin_warrs = supply_vss_wires e r [d1, d0] vdd0 x0,
                      pin_mode = PinMode_ALL, pin_connect = True\<rparr> \<and>
              get_lay_purp_list e (top_layer e - 1 - 1 - 1) = lp # lps \<and>
              lay_conns s' = lay_conns s @
                concat (map (\<lambda>i. [BBox_to_track_wires Direction_LOWER lp
                                     (get_pin e d0 (''in<'' @ str_int i @ ''>''))
                                     (get_pin_warr e r (''out<'' @ str_int i @ ''>'')),
                                   BBox_to_track_wires Direction_LOWER lp
                                     (get_pin e d1 (''in<'' @ str_int i @ ''>''))
                                     (get_pin_warr e r (''out<'' @ str_int i @ ''>''))])
                          (py_range (int (2 ^ nat (num_sel_col e + num_sel_row e))))) @
                supply_conns e r [d1, d0] vdd0 x0))"
    (is "(_ \<longrightarrow> ?one) \<and> (_ \<longrightarrow> ?two)")
proof -
  from assms(2) obtain lp lps where lp: "get_lay_purp_list e (top_layer e - 1 - 1 - 1) = lp # lps"
    by (cases "get_lay_purp_list e (top_layer e - 1 - 1 - 1)") auto
  have first: "num_dec e = 1 \<longrightarrow> ?one"
  proof
    assume one: "num_dec e = 1"
    from placement_single[OF assms(1) lp assms(3) one, of s]
    obtain pl s1 where P: "placement e s = Inr (pl, s1)"
      and m: "dec0_inst pl = \<lparr>inst_master = DecMaster,
                            inst_xform = \<lparr>dx = bbox_w (res_bound_box e), dy = 0, orient = R0\<rparr>\<rparr>"
        "res_inst pl = \<lparr>inst_master = ResMaster,
                           inst_xform = \<lparr>dx = 0,
                              dy = pg_coord0 e - core_coord0 e - snd (get_size_pitch e (top_layer e)),
                              orient = R0\<rparr>\<rparr>"
      and n: "num_sel pl = num_sel_col e + num_sel_row e" "dec_list pl = [dec0_inst pl]"
        "num_in pl = 2 ^ nat (num_sel_col e + num_sel_row e)" "vm_lp pl = lp"
      and i: "lay_instances s1 = lay_instances s @ [dec0_inst pl, res_inst pl]"
        "lay_pins s1 = lay_pins s" "lay_conns s1 = lay_conns s"
      by blast
    from one have "num_dec e \<noteq> 2" by simp
    from routing_single[OF this, of pl s1]
    obtain s2 sels pout where R: "routing e pl s1 = Inr s2" "lay_instances s2 = lay_instances s1"
      "lay_pins s2 = lay_pins s1 @ sels @ [pout]"
      "map pin_name sels = map (\<lambda>i. ''sel<'' @ str_int i @ ''>'') (py_range (num_sel pl))"
      "pin_name pout = ''out''"
      "lay_conns s2 = lay_conns s1 @
         map (\<lambda>i. BBox_to_track_wires Direction_LOWER (vm_lp pl)
                    (get_pin e (dec0_inst pl) (''in<'' @ str_int i @ ''>''))
                    (get_pin_warr e (res_inst pl) (''out<'' @ str_int i @ ''>'')))
             (py_range (int (num_in pl)))"
      by blast
    from assms(4)[of "res_inst pl"]
    obtain vdd0 vdds where V: "get_all_port_pins e (res_inst pl) ''VDD'' = vdd0 # vdds"
      by (cases "get_all_port_pins e (res_inst pl) ''VDD''") auto
    from supplies_closed[OF V assms(5) assms(6) placement_layers[OF P], of s2]
    obtain s3 x0 xs where S:
      "ladder_wires e (ladder_vdd_tid e vdd0) (res_inst pl) ''VDD'' = x0 # xs"
      "supplies e pl s2 = Inr s3" "lay_instances s3 = lay_instances s2"
      "lay_pins s3 = lay_pins s2 @
         [\<lparr>pin_name = ''VDD'',
           pin_warrs = supply_vdd_wires e (res_inst pl) (dec_list pl) vdd0 x0,
           pin_mode = PinMode_ALL, pin_connect = True\<rparr>,
          \<lparr>pin_name = ''VSS'',
           pin_warrs = supply_vss_wires e (res_inst pl) (dec_list pl) vdd0 x0,
           pin_mode = PinMode_ALL, pin_connect = True\<rparr>]"
      "lay_conns s3 = lay_conns s2 @ supply_conns e (res_inst pl) (dec_list pl) vdd0 x0"
      by blast
    let ?s' = "s3\<lparr>lay_sch_params := Some (num_dec e)\<rparr>"
    let ?pvdd = "\<lparr>pin_name = ''VDD'',
                  pin_warrs = supply_vdd_wires e (res_inst pl) [dec0_inst pl] vdd0 x0,
                  pin_mode = PinMode_ALL, pin_connect = True\<rparr>"
    let ?pvss = "\<lparr>pin_name = ''VSS'',
                  pin_warrs = supply_vss_wires e (res_inst pl) [dec0_inst pl] vdd0 x0,
                  pin_mode = PinMode_ALL, pin_connect = True\<rparr>"
    have run: "draw_layout e s = Inr ?s'"
      using P R(1) S(2) by (simp add: draw_layout_def)
    have insts: "lay_instances ?s' = lay_instances s @ [dec0_inst pl, res_inst pl]"
      using i(1) R(2) S(3) by simp
    have pins: "lay_pins ?s' = lay_pins s @ sels @ [pout, ?pvdd, ?pvss]"
      using i(2) R(3) S(4) n(2) by simp
    have masters: "inst_master (dec0_inst pl) = DecMaster" "inst_master (res_inst pl) = ResMaster"
      using m by simp_all
    have len: "length (pin_warrs ?pvdd) = 2" "length (pin_warrs ?pvss) = 2"
      by (simp_all add: supply_vdd_wires_def supply_vss_wires_def)
    have conns: "lay_conns ?s' = lay_conns s @
                map (\<lambda>i. BBox_to_track_wires Direction_LOWER lp
                           (get_pin e (dec0_inst pl) (''in<'' @ str_int i @ ''>''))
                           (get_pin_warr e (res_inst pl) (''out<'' @ str_int i @ ''>'')))
                    (py_range (int (2 ^ nat (num_sel_col e + num_sel_row e)))) @
                supply_conns e (res_inst pl) [dec0_inst pl] vdd0 x0"
      using i(3) R(6) S(5) n(2,3,4) by simp
    have names: "map pin_name sels = map (\<lambda>i. ''sel<'' @ str_int i @ ''>'')
                                       (py_range (num_sel_col e + num_sel_row e))"
      using R(4) n(1) by simp
    have sup: "pin_name ?pvdd = ''VDD''" "pin_connect ?pvdd"
              "pin_name ?pvss = ''VSS''" "pin_connect ?pvss"
      by simp_all
    show ?one
      by (intro exI[of _ "?s'"] exI[of _ "dec0_inst pl"] exI[of _ "res_inst pl"]
                exI[of _ sels] exI[of _ pout] exI[of _ ?pvdd] exI[of _ ?pvss]
                exI[of _ lp] exI[of _ lps] exI[of _ vdd0] exI[of _ vdds]
                exI[of _ x0] exI[of _ xs] conjI)
         (rule run insts pins masters len conns names R(5) sup V S(1) lp refl)+
  qed
  have second: "num_dec e = 2 \<longrightarrow> ?two"
  proof
    assume two: "num_dec e = 2"
    from placement_double[OF assms(1) lp assms(3) two, of s]
    obtain pl s1 d1 where P: "placement e s = Inr (pl, s1)"
      and d1: "dec1_inst pl = Some d1"
        "d1 = \<lparr>inst_master = DecMaster,
               inst_xform = \<lparr>dx = bbox_w (dec_bound_box e), dy = 0, orient = MY\<rparr>\<rparr>"
      and m: "dec0_inst pl = \<lparr>inst_master = DecMaster,
                            inst_xform = \<lparr>dx = bbox_w (dec_bound_box e) + bbox_w (res_bound_box e),
                                           dy = 0, orient = R0\<rparr>\<rparr>"
        "res_inst pl = \<lparr>inst_master = ResMaster,
                           inst_xform = \<lparr>dx = bbox_w (dec_bound_box e),
                              dy = pg_coord0 e - core_coord0 e - snd (get_size_pitch e (top_layer e)),
                              orient = R0\<rparr>\<rparr>"
      and n: "num_sel pl = num_sel_col e + num_sel_row e" "dec_list pl = [d1, dec0_inst pl]"
        "num_in pl = 2 ^ nat (num_sel_col e + num_sel_row e)" "vm_lp pl = lp"
      and i: "lay_instances s1 = lay_instances s @ [d1, dec0_inst pl, res_inst pl]"
        "lay_pins s1 = lay_pins s" "lay_conns s1 = lay_conns s"
      by blast
    from routing_double[OF two d1(1), of s1]
    obtain s2 sels pout0 pout1 where R: "routing e pl s1 = Inr s2"
      "lay_instances s2 = lay_instances s1"
      "lay_pins s2 = lay_pins s1 @ sels @ [pout0, pout1]"
      "map pin_name sels =
         concat (map (\<lambda>i. [''sel0<'' @ str_int i @ ''>'', ''sel1<'' @ str_int i @ ''>''])
                   (py_range (num_sel pl)))"
      "pin_name pout0 = ''out0''" "pin_name pout1 = ''out1''"
      "lay_conns s2 = lay_conns s1 @
         concat (map (\<lambda>i. [BBox_to_track_wires Direction_LOWER (vm_lp pl)
                    (get_pin e (dec0_inst pl) (''in<'' @ str_int i @ ''>''))
                    (get_pin_warr e (res_inst pl) (''out<'' @ str_int i @ ''>'')),
                   BBox_to_track_wires Direction_LOWER (vm_lp pl)
                    (get_pin e d1 (''in<'' @ str_int i @ ''>''))
                    (get_pin_warr e (res_inst pl) (''out<'' @ str_int i @ ''>''))])
             (py_range (int (num_in pl))))"
      by blast
    from assms(4)[of "res_inst pl"]
    obtain vdd0 vdds where V: "get_all_port_pins e (res_inst pl) ''VDD'' = vdd0 # vdds"
      by (cases "get_all_port_pins e (res_inst pl) ''VDD''") auto
    from supplies_closed[OF V assms(5) assms(6) placement_layers[OF P], of s2]
    obtain s3 x0 xs where S:
      "ladder_wires e (ladder_vdd_tid e vdd0) (res_inst pl) ''VDD'' = x0 # xs"
      "supplies e pl s2 = Inr s3" "lay_instances s3 = lay_instances s2"
      "lay_pins s3 = lay_pins s2 @
         [\<lparr>pin_name = ''VDD'',
           pin_warrs = supply_vdd_wires e (res_inst pl) (dec_list pl) vdd0 x0,
           pin_mode = PinMode_ALL, pin_connect = True\<rparr>,
          \<lparr>pin_name = ''VSS'',
           pin_warrs = supply_vss_wires e (res_inst pl) (dec_list pl) vdd0 x0,
           pin_mode = PinMode_ALL, pin_connect = True\<rparr>]"
      "lay_conns s3 = lay_conns s2 @ supply_conns e (res_inst pl) (dec_list pl) vdd0 x0"
      by blast
    let ?s' = "s3\<lparr>lay_sch_params := Some (num_dec e)\<rparr>"
    let ?pvdd = "\<lparr>pin_name = ''VDD'',
                  pin_warrs = supply_vdd_wires e (res_inst pl) [d1, dec0_inst pl] vdd0 x0,
                  pin_mode = PinMode_ALL, pin_connect = True\<rparr>"
    let ?pvss = "\<lparr>pin_name = ''VSS'',
                  pin_warrs = supply_vss_wires e (res_inst pl) [d1, dec0_inst pl] vdd0 x0,
                  pin_mode = PinMode_ALL, pin_connect = True\<rparr>"
    have run: "draw_layout e s = Inr ?s'"
      using P R(1) S(2) by (simp add: draw_layout_def)
    have insts: "lay_instances ?s' = lay_instances s @ [d1, dec0_inst pl, res_inst pl]"
      using i(1) R(2) S(3) by simp
    have pins: "lay_pins ?s' = lay_pins s @ sels @ [pout0, pout1, ?pvdd, ?pvss]"
      using i(2) R(3) S(4) n(2) by simp
    have masters: "inst_master (dec0_inst pl) = DecMaster" "inst_master (res_inst pl) = ResMaster"
      "inst_master d1 = DecMaster" "orient (inst_xform d1) = MY"
      using m d1(2) by simp_all
    have len: "length (pin_warrs ?pvdd) = 3" "length (pin_warrs ?pvss) = 3"
      by (simp_all add: supply_vdd_wires_def supply_vss_wires_def)
    have conns: "lay_conns ?s' = lay_conns s @
                concat (map (\<lambda>i. [BBox_to_track_wires Direction_LOWER lp
                                     (get_pin e (dec0_inst pl) (''in<'' @ str_int i @ ''>''))
                                     (get_pin_warr e (res_inst pl) (''out<'' @ str_int i @ ''>'')),
                                   BBox_to_track_wires Direction_LOWER lp
                                     (get_pin e d1 (''in<'' @ str_int i @ ''>''))
                                     (get_pin_warr e (res_inst pl) (''out<'' @ str_int i @ ''>''))])
                          (py_range (int (2 ^ nat (num_sel_col e + num_sel_row e))))) @
                supply_conns e (res_inst pl) [d1, dec0_inst pl] vdd0 x0"
      using i(3) R(7) S(5) n(2,3,4) by simp
    have names: "map pin_name sels =
                   concat (map (\<lambda>i. [''sel0<'' @ str_int i @ ''>'', ''sel1<'' @ str_int i @ ''>''])
                             (py_range (num_sel_col e + num_sel_row e)))"
      using R(4) n(1) by simp
    have sup: "pin_name ?pvdd = ''VDD''" "pin_connect ?pvdd"
              "pin_name ?pvss = ''VSS''" "pin_connect ?pvss"
      by simp_all
    show ?two
      by (intro exI[of _ "?s'"] exI[of _ d1] exI[of _ "dec0_inst pl"] exI[of _ "res_inst pl"]
                exI[of _ sels] exI[of _ pout0] exI[of _ pout1] exI[of _ ?pvdd] exI[of _ ?pvss]
                exI[of _ lp] exI[of _ lps] exI[of _ vdd0] exI[of _ vdds]
                exI[of _ x0] exI[of _ xs] conjI)
         (rule run insts pins masters len conns names R(5,6) sup V S(1) lp refl)+
  qed
  from first second show ?thesis by (rule conjI)
qed

theorem draw_layout_instances_and_pins_witness:
  "(\<exists>s' d0 r sels pout pvdd pvss lp lps vdd0 vdds x0 xs.
      draw_layout (rdac_env 1 0) empty_layout = Inr s' \<and>
      lay_instances s' = [d0, r] \<and>
      inst_master d0 = DecMaster \<and> inst_master r = ResMaster \<and>
      lay_pins s' = sels @ [pout, pvdd, pvss] \<and>
      map pin_name sels = map (\<lambda>i. ''sel<'' @ str_int i @ ''>'') (py_range 2) \<and>
      pin_name pout = ''out'' \<and>
      pin_name pvdd = ''VDD'' \<and> pin_connect pvdd \<and> length (pin_warrs pvdd) = 2 \<and>
      pin_name pvss = ''VSS'' \<and> pin_connect pvss \<and> length (pin_warrs pvss) = 2 \<and>
      get_all_port_pins (rdac_env 1 0) r ''VDD'' = vdd0 # vdds \<and>
      ladder_wires (rdac_env 1 0) (ladder_vdd_tid (rdac_env 1 0) vdd0) r ''VDD'' = x0 # xs \<and>
      pvdd = \<lparr>pin_name = ''VDD'', pin_warrs = supply_vdd_wires (rdac_env 1 0) r [d0] vdd0 x0,
              pin_mode = PinMode_ALL, pin_connect = True\<rparr> \<and>
      pvss = \<lparr>pin_name = ''VSS'', pin_warrs = supply_vss_wires (rdac_env 1 0) r [d0] vdd0 x0,
              pin_mode = PinMode_ALL, pin_connect = True\<rparr> \<and>
      get_lay_purp_list (rdac_env 1 0) (top_layer (rdac_env 1 0) - 1 - 1 - 1) = lp # lps \<and>
      lay_conns s' =
        map (\<lambda>i. BBox_to_track_wires Direction_LOWER lp
                   (get_pin (rdac_env 1 0) d0 (''in<'' @ str_int i @ ''>''))
                   (get_pin_warr (rdac_env 1 0) r (''out<'' @ str_int i @ ''>'')))
            (py_range (int (2 ^ nat 2))) @
        supply_conns (rdac_env 1 0) r [d0] vdd0 x0) \<and>
   (\<exists>s' d1 d0 r sels pout0 pout1 pvdd pvss lp lps vdd0 vdds x0 xs.
      draw_layout (rdac_env 2 0) empty_layout = Inr s' \<and>
      lay_instances s' = [d1, d0, r] \<and>
      inst_master d1 = DecMaster \<and> orient (inst_xform d1) = MY \<and>
      inst_master d0 = DecMaster \<and> inst_master r = ResMaster \<and>
      lay_pins s' = sels @ [pout0, pout1, pvdd, pvss] \<and>
      map pin_name sels =
        concat (map (\<lambda>i. [''sel0<'' @ str_int i @ ''>'', ''sel1<'' @ str_int i @ ''>''])
                  (py_range 2)) \<and>
      pin_name pout0 = ''out0'' \<and> pin_name pout1 = ''out1'' \<and>
      pin_name pvdd = ''VDD'' \<and> pin_connect pvdd \<and> length (pin_warrs pvdd) = 3 \<and>
      pin_name pvss = ''VSS'' \<and> pin_connect pvss \<and> length (pin_warrs pvss) = 3 \<and>
      get_all_port_pins (rdac_env 2 0) r ''VDD'' = vdd0 # vdds \<and>
      ladder_wires (rdac_env 2 0) (ladder_vdd_tid (rdac_env 2 0) vdd0) r ''VDD'' = x0 # xs \<and>
      pvdd = \<lparr>pin_name = ''VDD'', pin_warrs = supply_vdd_wires (rdac_env 2 0) r [d1, d0] vdd0 x0,
              pin_mode = PinMode_ALL, pin_connect = True\<rparr> \<and>
      pvss = \<lparr>pin_name = ''VSS'', pin_warrs = supply_vss_wires (rdac_env 2 0) r [d1, d0] vdd0 x0,
              pin_mode = PinMode_ALL, pin_connect = True\<rparr> \<and>
      get_lay_purp_list (rdac_env 2 0) (top_layer (rdac_env 2 0) - 1 - 1 - 1) = lp # lps \<and>
      lay_conns s' =
        concat (map (\<lambda>i. [BBox_to_track_wires Direction_LOWER lp
                             (get_pin (rdac_env 2 0) d0 (''in<'' @ str_int i @ ''>''))
                             (get_pin_warr (rdac_env 2 0) r (''out<'' @ str_int i @ ''>'')),
                           BBox_to_track_wires Direction_LOWER lp
                             (get_pin (rdac_env 2 0) d1 (''in<'' @ str_int i @ ''>''))
                             (get_pin_warr (rdac_env 2 0) r (''out<'' @ str_int i @ ''>''))])
                  (py_range (int (2 ^ nat 2)))) @
        supply_conns (rdac_env 2 0) r [d1, d0] vdd0 x0)"
proof -
  have h: "0 \<le> num_sel_col (rdac_env n 0) + num_sel_row (rdac_env n 0)"
    "get_lay_purp_list (rdac_env n 0) (top_layer (rdac_env n 0) - 1 - 1 - 1) \<noteq> []"
    "core_coord0 (rdac_env n 0) < pg_coord0 (rdac_env n 0)"
    "\<And>i. get_all_port_pins (rdac_env n 0) i ''VDD'' \<noteq> []"
    "\<And>wa. warr_iter (rdac_env n 0) wa \<noteq> []"
    "\<And>layer types lo hi sp.
       length (spread_wires (rdac_env n 0) layer types lo hi sp) = length types"
    for n
    by (simp_all add: rdac_env_def)
  have n1: "num_dec (rdac_env 1 0) = 1" "num_sel_col (rdac_env 1 0) + num_sel_row (rdac_env 1 0) = 2"
    and n2: "num_dec (rdac_env 2 0) = 2" "num_sel_col (rdac_env 2 0) + num_sel_row (rdac_env 2 0) = 2"
    by (simp_all add: rdac_env_def)
  have e: "lay_instances empty_layout = []" "lay_pins empty_layout = []"
    "lay_conns empty_layout = []"
    by (simp_all add: empty_layout_def)
  have t: "(1::int) = 1 \<longleftrightarrow> True" "(2::int) = 2 \<longleftrightarrow> True" "(1::int) = 2 \<longleftrightarrow> False"
    "(2::int) = 1 \<longleftrightarrow> False" "(True \<longrightarrow> P) \<longleftrightarrow> P" "(False \<longrightarrow> P) \<longleftrightarrow> True"
    "(P \<and> True) \<longleftrightarrow> P" "(True \<and> P) \<longleftrightarrow> P" "[] @ ys = ys" for P :: bool and ys :: "'a list"
    by simp_all
  note a = draw_layout_instances_and_pins[OF h, of 1 empty_layout, unfolded n1 e t]
  note b = draw_layout_instances_and_pins[OF h, of 2 empty_layout, unfolded n2 e t]
  from a b show ?thesis by (rule conjI)
qed

text \<open>
  C2. For every \<^verbatim>\<open>num_dec\<close> other than 1 and 2 the generator raises and the layout is
  untouched: no instance has been placed and no pin added. The exception is the
  \<^verbatim>\<open>ValueError\<close> of line 89 whenever the statements before it pass: the shift of line
  61, the index of line 68 and the assertion of line 77.
\<close>

theorem draw_layout_unsupported_num_dec:
  assumes "num_dec e \<noteq> 1" and "num_dec e \<noteq> 2"
  shows "(\<exists>err. draw_layout e s = Inl (err, s)) \<and>
         (0 \<le> num_sel_col e + num_sel_row e \<and>
          get_lay_purp_list e (top_layer e - 1 - 1 - 1) \<noteq> [] \<and>
          core_coord0 e < pg_coord0 e \<longrightarrow>
            draw_layout e s = Inl (ValueError (Unsupported_num_dec (num_dec e)), s))"
proof (intro conjI impI)
  from placement_rejects(1)[OF assms, of s] show "\<exists>err. draw_layout e s = Inl (err, s)"
    by (auto dest: draw_layout_placement_error)
next
  assume "0 \<le> num_sel_col e + num_sel_row e \<and>
          get_lay_purp_list e (top_layer e - 1 - 1 - 1) \<noteq> [] \<and>
          core_coord0 e < pg_coord0 e"
  with placement_rejects(2)[OF assms, of s]
  show "draw_layout e s = Inl (ValueError (Unsupported_num_dec (num_dec e)), s)"
    by (simp add: draw_layout_placement_error)
qed

theorem draw_layout_unsupported_num_dec_witness:
  "draw_layout (rdac_env 3 0) empty_layout
     = Inl (ValueError (Unsupported_num_dec 3), empty_layout) \<and>
   draw_layout (rdac_env 0 0) empty_layout
     = Inl (ValueError (Unsupported_num_dec 0), empty_layout)"
  using draw_layout_unsupported_num_dec [of "rdac_env 3 0" empty_layout]
        draw_layout_unsupported_num_dec [of "rdac_env 0 0" empty_layout]
  by (simp add: rdac_env_def)

text \<open>
  C3, as the code has it. With \<^verbatim>\<open>num_dec=1\<close> the decoder is placed at \<open>x = res_w\<close> and the
  ladder at \<open>x = 0\<close>; with \<^verbatim>\<open>num_dec=2\<close> a mirrored decoder is placed at \<open>x = dec_w\<close>
  (so it covers 0 to \<open>dec_w\<close>), the ladder at \<open>x = dec_w\<close> and the second decoder at
  \<open>x = dec_w + res_w\<close>: the blocks abut along the horizontal axis, the ladder between the
  two decoders. The ladder's vertical offset is
  \<open>off_y = pg_coord0 - core_coord0 - h_pitch\<close>, with \<open>h_pitch\<close> the vertical size pitch at
  the decoder's top layer, so \<open>core_coord0 + off_y\<close> is one pitch below \<open>pg_coord0\<close>; no
  rounding is applied.
\<close>

theorem draw_layout_placement:
  assumes "0 \<le> num_sel_col e + num_sel_row e"
      and "get_lay_purp_list e (top_layer e - 1 - 1 - 1) \<noteq> []"
      and "core_coord0 e < pg_coord0 e"
  shows "(num_dec e = 1 \<longrightarrow>
           lay_instances (layout_of (draw_layout e s)) =
             lay_instances s @
             [\<lparr>inst_master = DecMaster,
               inst_xform = \<lparr>dx = bbox_w (res_bound_box e), dy = 0, orient = R0\<rparr>\<rparr>,
              \<lparr>inst_master = ResMaster,
               inst_xform = \<lparr>dx = 0,
                  dy = pg_coord0 e - core_coord0 e - snd (get_size_pitch e (top_layer e)),
                  orient = R0\<rparr>\<rparr>]) \<and>
         (num_dec e = 2 \<longrightarrow>
           lay_instances (layout_of (draw_layout e s)) =
             lay_instances s @
             [\<lparr>inst_master = DecMaster,
               inst_xform = \<lparr>dx = bbox_w (dec_bound_box e), dy = 0, orient = MY\<rparr>\<rparr>,
              \<lparr>inst_master = DecMaster,
               inst_xform = \<lparr>dx = bbox_w (dec_bound_box e) + bbox_w (res_bound_box e),
                              dy = 0, orient = R0\<rparr>\<rparr>,
              \<lparr>inst_master = ResMaster,
               inst_xform = \<lparr>dx = bbox_w (dec_bound_box e),
                  dy = pg_coord0 e - core_coord0 e - snd (get_size_pitch e (top_layer e)),
                  orient = R0\<rparr>\<rparr>])"
proof -
  from assms(2) obtain lp lps where lp: "get_lay_purp_list e (top_layer e - 1 - 1 - 1) = lp # lps"
    by (cases "get_lay_purp_list e (top_layer e - 1 - 1 - 1)") auto
  show ?thesis
    using draw_layout_single_instances[OF assms(1) lp assms(3), of s]
          draw_layout_double_instances[OF assms(1) lp assms(3), of s]
    by blast
qed

theorem draw_layout_placement_witness:
  "lay_instances (layout_of (draw_layout (rdac_env 1 0) empty_layout)) =
     [\<lparr>inst_master = DecMaster, inst_xform = \<lparr>dx = 400, dy = 0, orient = R0\<rparr>\<rparr>,
      \<lparr>inst_master = ResMaster, inst_xform = \<lparr>dx = 0, dy = 90, orient = R0\<rparr>\<rparr>] \<and>
   lay_instances (layout_of (draw_layout (rdac_env 2 0) empty_layout)) =
     [\<lparr>inst_master = DecMaster, inst_xform = \<lparr>dx = 200, dy = 0, orient = MY\<rparr>\<rparr>,
      \<lparr>inst_master = DecMaster, inst_xform = \<lparr>dx = 600, dy = 0, orient = R0\<rparr>\<rparr>,
      \<lparr>inst_master = ResMaster, inst_xform = \<lparr>dx = 200, dy = 90, orient = R0\<rparr>\<rparr>]"
  using draw_layout_placement [of "rdac_env 1 0" empty_layout]
        draw_layout_placement [of "rdac_env 2 0" empty_layout]
  by (simp add: rdac_env_def empty_layout_def bbox_w_def)

text \<open>
  C3, as the claim states it, fails: in the example environment (reference coordinates 0
  and 100, pitch 10 on every layer) the ladder is placed with offset 90, so its reference
  coordinate lands on 90, a full pitch away from 100, which is itself on the pitch grid.
\<close>

theorem draw_layout_offset_counterexample:
  "dy (inst_xform (last (lay_instances (layout_of (draw_layout (rdac_env 1 0) empty_layout)))))
     = 90 \<and>
   core_coord0 (rdac_env 1 0) + 90 \<noteq> pg_coord0 (rdac_env 1 0) \<and>
   pg_coord0 (rdac_env 1 0) mod snd (get_size_pitch (rdac_env 1 0) (top_layer (rdac_env 1 0) + 1))
     = 0 \<and>
   \<not> spec_lines_up (rdac_env 1 0) 90"
proof -
  have lp: "get_lay_purp_list (rdac_env 1 0) (top_layer (rdac_env 1 0) - 1 - 1 - 1)
              = (''metal'', ''drawing'') # []"
    by (simp add: rdac_env_def)
  have "lay_instances (layout_of (draw_layout (rdac_env 1 0) empty_layout)) =
     [\<lparr>inst_master = DecMaster, inst_xform = \<lparr>dx = 400, dy = 0, orient = R0\<rparr>\<rparr>,
      \<lparr>inst_master = ResMaster, inst_xform = \<lparr>dx = 0, dy = 90, orient = R0\<rparr>\<rparr>]"
    using draw_layout_single_instances[OF _ lp, of empty_layout]
    by (simp add: rdac_env_def empty_layout_def bbox_w_def)
  then show ?thesis
    by (simp add: rdac_env_def spec_lines_up_def)
qed

text \<open>
  C4. For every index from 0 below \<open>2 ^ num_sel\<close>, the layout reached by the generator
  holds the connection of the ladder pin \<^verbatim>\<open>out<idx>\<close> to the pin \<^verbatim>\<open>in<idx>\<close> of the decoder
  placed for \<^verbatim>\<open>num_dec=1\<close>, and of both decoders placed for \<^verbatim>\<open>num_dec=2\<close>. The connections
  are made before the supply routing, so they are there whether or not that part returns.
\<close>

theorem draw_layout_connects_taps:
  assumes "0 \<le> num_sel_col e + num_sel_row e"
      and "get_lay_purp_list e (top_layer e - 1 - 1 - 1) = lp # lps"
      and "core_coord0 e < pg_coord0 e"
      and "0 \<le> idx" and "idx < 2 ^ nat (num_sel_col e + num_sel_row e)"
  shows "(num_dec e = 1 \<longrightarrow>
           (\<exists>d0 r. lay_instances (layout_of (draw_layout e s)) = lay_instances s @ [d0, r] \<and>
              inst_master d0 = DecMaster \<and> inst_master r = ResMaster \<and>
              BBox_to_track_wires Direction_LOWER lp
                (get_pin e d0 (''in<'' @ str_int idx @ ''>''))
                (get_pin_warr e r (''out<'' @ str_int idx @ ''>''))
                \<in> set (lay_conns (layout_of (draw_layout e s))))) \<and>
         (num_dec e = 2 \<longrightarrow>
           (\<exists>d1 d0 r. lay_instances (layout_of (draw_layout e s)) = lay_instances s @ [d1, d0, r] \<and>
              inst_master d1 = DecMaster \<and> inst_master d0 = DecMaster \<and>
              inst_master r = ResMaster \<and>
              BBox_to_track_wires Direction_LOWER lp
                (get_pin e d0 (''in<'' @ str_int idx @ ''>''))
                (get_pin_warr e r (''out<'' @ str_int idx @ ''>''))
                \<in> set (lay_conns (layout_of (draw_layout e s))) \<and>
              BBox_to_track_wires Direction_LOWER lp
                (get_pin e d1 (''in<'' @ str_int idx @ ''>''))
                (get_pin_warr e r (''out<'' @ str_int idx @ ''>''))
                \<in> set (lay_conns (layout_of (draw_layout e s)))))"
proof (intro conjI impI)
  assume one: "num_dec e = 1"
  from placement_single[OF assms(1,2,3) one, of s]
  obtain pl s1 where P: "placement e s = Inr (pl, s1)"
    and m: "dec0_inst pl = \<lparr>inst_master = DecMaster,
                            inst_xform = \<lparr>dx = bbox_w (res_bound_box e), dy = 0, orient = R0\<rparr>\<rparr>"
      "res_inst pl = \<lparr>inst_master = ResMaster,
                           inst_xform = \<lparr>dx = 0,
                              dy = pg_coord0 e - core_coord0 e - snd (get_size_pitch e (top_layer e)),
                              orient = R0\<rparr>\<rparr>"
    and n: "num_in pl = 2 ^ nat (num_sel_col e + num_sel_row e)" "vm_lp pl = lp"
    and i: "lay_instances s1 = lay_instances s @ [dec0_inst pl, res_inst pl]"
    by blast
  from one have "num_dec e \<noteq> 2" by simp
  from routing_single[OF this, of pl s1]
  obtain s2 where R: "routing e pl s1 = Inr s2" "lay_instances s2 = lay_instances s1"
    and c: "lay_conns s2 = lay_conns s1 @
       map (\<lambda>i. BBox_to_track_wires Direction_LOWER (vm_lp pl)
                  (get_pin e (dec0_inst pl) (''in<'' @ str_int i @ ''>''))
                  (get_pin_warr e (res_inst pl) (''out<'' @ str_int i @ ''>'')))
           (py_range (int (num_in pl)))"
    by blast
  have "idx \<in> set (py_range (int (num_in pl)))"
    using assms(4,5) n(1) by (simp add: py_range_iff)
  with c n(2) have "BBox_to_track_wires Direction_LOWER lp
                (get_pin e (dec0_inst pl) (''in<'' @ str_int idx @ ''>''))
                (get_pin_warr e (res_inst pl) (''out<'' @ str_int idx @ ''>''))
              \<in> set (lay_conns s2)"
    by auto
  from draw_layout_after_routing(2)[OF P R(1) this] draw_layout_after_routing(1)[OF P R(1)]
       R(2) i m
  show "\<exists>d0 r. lay_instances (layout_of (draw_layout e s)) = lay_instances s @ [d0, r] \<and>
              inst_master d0 = DecMaster \<and> inst_master r = ResMaster \<and>
              BBox_to_track_wires Direction_LOWER lp
                (get_pin e d0 (''in<'' @ str_int idx @ ''>''))
                (get_pin_warr e r (''out<'' @ str_int idx @ ''>''))
                \<in> set (lay_conns (layout_of (draw_layout e s)))"
    by (intro exI[of _ "dec0_inst pl"] exI[of _ "res_inst pl"]) simp
next
  assume two: "num_dec e = 2"
  from placement_double[OF assms(1,2,3) two, of s]
  obtain pl s1 d1 where P: "placement e s = Inr (pl, s1)"
    and d1: "dec1_inst pl = Some d1"
      "d1 = \<lparr>inst_master = DecMaster,
             inst_xform = \<lparr>dx = bbox_w (dec_bound_box e), dy = 0, orient = MY\<rparr>\<rparr>"
    and m: "dec0_inst pl = \<lparr>inst_master = DecMaster,
                            inst_xform = \<lparr>dx = bbox_w (dec_bound_box e) + bbox_w (res_bound_box e),
                                           dy = 0, orient = R0\<rparr>\<rparr>"
      "res_inst pl = \<lparr>inst_master = ResMaster,
                           inst_xform = \<lparr>dx = bbox_w (dec_bound_box e),
                              dy = pg_coord0 e - core_coord0 e - snd (get_size_pitch e (top_layer e)),
                              orient = R0\<rparr>\<rparr>"
    and n: "num_in pl = 2 ^ nat (num_sel_col e + num_sel_row e)" "vm_lp pl = lp"
    and i: "lay_instances s1 = lay_instances s @ [d1, dec0_inst pl, res_inst pl]"
    by blast
  from routing_double[OF two d1(1), of s1]
  obtain s2 where R: "routing e pl s1 = Inr s2" "lay_instances s2 = lay_instances s1"
    and c: "lay_conns s2 = lay_conns s1 @
       concat (map (\<lambda>i. [BBox_to_track_wires Direction_LOWER (vm_lp pl)
                  (get_pin e (dec0_inst pl) (''in<'' @ str_int i @ ''>''))
                  (get_pin_warr e (res_inst pl) (''out<'' @ str_int i @ ''>'')),
                 BBox_to_track_wires Direction_LOWER (vm_lp pl)
                  (get_pin e d1 (''in<'' @ str_int i @ ''>''))
                  (get_pin_warr e (res_inst pl) (''out<'' @ str_int i @ ''>''))])
           (py_range (int (num_in pl))))"
    by blast
  have mem: "idx \<in> set (py_range (int (num_in pl)))"
    using assms(4,5) n(1) by (simp add: py_range_iff)
  from c n(2) mem have a: "BBox_to_track_wires Direction_LOWER lp
                (get_pin e (dec0_inst pl) (''in<'' @ str_int idx @ ''>''))
                (get_pin_warr e (res_inst pl) (''out<'' @ str_int idx @ ''>''))
              \<in> set (lay_conns s2)"
    by auto
  from c n(2) mem have b: "BBox_to_track_wires Direction_LOWER lp
                (get_pin e d1 (''in<'' @ str_int idx @ ''>''))
                (get_pin_warr e (res_inst pl) (''out<'' @ str_int idx @ ''>''))
              \<in> set (lay_conns s2)"
    by auto
  from draw_layout_after_routing(2)[OF P R(1) a] draw_layout_after_routing(2)[OF P R(1) b]
       draw_layout_after_routing(1)[OF P R(1)] R(2) i m d1(2)
  show "\<exists>d1 d0 r. lay_instances (layout_of (draw_layout e s)) = lay_instances s @ [d1, d0, r] \<and>
              inst_master d1 = DecMaster \<and> inst_master d0 = DecMaster \<and>
              inst_master r = ResMaster \<and>
              BBox_to_track_wires Direction_LOWER lp
                (get_pin e d0 (''in<'' @ str_int idx @ ''>''))
                (get_pin_warr e r (''out<'' @ str_int idx @ ''>''))
                \<in> set (lay_conns (layout_of (draw_layout e s))) \<and>
              BBox_to_track_wires Direction_LOWER lp
                (get_pin e d1 (''in<'' @ str_int idx @ ''>''))
                (get_pin_warr e r (''out<'' @ str_int idx @ ''>''))
                \<in> set (lay_conns (layout_of (draw_layout e s)))"
    by (intro exI[of _ d1] exI[of _ "dec0_inst pl"] exI[of _ "res_inst pl"]) simp
qed

theorem draw_layout_connects_taps_witness:
  "(\<exists>d0 r. lay_instances (layout_of (draw_layout (rdac_env 1 0) empty_layout)) = [d0, r] \<and>
      inst_master d0 = DecMaster \<and> inst_master r = ResMaster \<and>
      BBox_to_track_wires Direction_LOWER (''metal'', ''drawing'')
        (get_pin (rdac_env 1 0) d0 (''in<'' @ str_int 3 @ ''>''))
        (get_pin_warr (rdac_env 1 0) r (''out<'' @ str_int 3 @ ''>''))
        \<in> set (lay_conns (layout_of (draw_layout (rdac_env 1 0) empty_layout)))) \<and>
   (\<exists>d1 d0 r. lay_instances (layout_of (draw_layout (rdac_env 2 0) empty_layout)) = [d1, d0, r] \<and>
      inst_master d1 = DecMaster \<and> inst_master d0 = DecMaster \<and> inst_master r = ResMaster \<and>
      BBox_to_track_wires Direction_LOWER (''metal'', ''drawing'')
        (get_pin (rdac_env 2 0) d0 (''in<'' @ str_int 3 @ ''>''))
        (get_pin_warr (rdac_env 2 0) r (''out<'' @ str_int 3 @ ''>''))
        \<in> set (lay_conns (layout_of (draw_layout (rdac_env 2 0) empty_layout))) \<and>
      BBox_to_track_wires Direction_LOWER (''metal'', ''drawing'')
        (get_pin (rdac_env 2 0) d1 (''in<'' @ str_int 3 @ ''>''))
        (get_pin_warr (rdac_env 2 0) r (''out<'' @ str_int 3 @ ''>''))
        \<in> set (lay_conns (layout_of (draw_layout (rdac_env 2 0) empty_layout))))"
proof -
  have h1: "0 \<le> num_sel_col (rdac_env 1 0) + num_sel_row (rdac_env 1 0)"
    and h2: "get_lay_purp_list (rdac_env 1 0) (top_layer (rdac_env 1 0) - 1 - 1 - 1)
               = (''metal'', ''drawing'') # []"
    and h3: "core_coord0 (rdac_env 1 0) < pg_coord0 (rdac_env 1 0)"
    and h4: "(0::int) \<le> 3"
    and h5: "(3::int) < 2 ^ nat (num_sel_col (rdac_env 1 0) + num_sel_row (rdac_env 1 0))"
    and n1: "num_dec (rdac_env 1 0) = 1"
    by (simp_all add: rdac_env_def)
  have k1: "0 \<le> num_sel_col (rdac_env 2 0) + num_sel_row (rdac_env 2 0)"
    and k2: "get_lay_purp_list (rdac_env 2 0) (top_layer (rdac_env 2 0) - 1 - 1 - 1)
               = (''metal'', ''drawing'') # []"
    and k3: "core_coord0 (rdac_env 2 0) < pg_coord0 (rdac_env 2 0)"
    and k5: "(3::int) < 2 ^ nat (num_sel_col (rdac_env 2 0) + num_sel_row (rdac_env 2 0))"
    and n2: "num_dec (rdac_env 2 0) = 2"
    by (simp_all add: rdac_env_def)
  from draw_layout_connects_taps[OF h1 h2 h3 h4 h5, of empty_layout] n1
       draw_layout_connects_taps[OF k1 k2 k3 h4 k5, of empty_layout] n2
  show ?thesis by (simp add: empty_layout_def)
qed

text \<open>
  C5. When the decoder's reference coordinate \<^verbatim>\<open>pg_coord0\<close> is not strictly above the
  ladder's \<^verbatim>\<open>core_coord0\<close>, the generator raises with the layout untouched: no instance
  has been placed. The exception is the assertion failure of line 77 whenever the two
  statements before it that can raise pass (the shift of line 61 on a non-negative number
  of select bits, the index of line 68 on a non-empty list). When \<^verbatim>\<open>pg_coord0\<close> is
  strictly above \<^verbatim>\<open>core_coord0\<close>, no run ends in an assertion failure.
\<close>

theorem draw_layout_coordinate_assertion:
  "(\<not> core_coord0 e < pg_coord0 e \<longrightarrow>
      (\<exists>err. draw_layout e s = Inl (err, s)) \<and>
      (0 \<le> num_sel_col e + num_sel_row e \<and>
       get_lay_purp_list e (top_layer e - 1 - 1 - 1) \<noteq> [] \<longrightarrow>
         draw_layout e s = Inl (AssertionError, s))) \<and>
   (core_coord0 e < pg_coord0 e \<longrightarrow> draw_layout e s \<noteq> Inl (AssertionError, s'))"
proof (intro conjI impI)
  assume v: "\<not> core_coord0 e < pg_coord0 e"
  from placement_asserts(1)[OF v, of s] show "\<exists>err. draw_layout e s = Inl (err, s)"
    by (auto dest: draw_layout_placement_error)
next
  assume v: "\<not> core_coord0 e < pg_coord0 e"
    and h: "0 \<le> num_sel_col e + num_sel_row e \<and>
            get_lay_purp_list e (top_layer e - 1 - 1 - 1) \<noteq> []"
  from placement_asserts(2)[OF v, of s] h
  show "draw_layout e s = Inl (AssertionError, s)"
    by (simp add: draw_layout_placement_error)
next
  assume ok: "core_coord0 e < pg_coord0 e"
  show "draw_layout e s \<noteq> Inl (AssertionError, s')"
    using placement_no_assertion[OF ok, of s s']
          routing_no_assertion[of e _ _ s'] supplies_no_assertion[of e _ _ s']
    by (auto simp: draw_layout_def split: sum.splits)
qed

theorem draw_layout_coordinate_assertion_witness:
  "draw_layout (rdac_env 1 100) empty_layout = Inl (AssertionError, empty_layout) \<and>
   draw_layout (rdac_env 1 0) empty_layout \<noteq> Inl (AssertionError, empty_layout)"
  using draw_layout_coordinate_assertion [of "rdac_env 1 100" empty_layout empty_layout]
        draw_layout_coordinate_assertion [of "rdac_env 1 0" empty_layout empty_layout]
  by (simp add: rdac_env_def)

section \<open>Properties of the schematic generator\<close>

subsection \<open>The steps\<close>


lemma ndum_tuple_three:
  assumes "ndum_well_formed nd"
  obtains a b c where "ndum_tuple nd = [a, b, c]"
proof (cases nd)
  case (Ndum_int n)
  then show ?thesis using that by (simp add: ndum_tuple_def)
next
  case (Ndum_tuple t)
  with assms have "length t = 2 \<or> length t = 3" by (simp add: ndum_well_formed_def)
  then show ?thesis
  proof
    assume "length t = 2"
    then obtain a b where "t = [a, b]" by (auto simp: length_Suc_conv eval_nat_numeral)
    with Ndum_tuple show ?thesis using that by (simp add: ndum_tuple_def)
  next
    assume "length t = 3"
    then obtain a b c where "t = [a, b, c]" by (auto simp: length_Suc_conv eval_nat_numeral)
    with Ndum_tuple show ?thesis using that by (simp add: ndum_tuple_def)
  qed
qed

lemma design_resistors_frame:
  assumes "sch_instances s ''XRESP'' \<noteq> None" and "sch_instances s ''XRESN'' \<noteq> None"
  shows "\<exists>s' ip iq. design_resistors up n sub [(''XRESP'', o1, b1), (''XRESN'', o2, b2)] s = Inr s' \<and>
           only_changes {''XRESP'', ''XRESN''} s s' \<and> no_new s s' \<and>
           sch_instances s' ''XRESP'' = Some ip \<and>
           designed ip = Some (Resistor \<lparr>rc_unit = up, rc_nser = PInt n, rc_npar = PInt 1,
              rc_plus = o1, rc_minus = b1, rc_mid = o1 @ ''_x'', rc_bulk = sub,
              rc_connect_mid = None\<rparr>) \<and>
           sch_instances s' ''XRESN'' = Some iq \<and>
           designed iq = Some (Resistor \<lparr>rc_unit = up, rc_nser = PInt n, rc_npar = PInt 1,
              rc_plus = o2, rc_minus = b2, rc_mid = o2 @ ''_x'', rc_bulk = sub,
              rc_connect_mid = None\<rparr>)"
  using assms
  by (auto simp: design_resistor_def update_instance_def and_then_def only_changes_def no_new_def)

lemma design_dummies_frame:
  assumes "nd \<noteq> []"
    and "sch_instances s ''XRESPD'' \<noteq> None" and "sch_instances s ''XRESND'' \<noteq> None"
  shows "\<exists>s' ip iq. design_dummies up nd a b c sub
                     [(''XRESPD'', c1, m1), (''XRESND'', c2, m2)] s = Inr s' \<and>
           only_changes {''XRESPD'', ''XRESND''} s s' \<and> no_new s s' \<and>
           sch_instances s' ''XRESPD'' = Some ip \<and>
           designed ip = Some (Resistor \<lparr>rc_unit = up, rc_nser = b, rc_npar = a,
              rc_plus = c1, rc_minus = c1, rc_mid = m1 @ ''_dum_x'', rc_bulk = sub,
              rc_connect_mid = Some c\<rparr>) \<and>
           sch_instances s' ''XRESND'' = Some iq \<and>
           designed iq = Some (Resistor \<lparr>rc_unit = up, rc_nser = b, rc_npar = a,
              rc_plus = c2, rc_minus = c2, rc_mid = m2 @ ''_dum_x'', rc_bulk = sub,
              rc_connect_mid = Some c\<rparr>)"
  using assms
  by (auto simp: design_resistor_def update_instance_def and_then_def only_changes_def no_new_def)

lemma dummy_resistors_frame:
  assumes "ndum_well_formed (ndum p)"
    and "sch_instances s ''XRESPD'' \<noteq> None" and "sch_instances s ''XRESND'' \<noteq> None"
  shows "\<exists>s' ip iq rp rq c. dummy_resistors p up bp bn s = Inr s' \<and>
           only_changes {''XRESPD'', ''XRESND''} s s' \<and> no_new s s' \<and>
           sch_instances s' ''XRESPD'' = Some ip \<and> designed ip = Some (Resistor rp) \<and>
           sch_instances s' ''XRESND'' = Some iq \<and> designed iq = Some (Resistor rq) \<and>
           rc_connect_mid rp = Some c \<and> rc_connect_mid rq = Some c \<and>
           ndum_tuple (ndum p) = [rc_npar rp, rc_nser rp, c] \<and>
           ndum_tuple (ndum p) = [rc_npar rq, rc_nser rq, c]"
proof -
  from assms(1) obtain a b c where nd: "ndum_tuple (ndum p) = [a, b, c]"
    by (rule ndum_tuple_three)
  have ne: "[a, b, c] \<noteq> []" by simp
  have step: "\<exists>s' ip iq rp rq. design_dummies up [a, b, c] a b c (sub_name p)
                   [(''XRESPD'', c1, m1), (''XRESND'', c2, m2)] s = Inr s' \<and>
           only_changes {''XRESPD'', ''XRESND''} s s' \<and> no_new s s' \<and>
           sch_instances s' ''XRESPD'' = Some ip \<and> designed ip = Some (Resistor rp) \<and>
           sch_instances s' ''XRESND'' = Some iq \<and> designed iq = Some (Resistor rq) \<and>
           rc_connect_mid rp = Some c \<and> rc_connect_mid rq = Some c \<and>
           a = rc_npar rp \<and> b = rc_nser rp \<and> a = rc_npar rq \<and> b = rc_nser rq"
    for c1 m1 c2 m2
  proof -
    from design_dummies_frame[OF ne assms(2,3), of up a b c "sub_name p" c1 m1 c2 m2]
    obtain s' ip iq where
      "design_dummies up [a, b, c] a b c (sub_name p)
         [(''XRESPD'', c1, m1), (''XRESND'', c2, m2)] s = Inr s'"
      "only_changes {''XRESPD'', ''XRESND''} s s'" "no_new s s'"
      "sch_instances s' ''XRESPD'' = Some ip"
      "designed ip = Some (Resistor \<lparr>rc_unit = up, rc_nser = b, rc_npar = a,
              rc_plus = c1, rc_minus = c1, rc_mid = m1 @ ''_dum_x'', rc_bulk = sub_name p,
              rc_connect_mid = Some c\<rparr>)"
      "sch_instances s' ''XRESND'' = Some iq"
      "designed iq = Some (Resistor \<lparr>rc_unit = up, rc_nser = b, rc_npar = a,
              rc_plus = c2, rc_minus = c2, rc_mid = m2 @ ''_dum_x'', rc_bulk = sub_name p,
              rc_connect_mid = Some c\<rparr>)"
      by blast
    then show ?thesis by simp
  qed
  show ?thesis
  proof (cases "connect_dum_to_sub p")
    case True
    with step[of "sub_name p" "sub_name p @ ''_p''" "sub_name p" "sub_name p @ ''_n''"]
    show ?thesis by (simp add: dummy_resistors_def Let_def nd)
  next
    case False
    show ?thesis
    proof (cases "bp = bn")
      case True
      with step[of bn "sub_name p @ ''_p''" bn "sub_name p @ ''_n''"] \<open>\<not> connect_dum_to_sub p\<close>
      show ?thesis by (simp add: dummy_resistors_def Let_def nd)
    next
      case neq: False
      with step[of bp bp bn bn] \<open>\<not> connect_dum_to_sub p\<close>
      show ?thesis by (simp add: dummy_resistors_def Let_def nd)
    qed
  qed
qed

lemma metal_resistors_frame:
  assumes "info = None \<or> (sch_instances s np \<noteq> None \<and> sch_instances s nn \<noteq> None)"
  shows "\<exists>s'. metal_resistors info np nn s = Inr s' \<and> only_changes {np, nn} s s' \<and>
           no_new s s'"
  using assms
  by (auto simp: metal_resistors_def design_metal_def update_instance_def and_then_def
                 remove_instance_def only_changes_def no_new_def split: option.splits)

lemma capacitors_extracted:
  assumes "extracted p"
  shows "\<exists>s'. capacitors f p bp bn s = Inr s' \<and> only_changes {''XCAPP'', ''XCAPN''} s s' \<and>
           no_new s s' \<and>
           sch_instances s' ''XCAPP'' = None \<and> sch_instances s' ''XCAPN'' = None"
  using assms
  by (simp add: capacitors_def Let_def remove_instance_def only_changes_def no_new_def)


lemma and_then_Inr [simp]: "and_then (Inr x) g = g x"
  by (simp add: and_then_def)

lemma and_then_Inl [simp]: "and_then (Inl err) g = Inl err"
  by (simp add: and_then_def)

lemma and_then_assoc: "and_then (and_then r g) h = and_then r (\<lambda>x. and_then (g x) h)"
  by (cases r) simp_all

lemma cap_step:
  assumes "sch_instances s name = Some i"
  shows "\<exists>s'. and_then (array_instance name
                     (map fst (cap_info_list (cc, cpb, cpi, cpo) sub name i_n o_n b_n pfx)) s)
                 (set_caps (cap_info_list (cc, cpb, cpi, cpo) sub name i_n o_n b_n pfx)) = Inr s' \<and>
           only_changes (insert name (set (cap_variants name))) s s' \<and>
           sch_instances s' name = None \<and>
           list_all (\<lambda>n. sch_instances s' n \<noteq> None) (cap_variants name)"
  using assms
  by (simp add: cap_info_list_def array_instance_def set_param_def reconnect_instance_def
                update_instance_def only_changes_def cap_variants_def)


lemma no_new_trans: "no_new s s1 \<Longrightarrow> no_new s1 s2 \<Longrightarrow> no_new s s2"
  by (simp add: no_new_def)

lemma only_changes_other:
  "only_changes N s s' \<Longrightarrow> m \<notin> N \<Longrightarrow> sch_instances s' m = sch_instances s m"
  by (simp add: only_changes_def)

lemma bias_pins_instances:
  "bias_pins d s = (bp, bn, s1) \<Longrightarrow> sch_instances s1 = sch_instances s"
  by (auto simp: bias_pins_def rename_pin_def remove_pin_def split: if_splits)

lemma bias_pins_no_new: "bias_pins d s = (bp, bn, s1) \<Longrightarrow> no_new s s1"
  by (simp add: bias_pins_instances no_new_def)

lemma design_caps_cons:
  "design_caps (cc, cpb, cpi, cpo) sub ((n, i_n, o_n, b_n, pfx) # rest) s =
     and_then
       (and_then (array_instance n (map fst (cap_info_list (cc, cpb, cpi, cpo) sub n i_n o_n b_n pfx)) s)
          (set_caps (cap_info_list (cc, cpb, cpi, cpo) sub n i_n o_n b_n pfx)))
       (design_caps (cc, cpb, cpi, cpo) sub rest)"
  by (simp add: Let_def and_then_assoc)

lemma cap_well_formed_four:
  assumes "cap_well_formed cv"
  obtains cc cpb cpi cpo where
    "map f (case cv of Cap_float c \<Rightarrow> [PFloat c, PInt 0, PInt 0, PInt 0] | Cap_tuple t \<Rightarrow> t)
       = [cc, cpb, cpi, cpo]"
proof (cases cv)
  case (Cap_float c)
  then show ?thesis using that by simp
next
  case (Cap_tuple t)
  with assms have "length t = 4" by (simp add: cap_well_formed_def)
  then obtain a b c d where "t = [a, b, c, d]"
    by (auto simp: length_Suc_conv eval_nat_numeral)
  with Cap_tuple show ?thesis using that by simp
qed

lemma capacitors_variants:
  assumes nex: "\<not> extracted p" and wf: "cap_well_formed (cap_val p)"
    and pp: "sch_instances s ''XCAPP'' \<noteq> None" and pn: "sch_instances s ''XCAPN'' \<noteq> None"
  shows "\<exists>s'. capacitors f p bp bn s = Inr s' \<and>
           only_changes (set (''XCAPP'' # ''XCAPN'' # cap_variants ''XCAPP'' @ cap_variants ''XCAPN'')) s s' \<and>
           sch_instances s' ''XCAPP'' = None \<and> sch_instances s' ''XCAPN'' = None \<and>
           list_all (\<lambda>n. sch_instances s' n \<noteq> None)
             (cap_variants ''XCAPP'' @ cap_variants ''XCAPN'')"
proof -
  from wf obtain cc cpb cpi cpo where
    strs: "map f (case cap_val p of Cap_float c \<Rightarrow> [PFloat c, PInt 0, PInt 0, PInt 0]
                  | Cap_tuple t \<Rightarrow> t) = [cc, cpb, cpi, cpo]"
    by (rule cap_well_formed_four)
  let ?pi = "if res_in_info p \<noteq> None then ''nc_'' else []"
  let ?po = "if res_out_info p \<noteq> None then ''nc_'' else []"
  from pp obtain ia where "sch_instances s ''XCAPP'' = Some ia" by auto
  from cap_step[OF this, of cc cpb cpi cpo "sub_name p" "''inp''" "''outp''" bp ?pi]
  obtain sa where A: "and_then (array_instance ''XCAPP''
        (map fst (cap_info_list (cc, cpb, cpi, cpo) (sub_name p) ''XCAPP'' ''inp'' ''outp'' bp ?pi)) s)
        (set_caps (cap_info_list (cc, cpb, cpi, cpo) (sub_name p) ''XCAPP'' ''inp'' ''outp'' bp ?pi)) = Inr sa"
    and ca: "only_changes (insert ''XCAPP'' (set (cap_variants ''XCAPP''))) s sa"
    and ga: "sch_instances sa ''XCAPP'' = None"
    and va: "list_all (\<lambda>n. sch_instances sa n \<noteq> None) (cap_variants ''XCAPP'')"
    by blast
  from ca pn have "sch_instances sa ''XCAPN'' \<noteq> None"
    by (simp add: only_changes_def cap_variants_def)
  then obtain ib where "sch_instances sa ''XCAPN'' = Some ib" by auto
  from cap_step[OF this, of cc cpb cpi cpo "sub_name p" "''inn''" "''outn''" bn ?po]
  obtain sb where Bq: "and_then (array_instance ''XCAPN''
        (map fst (cap_info_list (cc, cpb, cpi, cpo) (sub_name p) ''XCAPN'' ''inn'' ''outn'' bn ?po)) sa)
        (set_caps (cap_info_list (cc, cpb, cpi, cpo) (sub_name p) ''XCAPN'' ''inn'' ''outn'' bn ?po)) = Inr sb"
    and cb: "only_changes (insert ''XCAPN'' (set (cap_variants ''XCAPN''))) sa sb"
    and gb: "sch_instances sb ''XCAPN'' = None"
    and vb: "list_all (\<lambda>n. sch_instances sb n \<noteq> None) (cap_variants ''XCAPN'')"
    by blast
  have run: "capacitors f p bp bn s = Inr sb"
  proof -
    have "capacitors f p bp bn s =
            design_caps (cc, cpb, cpi, cpo) (sub_name p)
              [(''XCAPP'', ''inp'', ''outp'', bp, ?pi), (''XCAPN'', ''inn'', ''outn'', bn, ?po)] s"
      using nex strs by (simp add: capacitors_def Let_def del: design_caps.simps)
    also have "\<dots> = Inr sb"
      by (simp only: design_caps_cons A Bq and_then_Inr design_caps.simps(1))
    finally show ?thesis .
  qed
  have oc: "only_changes (set (''XCAPP'' # ''XCAPN'' # cap_variants ''XCAPP'' @ cap_variants ''XCAPN'')) s sb"
    using ca cb by (simp add: only_changes_def)
  have "sch_instances sb ''XCAPP'' = None"
    using cb ga by (simp add: only_changes_def cap_variants_def)
  moreover have "list_all (\<lambda>n. sch_instances sb n \<noteq> None) (cap_variants ''XCAPP'')"
    using cb va by (simp add: only_changes_def cap_variants_def)
  ultimately show ?thesis using run oc gb vb by simp
qed


lemma design_run:
  assumes nd: "ndum_well_formed (ndum p)"
    and inst: "has_instances s [''XRESP'', ''XRESN'', ''XRESPD'', ''XRESND'',
                          ''XMRESP1'', ''XMRESN1'', ''XMRESP2'', ''XMRESN2'']"
    and caps: "extracted p \<or>
               (cap_well_formed (cap_val p) \<and> has_instances s [''XCAPP'', ''XCAPN''])"
  obtains bp bn s1 s6 ip iq idp idn rp rn cm where
    "bias_pins (bias_diff p) s = (bp, bn, s1)"
    "design f p s = Inr (rename_pin ''BULK'' (sub_name p) s6)"
    "sch_pins s6 = sch_pins s1"
    "sch_instances s6 ''XRESP'' = Some ip"
    "designed ip = Some (Resistor \<lparr>rc_unit = \<lparr>unit_l = par_l p, unit_w = par_w p,
         unit_intent = intent p\<rparr>, rc_nser = PInt (nser p), rc_npar = PInt 1,
       rc_plus = (if connect_res_to_cap_res_metal p \<and> res_out_info p \<noteq> None
                  then ''nc_'' else []) @ ''outp'',
       rc_minus = bp,
       rc_mid = ((if connect_res_to_cap_res_metal p \<and> res_out_info p \<noteq> None
                  then ''nc_'' else []) @ ''outp'') @ ''_x'',
       rc_bulk = sub_name p, rc_connect_mid = None\<rparr>)"
    "sch_instances s6 ''XRESN'' = Some iq"
    "designed iq = Some (Resistor \<lparr>rc_unit = \<lparr>unit_l = par_l p, unit_w = par_w p,
         unit_intent = intent p\<rparr>, rc_nser = PInt (nser p), rc_npar = PInt 1,
       rc_plus = (if connect_res_to_cap_res_metal p \<and> res_out_info p \<noteq> None
                  then ''nc_'' else []) @ ''outn'',
       rc_minus = bn,
       rc_mid = ((if connect_res_to_cap_res_metal p \<and> res_out_info p \<noteq> None
                  then ''nc_'' else []) @ ''outn'') @ ''_x'',
       rc_bulk = sub_name p, rc_connect_mid = None\<rparr>)"
    "sch_instances s6 ''XRESPD'' = Some idp" "designed idp = Some (Resistor rp)"
    "sch_instances s6 ''XRESND'' = Some idn" "designed idn = Some (Resistor rn)"
    "rc_connect_mid rp = Some cm" "rc_connect_mid rn = Some cm"
    "ndum_tuple (ndum p) = [rc_npar rp, rc_nser rp, cm]"
    "ndum_tuple (ndum p) = [rc_npar rn, rc_nser rn, cm]"
    "sch_instances s6 ''XCAPP'' = None" "sch_instances s6 ''XCAPN'' = None"
    "extracted p \<Longrightarrow> no_new s s6"
    "\<not> extracted p \<Longrightarrow> list_all (\<lambda>n. sch_instances s6 n \<noteq> None)
                          (cap_variants ''XCAPP'' @ cap_variants ''XCAPN'')"
proof -
  let ?up = "\<lparr>unit_l = par_l p, unit_w = par_w p, unit_intent = intent p\<rparr>"
  let ?pfx = "if connect_res_to_cap_res_metal p \<and> res_out_info p \<noteq> None then ''nc_'' else []"
  obtain bp bn s1 where B: "bias_pins (bias_diff p) s = (bp, bn, s1)"
    by (metis prod_cases3)
  note i1 = bias_pins_instances[OF B]
  from inst i1 have p1: "sch_instances s1 ''XRESP'' \<noteq> None" "sch_instances s1 ''XRESN'' \<noteq> None"
    "sch_instances s1 ''XRESPD'' \<noteq> None" "sch_instances s1 ''XRESND'' \<noteq> None"
    "sch_instances s1 ''XMRESP1'' \<noteq> None" "sch_instances s1 ''XMRESN1'' \<noteq> None"
    "sch_instances s1 ''XMRESP2'' \<noteq> None" "sch_instances s1 ''XMRESN2'' \<noteq> None"
    by (simp_all add: has_instances_def)
  from design_resistors_frame[OF p1(1,2), of ?up "nser p" "sub_name p" "?pfx @ ''outp''" bp "?pfx @ ''outn''" bn]
  obtain s2 ip iq where R: "design_resistors ?up (nser p) (sub_name p)
        [(''XRESP'', ?pfx @ ''outp'', bp), (''XRESN'', ?pfx @ ''outn'', bn)] s1 = Inr s2"
    and c2: "only_changes {''XRESP'', ''XRESN''} s1 s2" and n2: "no_new s1 s2"
    and rp: "sch_instances s2 ''XRESP'' = Some ip"
      "designed ip = Some (Resistor \<lparr>rc_unit = ?up, rc_nser = PInt (nser p), rc_npar = PInt 1,
         rc_plus = ?pfx @ ''outp'', rc_minus = bp, rc_mid = (?pfx @ ''outp'') @ ''_x'',
         rc_bulk = sub_name p, rc_connect_mid = None\<rparr>)"
    and rn: "sch_instances s2 ''XRESN'' = Some iq"
      "designed iq = Some (Resistor \<lparr>rc_unit = ?up, rc_nser = PInt (nser p), rc_npar = PInt 1,
         rc_plus = ?pfx @ ''outn'', rc_minus = bn, rc_mid = (?pfx @ ''outn'') @ ''_x'',
         rc_bulk = sub_name p, rc_connect_mid = None\<rparr>)"
    by blast
  from c2 p1 have p2: "sch_instances s2 ''XRESPD'' \<noteq> None" "sch_instances s2 ''XRESND'' \<noteq> None"
    "sch_instances s2 ''XMRESP1'' \<noteq> None" "sch_instances s2 ''XMRESN1'' \<noteq> None"
    "sch_instances s2 ''XMRESP2'' \<noteq> None" "sch_instances s2 ''XMRESN2'' \<noteq> None"
    by (simp_all add: only_changes_def)
  from dummy_resistors_frame[OF nd p2(1,2), of ?up bp bn]
  obtain s3 idp idn rp' rn' cm where D: "dummy_resistors p ?up bp bn s2 = Inr s3"
    and c3: "only_changes {''XRESPD'', ''XRESND''} s2 s3" and n3: "no_new s2 s3"
    and dp: "sch_instances s3 ''XRESPD'' = Some idp" "designed idp = Some (Resistor rp')"
      "sch_instances s3 ''XRESND'' = Some idn" "designed idn = Some (Resistor rn')"
      "rc_connect_mid rp' = Some cm" "rc_connect_mid rn' = Some cm"
      "ndum_tuple (ndum p) = [rc_npar rp', rc_nser rp', cm]"
      "ndum_tuple (ndum p) = [rc_npar rn', rc_nser rn', cm]"
    by blast
  from c3 p2 have p3: "sch_instances s3 ''XMRESP1'' \<noteq> None" "sch_instances s3 ''XMRESN1'' \<noteq> None"
    "sch_instances s3 ''XMRESP2'' \<noteq> None" "sch_instances s3 ''XMRESN2'' \<noteq> None"
    by (simp_all add: only_changes_def)
  from p3 have "res_in_info p = None \<or>
      (sch_instances s3 ''XMRESP1'' \<noteq> None \<and> sch_instances s3 ''XMRESN1'' \<noteq> None)" by simp
  from metal_resistors_frame[OF this]
  obtain s4 where M1: "metal_resistors (res_in_info p) ''XMRESP1'' ''XMRESN1'' s3 = Inr s4"
    and c4: "only_changes {''XMRESP1'', ''XMRESN1''} s3 s4" and n4: "no_new s3 s4"
    by blast
  from c4 p3 have p4: "sch_instances s4 ''XMRESP2'' \<noteq> None" "sch_instances s4 ''XMRESN2'' \<noteq> None"
    by (simp_all add: only_changes_def)
  from p4 have "res_out_info p = None \<or>
      (sch_instances s4 ''XMRESP2'' \<noteq> None \<and> sch_instances s4 ''XMRESN2'' \<noteq> None)" by simp
  from metal_resistors_frame[OF this]
  obtain s5 where M2: "metal_resistors (res_out_info p) ''XMRESP2'' ''XMRESN2'' s4 = Inr s5"
    and c5: "only_changes {''XMRESP2'', ''XMRESN2''} s4 s5" and n5: "no_new s4 s5"
    by blast
  have n05: "no_new s s5"
    using bias_pins_no_new[OF B] n2 n3 n4 n5 by (blast intro: no_new_trans)
  have keep5: "sch_instances s5 ''XCAPP'' = sch_instances s ''XCAPP''"
    "sch_instances s5 ''XCAPN'' = sch_instances s ''XCAPN''"
    using c2 c3 c4 c5 i1 by (simp_all add: only_changes_def)
  have res5: "sch_instances s5 ''XRESP'' = sch_instances s2 ''XRESP''"
    "sch_instances s5 ''XRESN'' = sch_instances s2 ''XRESN''"
    "sch_instances s5 ''XRESPD'' = sch_instances s3 ''XRESPD''"
    "sch_instances s5 ''XRESND'' = sch_instances s3 ''XRESND''"
    using c3 c4 c5 by (simp_all add: only_changes_def)
  have pins5: "sch_pins s5 = sch_pins s1"
    using c2 c3 c4 c5 by (simp add: only_changes_def)
  have "\<exists>s6 N. capacitors f p bp bn s5 = Inr s6 \<and> only_changes N s5 s6 \<and>
          N \<subseteq> set (''XCAPP'' # ''XCAPN'' # cap_variants ''XCAPP'' @ cap_variants ''XCAPN'') \<and>
          sch_instances s6 ''XCAPP'' = None \<and> sch_instances s6 ''XCAPN'' = None \<and>
          (extracted p \<longrightarrow> no_new s5 s6) \<and>
          (\<not> extracted p \<longrightarrow> list_all (\<lambda>n. sch_instances s6 n \<noteq> None)
                                 (cap_variants ''XCAPP'' @ cap_variants ''XCAPN''))"
  proof (cases "extracted p")
    case True
    from capacitors_extracted[OF True, of f bp bn s5] show ?thesis
      using True by (metis insert_mono list.simps(15) subset_insertI2 subset_refl empty_subsetI)
  next
    case False
    with caps have wf: "cap_well_formed (cap_val p)"
      and pc: "sch_instances s5 ''XCAPP'' \<noteq> None" "sch_instances s5 ''XCAPN'' \<noteq> None"
      using keep5 by (simp_all add: has_instances_def)
    from capacitors_variants[OF False wf pc, of f bp bn] show ?thesis
      using False by blast
  qed
  then obtain s6 N where C: "capacitors f p bp bn s5 = Inr s6"
    and c6: "only_changes N s5 s6"
    and N: "N \<subseteq> set (''XCAPP'' # ''XCAPN'' # cap_variants ''XCAPP'' @ cap_variants ''XCAPN'')"
    and gone: "sch_instances s6 ''XCAPP'' = None" "sch_instances s6 ''XCAPN'' = None"
    and ex6: "extracted p \<Longrightarrow> no_new s5 s6"
    and nex6: "\<not> extracted p \<Longrightarrow> list_all (\<lambda>n. sch_instances s6 n \<noteq> None)
                                 (cap_variants ''XCAPP'' @ cap_variants ''XCAPN'')"
    by blast
  have out: "''XRESP'' \<notin> N" "''XRESN'' \<notin> N" "''XRESPD'' \<notin> N" "''XRESND'' \<notin> N"
    using N by (auto simp: cap_variants_def)
  have res6: "sch_instances s6 ''XRESP'' = Some ip" "sch_instances s6 ''XRESN'' = Some iq"
    "sch_instances s6 ''XRESPD'' = Some idp" "sch_instances s6 ''XRESND'' = Some idn"
    using only_changes_other[OF c6 out(1)] only_changes_other[OF c6 out(2)]
          only_changes_other[OF c6 out(3)] only_changes_other[OF c6 out(4)]
          res5 rp(1) rn(1) dp(1,3) by simp_all
  have pins6: "sch_pins s6 = sch_pins s1"
    using c6 pins5 by (simp add: only_changes_def)
  have D': "design f p s = Inr (rename_pin ''BULK'' (sub_name p) s6)"
    using B R D M1 M2 C by (simp add: design_def Let_def)
  show ?thesis
    using that[OF B D' pins6 res6(1) rp(2) res6(2) rn(2) res6(3) dp(2) res6(4) dp(4) dp(5,6,7,8) gone]
          ex6 nex6 n05 no_new_trans by blast
qed

subsection \<open>The generator as a whole\<close>

lemma single_bias_pin:
  assumes "distinct xs" and "''bias'' \<notin> set xs" and "sub \<noteq> ''bias''"
  shows "count_list (map (\<lambda>q. if q = ''BULK'' then sub else q)
                      (filter (\<lambda>q. q \<noteq> ''biasn'')
                         (map (\<lambda>q. if q = ''biasp'' then ''bias'' else q) xs))) ''bias''
         = (if ''biasp'' \<in> set xs then 1 else 0)"
  using assms by (induction xs) auto

lemma no_biasn_pin:
  assumes "sub \<noteq> ''biasn''"
  shows "''biasn'' \<notin> set (map (\<lambda>q. if q = ''BULK'' then sub else q)
                            (filter (\<lambda>q. q \<noteq> ''biasn'') ys))"
  using assms by auto

text \<open>
  C6. With \<^verbatim>\<open>extracted=True\<close> the generator returns a schematic in which neither
  \<^verbatim>\<open>XCAPP\<close> nor \<^verbatim>\<open>XCAPN\<close> exists and no instance has been added (so no capacitor
  variant), whatever \<^verbatim>\<open>cap_val\<close> and the other capacitor-related parameters are. The
  parameter set is one the generator accepts: \<^verbatim>\<open>ndum\<close> is an int or a tuple of two or
  three, and the template holds the resistor instances that \<^verbatim>\<open>design\<close> names.
\<close>

theorem design_extracted_removes_capacitors:
  assumes "extracted p" and "ndum_well_formed (ndum p)"
    and "has_instances s [''XRESP'', ''XRESN'', ''XRESPD'', ''XRESND'',
                          ''XMRESP1'', ''XMRESN1'', ''XMRESP2'', ''XMRESN2'']"
  shows "\<exists>s'. design f p s = Inr s' \<and>
           sch_instances s' ''XCAPP'' = None \<and> sch_instances s' ''XCAPN'' = None \<and>
           dom (sch_instances s') \<subseteq> dom (sch_instances s) - {''XCAPP'', ''XCAPN''}"
proof -
  from assms(1) have caps: "extracted p \<or>
      (cap_well_formed (cap_val p) \<and> has_instances s [''XCAPP'', ''XCAPN''])" by simp
  show ?thesis
  proof (rule design_run[OF assms(2,3) caps, of f], goal_cases)
    case (1 bp bn s1 s6 ip iq idp idn rp rn cm)
    note run = 1(2) and gone = 1(16,17) and nn = 1(18)[OF assms(1)]
    have "dom (sch_instances s6) \<subseteq> dom (sch_instances s) - {''XCAPP'', ''XCAPN''}"
      using nn gone by (auto simp: no_new_def)
    with run gone show ?case by (simp add: rename_pin_def)
  qed
qed

theorem design_extracted_removes_capacitors_witness:
  "\<exists>s'. design si_string (hpf_defaults\<lparr>extracted := True, cap_val := Cap_tuple [PFloat 1]\<rparr>)
           hpf_template = Inr s' \<and>
        sch_instances s' ''XCAPP'' = None \<and> sch_instances s' ''XCAPN'' = None \<and>
        dom (sch_instances s') \<subseteq> dom (sch_instances hpf_template) - {''XCAPP'', ''XCAPN''}"
  using design_extracted_removes_capacitors
          [of "hpf_defaults\<lparr>extracted := True, cap_val := Cap_tuple [PFloat 1]\<rparr>"
              hpf_template si_string]
  by (simp add: hpf_defaults_def hpf_template_def has_instances_def ndum_well_formed_def)

text \<open>
  C7. Run on the default parameters (a single float \<^verbatim>\<open>cap_val\<close>, so all three parasitic
  values are zero, and \<^verbatim>\<open>extracted=False\<close>), the generator makes four variants of each
  capacitor, for every conversion function: the tests of lines 172 to 176 compare the
  converted strings with 0 and always succeed.
\<close>

theorem design_float_cap_makes_all_variants:
  "\<exists>s'. design f hpf_defaults hpf_template = Inr s' \<and>
        list_all (\<lambda>n. sch_instances s' n \<noteq> None)
          [''XCAPPC'', ''XCAPPPB'', ''XCAPPPI'', ''XCAPPPO'',
           ''XCAPNC'', ''XCAPNPB'', ''XCAPNPI'', ''XCAPNPO'']"
proof -
  have nd: "ndum_well_formed (ndum hpf_defaults)"
    by (simp add: hpf_defaults_def ndum_well_formed_def)
  have inst: "has_instances hpf_template [''XRESP'', ''XRESN'', ''XRESPD'', ''XRESND'',
                          ''XMRESP1'', ''XMRESN1'', ''XMRESP2'', ''XMRESN2'']"
    by (simp add: hpf_template_def has_instances_def)
  have caps: "extracted hpf_defaults \<or> (cap_well_formed (cap_val hpf_defaults) \<and>
                has_instances hpf_template [''XCAPP'', ''XCAPN''])"
    by (simp add: hpf_defaults_def hpf_template_def has_instances_def cap_well_formed_def)
  have nex: "\<not> extracted hpf_defaults" by (simp add: hpf_defaults_def)
  show ?thesis
  proof (rule design_run[OF nd inst caps, of f], goal_cases)
    case (1 bp bn s1 s6 ip iq idp idn rp rn cm)
    note run = 1(2) and all = 1(19)[OF nex]
    from run all show ?case by (simp add: rename_pin_def cap_variants_def)
  qed
qed

text \<open>
  C8. Run with \<^verbatim>\<open>ndum=0\<close>, the generator does not remove the dummy resistors: it calls
  \<^verbatim>\<open>design_resistor\<close> on \<^verbatim>\<open>XRESPD\<close> and \<^verbatim>\<open>XRESND\<close> with zero parallel and one series
  unit, because the tuple tested by \<^verbatim>\<open>not ndum\<close> has three elements by then. Run with the
  empty tuple, it raises at the unpacking of line 133.
\<close>

theorem design_ndum_zero_keeps_dummies:
  "(\<exists>s' ip iq rp rq.
      design f (hpf_defaults\<lparr>ndum := Ndum_int 0\<rparr>) hpf_template = Inr s' \<and>
      sch_instances s' ''XRESPD'' = Some ip \<and> designed ip = Some (Resistor rp) \<and>
      rc_npar rp = PInt 0 \<and> rc_nser rp = PInt 1 \<and>
      sch_instances s' ''XRESND'' = Some iq \<and> designed iq = Some (Resistor rq) \<and>
      rc_npar rq = PInt 0 \<and> rc_nser rq = PInt 1) \<and>
   design f (hpf_defaults\<lparr>ndum := Ndum_tuple []\<rparr>) hpf_template = Inl (ValueError (Unpack 3 0))"
proof
  let ?p = "hpf_defaults\<lparr>ndum := Ndum_int 0\<rparr>"
  have nd: "ndum_well_formed (ndum ?p)"
    by (simp add: ndum_well_formed_def)
  have inst: "has_instances hpf_template [''XRESP'', ''XRESN'', ''XRESPD'', ''XRESND'',
                          ''XMRESP1'', ''XMRESN1'', ''XMRESP2'', ''XMRESN2'']"
    by (simp add: hpf_template_def has_instances_def)
  have caps: "extracted ?p \<or> (cap_well_formed (cap_val ?p) \<and>
                has_instances hpf_template [''XCAPP'', ''XCAPN''])"
    by (simp add: hpf_defaults_def hpf_template_def has_instances_def cap_well_formed_def)
  show "\<exists>s' ip iq rp rq.
      design f ?p hpf_template = Inr s' \<and>
      sch_instances s' ''XRESPD'' = Some ip \<and> designed ip = Some (Resistor rp) \<and>
      rc_npar rp = PInt 0 \<and> rc_nser rp = PInt 1 \<and>
      sch_instances s' ''XRESND'' = Some iq \<and> designed iq = Some (Resistor rq) \<and>
      rc_npar rq = PInt 0 \<and> rc_nser rq = PInt 1"
  proof (rule design_run[OF nd inst caps, of f], goal_cases)
    case (1 bp bn s1 s6 ip iq idp idn rp rn cm)
    note run = 1(2) and d = 1(8,9,10,11) and t = 1(14,15)
    from t have v: "rc_npar rp = PInt 0" "rc_nser rp = PInt 1"
      "rc_npar rn = PInt 0" "rc_nser rn = PInt 1"
      by (simp_all add: ndum_tuple_def)
    have "sch_instances (rename_pin ''BULK'' (sub_name ?p) s6) = sch_instances s6"
      by (simp add: rename_pin_def)
    with run d v show ?case by simp
  qed
next
  let ?q = "hpf_defaults\<lparr>ndum := Ndum_tuple []\<rparr>"
  let ?up = "\<lparr>unit_l = par_l ?q, unit_w = par_w ?q, unit_intent = intent ?q\<rparr>"
  have B: "bias_pins (bias_diff ?q) hpf_template = (''biasp'', ''biasn'', hpf_template)"
    by (simp add: bias_pins_def hpf_defaults_def)
  have p: "sch_instances hpf_template ''XRESP'' \<noteq> None"
    "sch_instances hpf_template ''XRESN'' \<noteq> None"
    by (simp_all add: hpf_template_def)
  from design_resistors_frame[OF p, of ?up "nser ?q" "sub_name ?q"]
  obtain s2 where R: "design_resistors ?up (nser ?q) (sub_name ?q)
      [(''XRESP'', ''outp'', ''biasp''), (''XRESN'', ''outn'', ''biasn'')] hpf_template = Inr s2"
    by blast
  have D: "dummy_resistors ?q ?up ''biasp'' ''biasn'' s2 = Inl (ValueError (Unpack 3 0))"
    by (simp add: dummy_resistors_def ndum_tuple_def Let_def)
  have pfx: "(if connect_res_to_cap_res_metal ?q \<and> res_out_info ?q \<noteq> None then ''nc_'' else [])
               = []"
    by (simp add: hpf_defaults_def)
  show "design f ?q hpf_template = Inl (ValueError (Unpack 3 0))"
    unfolding design_def Let_def B pfx using R D by simp
qed
text \<open>
  C9. With \<^verbatim>\<open>bias_diff=False\<close> the pin list of the returned schematic is the template's
  with \<^verbatim>\<open>biasp\<close> renamed to \<^verbatim>\<open>bias\<close> and \<^verbatim>\<open>biasn\<close> removed (and, last, \<^verbatim>\<open>BULK\<close> renamed
  to the substrate name); both series resistors have \<^verbatim>\<open>bias\<close> as their bias terminal net.
  The pin merge is the first change \<^verbatim>\<open>design\<close> makes. For a template whose pins are
  distinct, with a \<^verbatim>\<open>biasp\<close> pin and no \<^verbatim>\<open>bias\<close> pin, and a substrate name that is not
  itself a bias pin name, the result has exactly one \<^verbatim>\<open>bias\<close> pin and no \<^verbatim>\<open>biasn\<close> pin.
\<close>

theorem design_common_mode_bias:
  assumes "\<not> bias_diff p" and "ndum_well_formed (ndum p)"
    and "has_instances s [''XRESP'', ''XRESN'', ''XRESPD'', ''XRESND'',
                          ''XMRESP1'', ''XMRESN1'', ''XMRESP2'', ''XMRESN2'']"
    and "extracted p \<or> (cap_well_formed (cap_val p) \<and> has_instances s [''XCAPP'', ''XCAPN''])"
    and "distinct (sch_pins s)" and "''biasp'' \<in> set (sch_pins s)"
    and "''bias'' \<notin> set (sch_pins s)"
    and "sub_name p \<noteq> ''bias''" and "sub_name p \<noteq> ''biasn''"
  shows "\<exists>s' ip iq rp rq.
           design f p s = Inr s' \<and>
           sch_pins s' = map (\<lambda>q. if q = ''BULK'' then sub_name p else q)
                           (filter (\<lambda>q. q \<noteq> ''biasn'')
                              (map (\<lambda>q. if q = ''biasp'' then ''bias'' else q) (sch_pins s))) \<and>
           count_list (sch_pins s') ''bias'' = 1 \<and> ''biasn'' \<notin> set (sch_pins s') \<and>
           sch_instances s' ''XRESP'' = Some ip \<and> designed ip = Some (Resistor rp) \<and>
           rc_minus rp = ''bias'' \<and>
           sch_instances s' ''XRESN'' = Some iq \<and> designed iq = Some (Resistor rq) \<and>
           rc_minus rq = ''bias''"
proof -
  let ?pins = "map (\<lambda>q. if q = ''BULK'' then sub_name p else q)
                 (filter (\<lambda>q. q \<noteq> ''biasn'')
                    (map (\<lambda>q. if q = ''biasp'' then ''bias'' else q) (sch_pins s)))"
  show ?thesis
  proof (rule design_run[OF assms(2,3,4), of f], goal_cases)
    case (1 bp bn s1 s6 ip iq idp idn rp rn cm)
    note B = 1(1) and run = 1(2) and pins = 1(3) and r = 1(4,5,6,7)
    from B assms(1) have b: "bp = ''bias''" "bn = ''bias''"
      and s1: "sch_pins s1 = filter (\<lambda>q. q \<noteq> ''biasn'')
                              (map (\<lambda>q. if q = ''biasp'' then ''bias'' else q) (sch_pins s))"
      by (auto simp: bias_pins_def rename_pin_def remove_pin_def)
    let ?s' = "rename_pin ''BULK'' (sub_name p) s6"
    have final: "sch_pins ?s' = ?pins"
      using pins s1 by (simp add: rename_pin_def)
    have one: "count_list (sch_pins ?s') ''bias'' = 1"
      unfolding final using single_bias_pin[OF assms(5,7,8)] assms(6) by simp
    have none: "''biasn'' \<notin> set (sch_pins ?s')"
      unfolding final using no_biasn_pin[OF assms(9)] by blast
    have i: "sch_instances ?s' = sch_instances s6" by (simp add: rename_pin_def)
    from r b have m: "\<exists>rp. designed ip = Some (Resistor rp) \<and> rc_minus rp = ''bias''"
      "\<exists>rq. designed iq = Some (Resistor rq) \<and> rc_minus rq = ''bias''"
      by simp_all
    from run final one none i r(1,3) m show ?case by auto
  qed
qed

theorem design_common_mode_bias_witness:
  "\<exists>s' ip iq rp rq.
     design si_string (hpf_defaults\<lparr>bias_diff := False\<rparr>) hpf_template = Inr s' \<and>
     sch_pins s' = [''inp'', ''inn'', ''outp'', ''outn'', ''bias'', ''VDD''] \<and>
     count_list (sch_pins s') ''bias'' = 1 \<and> ''biasn'' \<notin> set (sch_pins s') \<and>
     sch_instances s' ''XRESP'' = Some ip \<and> designed ip = Some (Resistor rp) \<and>
     rc_minus rp = ''bias'' \<and>
     sch_instances s' ''XRESN'' = Some iq \<and> designed iq = Some (Resistor rq) \<and>
     rc_minus rq = ''bias''"
  using design_common_mode_bias [of "hpf_defaults\<lparr>bias_diff := False\<rparr>" hpf_template si_string]
  by (simp add: hpf_defaults_def hpf_template_def has_instances_def ndum_well_formed_def
                cap_well_formed_def)

text \<open>
  C10. With \<^verbatim>\<open>res_out_info=None\<close> the series resistors \<^verbatim>\<open>XRESP\<close> and \<^verbatim>\<open>XRESN\<close> are
  designed with \<^verbatim>\<open>outp\<close> and \<^verbatim>\<open>outn\<close> as their output nets, without the \<^verbatim>\<open>nc_\<close> prefix,
  and the result of \<^verbatim>\<open>design\<close> does not depend on \<^verbatim>\<open>connect_res_to_cap_res_metal\<close>.
\<close>

theorem design_without_output_metal:
  assumes "res_out_info p = None" and "ndum_well_formed (ndum p)"
    and "has_instances s [''XRESP'', ''XRESN'', ''XRESPD'', ''XRESND'',
                          ''XMRESP1'', ''XMRESN1'', ''XMRESP2'', ''XMRESN2'']"
    and "extracted p \<or> (cap_well_formed (cap_val p) \<and> has_instances s [''XCAPP'', ''XCAPN''])"
  shows "\<exists>s' ip iq rp rq.
           design f p s = Inr s' \<and>
           sch_instances s' ''XRESP'' = Some ip \<and> designed ip = Some (Resistor rp) \<and>
           rc_plus rp = ''outp'' \<and>
           sch_instances s' ''XRESN'' = Some iq \<and> designed iq = Some (Resistor rq) \<and>
           rc_plus rq = ''outn'' \<and>
           design f (p\<lparr>connect_res_to_cap_res_metal := b\<rparr>) s = design f p s"
proof -
  let ?q = "p\<lparr>connect_res_to_cap_res_metal := b\<rparr>"
  have d: "dummy_resistors ?q up bp bn t = dummy_resistors p up bp bn t" for up bp bn t
    by (simp add: dummy_resistors_def Let_def cong: list.case_cong)
  have c: "capacitors f ?q bp bn t = capacitors f p bp bn t" for bp bn t
    by (simp add: capacitors_def Let_def cong: list.case_cong)
  have same: "design f ?q s = design f p s"
    using assms(1) by (simp add: design_def Let_def d c)
  show ?thesis
  proof (rule design_run[OF assms(2,3,4), of f], goal_cases)
    case (1 bp bn s1 s6 ip iq idp idn rp rn cm)
    note run = 1(2) and r = 1(4,5,6,7)
    have i: "sch_instances (rename_pin ''BULK'' (sub_name p) s6) = sch_instances s6"
      by (simp add: rename_pin_def)
    from r assms(1) have m: "\<exists>rp. designed ip = Some (Resistor rp) \<and> rc_plus rp = ''outp''"
      "\<exists>rq. designed iq = Some (Resistor rq) \<and> rc_plus rq = ''outn''"
      by simp_all
    from run i r(1,3) m same show ?case by auto
  qed
qed

theorem design_without_output_metal_witness:
  "\<exists>s' ip iq rp rq.
     design si_string hpf_defaults hpf_template = Inr s' \<and>
     sch_instances s' ''XRESP'' = Some ip \<and> designed ip = Some (Resistor rp) \<and>
     rc_plus rp = ''outp'' \<and>
     sch_instances s' ''XRESN'' = Some iq \<and> designed iq = Some (Resistor rq) \<and>
     rc_plus rq = ''outn'' \<and>
     design si_string (hpf_defaults\<lparr>connect_res_to_cap_res_metal := False\<rparr>) hpf_template
       = design si_string hpf_defaults hpf_template"
  using design_without_output_metal [of hpf_defaults hpf_template si_string False]
  by (simp add: hpf_defaults_def hpf_template_def has_instances_def ndum_well_formed_def
                cap_well_formed_def)

end
